theory Spec2Isabelle
  imports Main
begin

section \<open>The BMQ scheduler core (kernel/sched/bmq.c)\<close>

text \<open>
  A shallow embedding of the scheduling state and of the functions of
  \<^verbatim>\<open>kernel/sched/bmq.c\<close> that maintain it. Tasks and CPUs are named by natural
  numbers (a \<^verbatim>\<open>struct task_struct *\<close> is a task identifier, a \<^verbatim>\<open>struct rq *\<close> is the
  number of its CPU); the global variables of the file are the fields of one state record
  that every function takes and returns. Locks, memory barriers, tracing, PSI, cpufreq
  and schedstat counters have no effect on that state and are left out.
\<close>

subsection \<open>Constants\<close>

text \<open>
  Modelled from the spec: the priority constants of \<^verbatim>\<open>include/linux/sched/prio.h\<close>,
  which is not among the sources. The spec gives \<^verbatim>\<open>rt_priority\<close> the range 0-99 with
  \<^verbatim>\<open>normal_prio = MAX_RT_PRIO - 1 - rt_priority\<close> for real-time policies and nice the
  range [-20, 19], nice 0 lying 20 above \<^verbatim>\<open>MAX_RT_PRIO\<close>.
\<close>

definition MAX_RT_PRIO :: int where
  "MAX_RT_PRIO = 100"

definition MAX_USER_RT_PRIO :: int where
  "MAX_USER_RT_PRIO = 100"

definition MAX_PRIO :: int where
  "MAX_PRIO = MAX_RT_PRIO + 40"

definition NICE_TO_PRIO :: "int \<Rightarrow> int" where
  "NICE_TO_PRIO nice = nice + (MAX_RT_PRIO + 20)"

definition PRIO_TO_NICE :: "int \<Rightarrow> int" where
  "PRIO_TO_NICE p = p - (MAX_RT_PRIO + 20)"

text \<open>
  Modelled from the spec: the policy identifiers FIFO, RR, NORMAL, BATCH, IDLE and
  DEADLINE of \<^verbatim>\<open>include/uapi/linux/sched.h\<close>, which is not among the sources; the
  numbers are those of the system-call interface.
\<close>

definition SCHED_NORMAL :: int where "SCHED_NORMAL = 0"
definition SCHED_FIFO :: int where "SCHED_FIFO = 1"
definition SCHED_RR :: int where "SCHED_RR = 2"
definition SCHED_BATCH :: int where "SCHED_BATCH = 3"
definition SCHED_IDLE :: int where "SCHED_IDLE = 5"
definition SCHED_DEADLINE :: int where "SCHED_DEADLINE = 6"

definition EPERM :: int where "EPERM = 1"
definition EINVAL :: int where "EINVAL = 22"

text \<open>\<^verbatim>\<open>#define RESCHED_NS (100 * 1000)\<close>: reschedule if less than this many ns are left.\<close>

definition RESCHED_NS :: int where
  "RESCHED_NS = 100 * 1000"

text \<open>
  The constants of \<^verbatim>\<open>bmq_sched.h\<close> and of the kernel configuration are not among the
  sources either; every function that uses one takes them as a parameter.
\<close>

record config =
  MAX_PRIORITY_ADJ :: int
  bmq_BITS :: nat
  IDLE_TASK_SCHED_PRIO :: nat
  CONFIG_SCHED_TIMESLICE :: nat

definition SCHED_TIMESLICE_NS :: "config \<Rightarrow> int" where
  "SCHED_TIMESLICE_NS cfg = int (CONFIG_SCHED_TIMESLICE cfg) * 1000 * 1000"

definition WM_BITS :: "config \<Rightarrow> nat" where
  "WM_BITS cfg = bmq_BITS cfg + 1"

definition IDLE_WM :: nat where
  "IDLE_WM = 1"

text \<open>
  The configuration of the BMQ patch itself: \<^verbatim>\<open>MAX_PRIORITY_ADJ\<close> 4, 50 queue levels
  (one real-time level, 40 nice levels widened by the adjustment on both sides, the
  idle level) and a 4 ms time slice. It is used for concrete evaluations only.
\<close>

definition bmq_config :: config where
  "bmq_config = \<lparr>MAX_PRIORITY_ADJ = 4, bmq_BITS = 50, IDLE_TASK_SCHED_PRIO = 49,
     CONFIG_SCHED_TIMESLICE = 4\<rparr>"


subsection \<open>Machine arithmetic\<close>

text \<open>
  Priorities are C \<^verbatim>\<open>int\<close>s far from the limits of the type and are modelled as
  unbounded integers. The clocks are \<^verbatim>\<open>u64\<close>, \<^verbatim>\<open>time_slice\<close> is \<^verbatim>\<open>s64\<close> and
  \<^verbatim>\<open>nr_running\<close> is \<^verbatim>\<open>unsigned long\<close> (64 bits); their wrap-around is written out.
\<close>

definition u64 :: "int \<Rightarrow> nat" where
  "u64 i = nat (i mod 2 ^ 64)"

definition s64 :: "int \<Rightarrow> int" where
  "s64 i = (i + 2 ^ 63) mod 2 ^ 64 - 2 ^ 63"

definition s32 :: "int \<Rightarrow> int" where
  "s32 i = (i + 2 ^ 31) mod 2 ^ 32 - 2 ^ 31"

text \<open>C division truncates towards zero.\<close>

definition c_div :: "int \<Rightarrow> int \<Rightarrow> int" where
  "c_div a b = (if (a < 0) = (b < 0) then \<bar>a\<bar> div \<bar>b\<bar> else - (\<bar>a\<bar> div \<bar>b\<bar>))"

subsection \<open>Data\<close>

type_synonym tid = nat
type_synonym cpu = nat
type_synonym cpumask = "nat set"

datatype error = BUG | OutOfBounds

record task_struct =
  policy :: int
  prio :: int
  static_prio :: int
  normal_prio :: int
  rt_priority :: nat
  boost_prio :: int
  bmq_idx :: int
  time_slice :: int
  last_ran :: nat
  sched_time :: nat
  on_rq :: int
  on_cpu :: int
  task_cpu :: cpu
  cpus_mask :: cpumask
  pi_top_task :: "tid option"
  sched_reset_on_fork :: bool
  mm :: bool
  need_resched :: bool

text \<open>
  \<^verbatim>\<open>struct bmq\<close>: the bitmap of non-empty levels and one list of tasks per level, the
  head of the C list first.
\<close>

record bmq =
  bitmap :: "nat set"
  heads :: "nat \<Rightarrow> tid list"

record rq =
  queue :: bmq
  watermark :: nat
  nr_running :: nat
  curr :: tid
  idle :: tid
  stop :: "tid option"
  skip :: "tid option"
  clock :: nat
  clock_task :: nat
  last_ts_switch :: nat
  online :: bool

text \<open>
  The global variables of the file, the tasks and the per-CPU runqueues.
  \<^verbatim>\<open>cpu_smt_mask\<close>, \<^verbatim>\<open>cpu_online_mask\<close> and \<^verbatim>\<open>nr_cpu_ids\<close> are the kernel's.
\<close>

record sched_state =
  tasks :: "tid \<Rightarrow> task_struct"
  runqueues :: "cpu \<Rightarrow> rq"
  sched_rq_watermark :: "nat \<Rightarrow> cpumask"
  sched_rq_watermark_bitmap :: "nat set"
  sched_rq_pending_mask :: cpumask
  sched_yield_type :: int
  sched_smt_present :: bool
  cpu_smt_mask :: "cpu \<Rightarrow> cpumask"
  cpu_online_mask :: cpumask
  sched_cpu_affinity_chk_masks :: "cpu \<Rightarrow> cpumask list"
  nr_cpu_ids :: nat

definition upd_task :: "tid \<Rightarrow> (task_struct \<Rightarrow> task_struct) \<Rightarrow> sched_state \<Rightarrow> sched_state" where
  "upd_task p f s = s\<lparr>tasks := (tasks s)(p := f (tasks s p))\<rparr>"

definition upd_rq :: "cpu \<Rightarrow> (rq \<Rightarrow> rq) \<Rightarrow> sched_state \<Rightarrow> sched_state" where
  "upd_rq c f s = s\<lparr>runqueues := (runqueues s)(c := f (runqueues s c))\<rparr>"

subsection \<open>Boost and deboost\<close>

definition rq_switch_time :: "rq \<Rightarrow> nat" where
  "rq_switch_time r = u64 (int (clock r) - int (last_ts_switch r))"

text \<open>
  \<^verbatim>\<open>SCHED_TIMESLICE_NS >> (10 - MAX_PRIORITY_ADJ - boost_prio)\<close>. The shift count is
  between 0 and 10 when the adjustment is at most 5 and \<^verbatim>\<open>boost_prio\<close> is within its
  bounds; C leaves a negative count undefined, here it shifts by 0.
\<close>

definition boost_threshold :: "config \<Rightarrow> task_struct \<Rightarrow> int" where
  "boost_threshold cfg p =
     SCHED_TIMESLICE_NS cfg div 2 ^ nat (10 - MAX_PRIORITY_ADJ cfg - boost_prio p)"

definition boost_task :: "config \<Rightarrow> task_struct \<Rightarrow> rq \<Rightarrow> task_struct" where
  "boost_task cfg p r =
     (if policy p = SCHED_NORMAL \<or> policy p = SCHED_BATCH \<or> policy p = SCHED_IDLE then
        (let limit = (if policy p = SCHED_NORMAL then - MAX_PRIORITY_ADJ cfg else 0) in
         if boost_prio p > limit \<and> rq_switch_time r < u64 (boost_threshold cfg p)
         then p\<lparr>boost_prio := boost_prio p - 1\<rparr> else p)
      else p)"

definition deboost_task :: "config \<Rightarrow> task_struct \<Rightarrow> task_struct" where
  "deboost_task cfg p =
     (if boost_prio p < MAX_PRIORITY_ADJ cfg then p\<lparr>boost_prio := boost_prio p + 1\<rparr> else p)"

subsection \<open>Priorities\<close>

definition task_sched_prio :: "task_struct \<Rightarrow> int" where
  "task_sched_prio p =
     (if prio p < MAX_RT_PRIO then 0 else prio p - MAX_RT_PRIO + boost_prio p)"

definition rt_policy :: "int \<Rightarrow> bool" where
  "rt_policy pol \<longleftrightarrow> pol = SCHED_FIFO \<or> pol = SCHED_RR"

definition rt_prio :: "int \<Rightarrow> bool" where
  "rt_prio pr \<longleftrightarrow> pr < MAX_RT_PRIO"

text \<open>
  \<^verbatim>\<open>normal_prio(p)\<close>. \<^verbatim>\<open>rt_priority\<close> is an \<^verbatim>\<open>unsigned int\<close>, so
  \<^verbatim>\<open>MAX_RT_PRIO - 1 - p->rt_priority\<close> is computed modulo \<open>2\<^sup>3\<^sup>2\<close> and returned as an
  \<^verbatim>\<open>int\<close>.
\<close>

definition normal_prio_of :: "config \<Rightarrow> task_struct \<Rightarrow> int" where
  "normal_prio_of cfg p =
     (if rt_policy (policy p) then s32 (MAX_RT_PRIO - 1 - int (rt_priority p))
      else static_prio p + MAX_PRIORITY_ADJ cfg)"

subsection \<open>Bitmaps and the watermark map\<close>

text \<open>
  \<^verbatim>\<open>bmq_find_first_bit\<close> and \<^verbatim>\<open>bmq_find_next_bit\<close>: the lowest set bit at or after
  \<^verbatim>\<open>start\<close> and below \<^verbatim>\<open>size\<close>, otherwise \<^verbatim>\<open>size\<close>. The one-word variants
  of the macros (\<^verbatim>\<open>__ffs\<close> of the word) return the same as long as no bit at or
  above \<^verbatim>\<open>size\<close> is set, and \<^verbatim>\<open>set_bit\<close> is only ever called below it.
\<close>

definition bmq_find_next_bit :: "nat set \<Rightarrow> nat \<Rightarrow> nat \<Rightarrow> nat" where
  "bmq_find_next_bit bm sz start =
     (case find (\<lambda>i. i \<in> bm) [start..<sz] of Some i \<Rightarrow> i | None \<Rightarrow> sz)"

definition bmq_find_first_bit :: "nat set \<Rightarrow> nat \<Rightarrow> nat" where
  "bmq_find_first_bit bm sz = bmq_find_next_bit bm sz 0"

definition SCHED_PRIO2WATERMARK :: "config \<Rightarrow> int \<Rightarrow> int" where
  "SCHED_PRIO2WATERMARK cfg pr = int (IDLE_TASK_SCHED_PRIO cfg) - pr + 1"

text \<open>
  The part of \<^verbatim>\<open>update_sched_rq_watermark\<close> under \<^verbatim>\<open>CONFIG_SCHED_SMT\<close>: slot 0 of
  the map holds the CPUs whose whole sibling group is idle. A kernel built without
  \<^verbatim>\<open>CONFIG_SCHED_SMT\<close> behaves as one where \<^verbatim>\<open>sched_smt_present\<close> is false.
\<close>

definition update_smt_watermark :: "cpu \<Rightarrow> nat \<Rightarrow> nat \<Rightarrow> sched_state \<Rightarrow> sched_state" where
  "update_smt_watermark c last_wm wm s =
     (if \<not> sched_smt_present s then s
      else if last_wm = 1 then
        (let rest = sched_rq_watermark s 0 - cpu_smt_mask s c;
             s1 = s\<lparr>sched_rq_watermark := (sched_rq_watermark s)(0 := rest)\<rparr>
         in if rest = {}
            then s1\<lparr>sched_rq_watermark_bitmap := sched_rq_watermark_bitmap s1 - {0}\<rparr>
            else s1)
      else if wm = 1 then
        (let tmp = cpu_smt_mask s c \<inter> sched_rq_watermark s IDLE_WM
         in if tmp = cpu_smt_mask s c
            then s\<lparr>sched_rq_watermark :=
                     (sched_rq_watermark s)(0 := cpu_smt_mask s c \<union> sched_rq_watermark s 0),
                   sched_rq_watermark_bitmap := insert 0 (sched_rq_watermark_bitmap s)\<rparr>
            else s)
      else s)"

text \<open>
  \<^verbatim>\<open>update_sched_rq_watermark(rq)\<close> for the runqueue of CPU \<open>c\<close>. \<^verbatim>\<open>BUG_ON\<close> and
  an index outside \<^verbatim>\<open>sched_rq_watermark[WM_BITS]\<close> are errors.
\<close>

definition update_sched_rq_watermark :: "config \<Rightarrow> cpu \<Rightarrow> sched_state \<Rightarrow> error + sched_state" where
  "update_sched_rq_watermark cfg c s =
     (let r = runqueues s c;
          first = bmq_find_first_bit (bitmap (queue r)) (bmq_BITS cfg);
          last_wm = watermark r
      in if bmq_BITS cfg = first then Inl BUG
         else
           (let wm = u64 (SCHED_PRIO2WATERMARK cfg (int first))
            in if wm = last_wm then Inr s
               else if \<not> last_wm < WM_BITS cfg \<or> \<not> wm < WM_BITS cfg then Inl OutOfBounds
               else
                 (let rest = sched_rq_watermark s last_wm - {c};
                      s1 = s\<lparr>sched_rq_watermark := (sched_rq_watermark s)(last_wm := rest)\<rparr>;
                      s2 = (if rest = {}
                            then s1\<lparr>sched_rq_watermark_bitmap :=
                                      sched_rq_watermark_bitmap s1 - {last_wm}\<rparr>
                            else s1);
                      s3 = s2\<lparr>sched_rq_watermark :=
                                (sched_rq_watermark s2)(wm := insert c (sched_rq_watermark s2 wm)),
                              sched_rq_watermark_bitmap :=
                                insert wm (sched_rq_watermark_bitmap s2)\<rparr>;
                      s4 = upd_rq c (\<lambda>r. r\<lparr>watermark := wm\<rparr>) s3
                  in Inr (update_smt_watermark c last_wm wm s4))))"

subsection \<open>The bitmap queue\<close>

text \<open>
  \<^verbatim>\<open>bmq_add_task\<close>: at a level other than 0 the task goes to the tail; at level 0 it
  goes before the first task of greater \<^verbatim>\<open>prio\<close>.
\<close>

definition bmq_add_task :: "(tid \<Rightarrow> task_struct) \<Rightarrow> tid \<Rightarrow> bmq \<Rightarrow> nat \<Rightarrow> bmq" where
  "bmq_add_task ts p q idx =
     (if idx \<noteq> 0 then q\<lparr>heads := (heads q)(idx := heads q idx @ [p])\<rparr>
      else q\<lparr>heads := (heads q)(idx :=
             takeWhile (\<lambda>t. \<not> prio (ts t) > prio (ts p)) (heads q idx) @
             p # dropWhile (\<lambda>t. \<not> prio (ts t) > prio (ts p)) (heads q idx))\<rparr>)"

text \<open>
  \<^verbatim>\<open>list_del(&p->bmq_node)\<close> unlinks the task from the list that holds it, whichever
  level that is; a task is linked at most once.
\<close>

definition list_del :: "tid \<Rightarrow> bmq \<Rightarrow> bmq" where
  "list_del p q = q\<lparr>heads := (\<lambda>l. removeAll p (heads q l))\<rparr>"

definition level_ok :: "config \<Rightarrow> int \<Rightarrow> bool" where
  "level_ok cfg idx \<longleftrightarrow> 0 \<le> idx \<and> idx < int (bmq_BITS cfg)"

definition set_queue_bit :: "cpu \<Rightarrow> nat \<Rightarrow> sched_state \<Rightarrow> sched_state" where
  "set_queue_bit c i s =
     upd_rq c (\<lambda>r. r\<lparr>queue := (queue r)\<lparr>bitmap := insert i (bitmap (queue r))\<rparr>\<rparr>) s"

definition clear_queue_bit :: "cpu \<Rightarrow> nat \<Rightarrow> sched_state \<Rightarrow> sched_state" where
  "clear_queue_bit c i s =
     upd_rq c (\<lambda>r. r\<lparr>queue := (queue r)\<lparr>bitmap := bitmap (queue r) - {i}\<rparr>\<rparr>) s"

text \<open>
  \<^verbatim>\<open>dequeue_task(p, rq, flags)\<close>, built with \<^verbatim>\<open>CONFIG_SMP\<close>. A level outside
  \<^verbatim>\<open>heads[bmq_BITS]\<close> is an error.
\<close>

definition dequeue_task :: "config \<Rightarrow> tid \<Rightarrow> cpu \<Rightarrow> sched_state \<Rightarrow> error + sched_state" where
  "dequeue_task cfg p c s =
     (let idx = bmq_idx (tasks s p);
          s1 = upd_rq c (\<lambda>r. r\<lparr>queue := list_del p (queue r)\<rparr>) s
      in if \<not> level_ok cfg idx then Inl OutOfBounds
         else
           (case (if heads (queue (runqueues s1 c)) (nat idx) = []
                  then update_sched_rq_watermark cfg c (clear_queue_bit c (nat idx) s1)
                  else Inr s1) of
              Inl e \<Rightarrow> Inl e
            | Inr s2 \<Rightarrow>
                (let n = u64 (int (nr_running (runqueues s2 c)) - 1);
                     s3 = upd_rq c (\<lambda>r. r\<lparr>nr_running := n\<rparr>) s2
                 in Inr (if 1 = n
                         then s3\<lparr>sched_rq_pending_mask := sched_rq_pending_mask s3 - {c}\<rparr>
                         else s3))))"

text \<open>\<^verbatim>\<open>enqueue_task(p, rq, flags)\<close>, built with \<^verbatim>\<open>CONFIG_SMP\<close>.\<close>

definition enqueue_task :: "config \<Rightarrow> tid \<Rightarrow> cpu \<Rightarrow> sched_state \<Rightarrow> error + sched_state" where
  "enqueue_task cfg p c s =
     (let idx = task_sched_prio (tasks s p);
          s1 = upd_task p (\<lambda>t. t\<lparr>bmq_idx := idx\<rparr>) s
      in if \<not> level_ok cfg idx then Inl OutOfBounds
         else
           (let s2 = upd_rq c (\<lambda>r. r\<lparr>queue := bmq_add_task (tasks s1) p (queue r) (nat idx)\<rparr>) s1
            in case update_sched_rq_watermark cfg c (set_queue_bit c (nat idx) s2) of
                 Inl e \<Rightarrow> Inl e
               | Inr s3 \<Rightarrow>
                   (let n = u64 (int (nr_running (runqueues s3 c)) + 1);
                        s4 = upd_rq c (\<lambda>r. r\<lparr>nr_running := n\<rparr>) s3
                    in Inr (if 2 = n
                            then s4\<lparr>sched_rq_pending_mask := insert c (sched_rq_pending_mask s4)\<rparr>
                            else s4))))"

text \<open>
  The body that \<^verbatim>\<open>requeue_task\<close> and \<^verbatim>\<open>requeue_task_lazy\<close> share once the task has
  been unlinked and linked again at level \<open>idx\<close>, different from its old level.
\<close>

definition requeue_move :: "config \<Rightarrow> tid \<Rightarrow> cpu \<Rightarrow> int \<Rightarrow> sched_state \<Rightarrow> error + sched_state" where
  "requeue_move cfg p c idx s =
     (let old = bmq_idx (tasks s p)
      in if \<not> level_ok cfg old then Inl OutOfBounds
         else
           (let s1 = (if heads (queue (runqueues s c)) (nat old) = []
                      then clear_queue_bit c (nat old) s else s);
                s2 = upd_task p (\<lambda>t. t\<lparr>bmq_idx := idx\<rparr>) s1
            in update_sched_rq_watermark cfg c (set_queue_bit c (nat idx) s2)))"

definition requeue_task :: "config \<Rightarrow> tid \<Rightarrow> cpu \<Rightarrow> sched_state \<Rightarrow> error + sched_state" where
  "requeue_task cfg p c s =
     (let idx = task_sched_prio (tasks s p)
      in if \<not> level_ok cfg idx then Inl OutOfBounds
         else
           (let s1 = upd_rq c (\<lambda>r. r\<lparr>queue :=
                       bmq_add_task (tasks s) p (list_del p (queue r)) (nat idx)\<rparr>) s
            in if idx \<noteq> bmq_idx (tasks s p) then requeue_move cfg p c idx s1 else Inr s1))"

definition requeue_task_lazy ::
  "config \<Rightarrow> tid \<Rightarrow> cpu \<Rightarrow> sched_state \<Rightarrow> error + (int \<times> sched_state)" where
  "requeue_task_lazy cfg p c s =
     (let idx = task_sched_prio (tasks s p)
      in if idx = bmq_idx (tasks s p) then Inr (0, s)
         else if \<not> level_ok cfg idx then Inl OutOfBounds
         else
           (let s1 = upd_rq c (\<lambda>r. r\<lparr>queue :=
                       bmq_add_task (tasks s) p (list_del p (queue r)) (nat idx)\<rparr>) s
            in case requeue_move cfg p c idx s1 of
                 Inl e \<Rightarrow> Inl e
               | Inr s2 \<Rightarrow> Inr (1, s2)))"

definition rq_first_bmq_task :: "config \<Rightarrow> rq \<Rightarrow> error + tid" where
  "rq_first_bmq_task cfg r =
     (let idx = bmq_find_first_bit (bitmap (queue r)) (bmq_BITS cfg)
      in if \<not> idx < bmq_BITS cfg then Inl OutOfBounds
         else (case heads (queue r) idx of [] \<Rightarrow> Inl BUG | t # _ \<Rightarrow> Inr t))"

text \<open>
  \<^verbatim>\<open>resched_curr(rq)\<close>: on every path the current task of the runqueue ends with
  \<^verbatim>\<open>TIF_NEED_RESCHED\<close> set (it was set already, it is set locally, or it is set by
  \<^verbatim>\<open>set_nr_and_not_polling\<close> before the IPI); the IPI itself is not part of the state.
\<close>

definition resched_curr :: "cpu \<Rightarrow> sched_state \<Rightarrow> sched_state" where
  "resched_curr c s = upd_task (curr (runqueues s c)) (\<lambda>t. t\<lparr>need_resched := True\<rparr>) s"

definition check_preempt_curr :: "config \<Rightarrow> cpu \<Rightarrow> tid \<Rightarrow> sched_state \<Rightarrow> error + sched_state" where
  "check_preempt_curr cfg c p s =
     (let s1 = (if MAX_PRIO = prio (tasks s (curr (runqueues s c))) then resched_curr c s else s)
      in case rq_first_bmq_task cfg (runqueues s1 c) of
           Inl e \<Rightarrow> Inl e
         | Inr t \<Rightarrow> Inr (if t = p then resched_curr c s1 else s1))"

definition TASK_ON_RQ_QUEUED :: int where
  "TASK_ON_RQ_QUEUED = 1"

definition task_on_rq_queued :: "task_struct \<Rightarrow> bool" where
  "task_on_rq_queued p \<longleftrightarrow> on_rq p = TASK_ON_RQ_QUEUED"

definition check_task_changed :: "config \<Rightarrow> cpu \<Rightarrow> tid \<Rightarrow> sched_state \<Rightarrow> error + sched_state" where
  "check_task_changed cfg c p s =
     (if task_on_rq_queued (tasks s p) then
        (case requeue_task_lazy cfg p c s of
           Inl e \<Rightarrow> Inl e
         | Inr (ret, s1) \<Rightarrow> if ret \<noteq> 0 then check_preempt_curr cfg c p s1 else Inr s1)
      else Inr s)"

subsection \<open>Priority inheritance\<close>

definition rt_effective_prio_of :: "(tid \<Rightarrow> task_struct) \<Rightarrow> tid option \<Rightarrow> int \<Rightarrow> int" where
  "rt_effective_prio_of ts pi_task pr =
     (case pi_task of None \<Rightarrow> pr | Some d \<Rightarrow> min pr (prio (ts d)))"

text \<open>
  \<^verbatim>\<open>rt_effective_prio(p, prio)\<close> reads the donor from \<^verbatim>\<open>p->pi_top_task\<close>
  (\<^verbatim>\<open>rt_mutex_get_top_task\<close>).
\<close>

definition rt_effective_prio :: "(tid \<Rightarrow> task_struct) \<Rightarrow> tid \<Rightarrow> int \<Rightarrow> int" where
  "rt_effective_prio ts p pr = rt_effective_prio_of ts (pi_top_task (ts p)) pr"

text \<open>
  \<^verbatim>\<open>rt_mutex_setprio(p, pi_task)\<close>. \<^verbatim>\<open>__task_access_lock\<close> returns the runqueue of the
  task's CPU on each of its paths.
\<close>

definition rt_mutex_setprio ::
  "config \<Rightarrow> tid \<Rightarrow> tid option \<Rightarrow> sched_state \<Rightarrow> error + sched_state" where
  "rt_mutex_setprio cfg p pi_task s =
     (let pr = rt_effective_prio_of (tasks s) pi_task (normal_prio (tasks s p))
      in if pi_top_task (tasks s p) = pi_task \<and> pr = prio (tasks s p) then Inr s
         else
           (let c = task_cpu (tasks s p);
                s1 = upd_task p (\<lambda>t. t\<lparr>pi_top_task := pi_task\<rparr>) s
            in if pr = prio (tasks s1 p) then Inr s1
               else if p = idle (runqueues s1 c) then Inr s1
               else check_task_changed cfg c p (upd_task p (\<lambda>t. t\<lparr>prio := pr\<rparr>) s1)))"

subsection \<open>CPU selection\<close>


text \<open>
  The topology masks of a CPU, \<^verbatim>\<open>sched_cpu_affinity_chk_masks\<close>, are an array of
  \<^verbatim>\<open>NR_CPU_AFFINITY_CHK_LEVEL\<close> masks: two, and one more for each of
  \<^verbatim>\<open>CONFIG_SCHED_SMT\<close> and \<^verbatim>\<open>CONFIG_SCHED_MC\<close>.
  \<^verbatim>\<open>sched_init_topology_cpumask_early\<close> sets each of them to the possible CPUs without
  the CPU itself.
\<close>

definition NR_CPU_AFFINITY_CHK_LEVEL :: "bool \<Rightarrow> bool \<Rightarrow> nat" where
  "NR_CPU_AFFINITY_CHK_LEVEL sched_smt sched_mc =
     2 + (if sched_smt then 1 else 0) + (if sched_mc then 1 else 0)"

definition sched_init_topology_cpumask_early :: "nat \<Rightarrow> cpumask \<Rightarrow> cpu \<Rightarrow> cpumask list" where
  "sched_init_topology_cpumask_early levels cpu_possible_mask c =
     replicate levels (cpu_possible_mask - {c})"

text \<open>
  \<^verbatim>\<open>sched_init_topology_cpumask\<close> then rebuilds the masks of each online CPU, nearest
  first: the SMT siblings, the core group, the core and the other online CPUs, each
  without the CPU itself. A mask is written where \<^verbatim>\<open>chk\<close> points, and \<^verbatim>\<open>chk\<close> moves on
  only when the mask written is not empty (\<^verbatim>\<open>chk++\<close> stands in the argument of the
  \<^verbatim>\<open>printk\<close> under \<^verbatim>\<open>if (cpumask_and(chk, chk, ...))\<close>), so an empty mask is
  overwritten by the next one. The topology masks of the CPU
  (\<^verbatim>\<open>topology_sibling_cpumask\<close>, \<^verbatim>\<open>cpu_coregroup_mask\<close>, \<^verbatim>\<open>topology_core_cpumask\<close>)
  and \<^verbatim>\<open>nr_cpumask_bits\<close> are the kernel's and are parameters.
\<close>

definition chk_store :: "cpumask \<Rightarrow> cpumask list \<times> nat \<Rightarrow> error + cpumask list \<times> nat" where
  "chk_store m a =
     (case a of (ms, i) \<Rightarrow>
        if i < length ms then Inr (ms[i := m], if m \<noteq> {} then i + 1 else i)
        else Inl OutOfBounds)"

definition sched_init_topology_cpumask ::
  "bool \<Rightarrow> bool \<Rightarrow> nat \<Rightarrow> cpumask \<Rightarrow> cpumask \<Rightarrow> cpumask \<Rightarrow> cpumask \<Rightarrow> cpu \<Rightarrow> cpumask list
     \<Rightarrow> error + cpumask list" where
  "sched_init_topology_cpumask sched_smt sched_mc nr_cpumask_bits sibling coregroup core
       online_cpus c ms =
     (let others = {0..<nr_cpumask_bits} - {c}
      in case (if sched_smt then chk_store (others \<inter> sibling) (ms, 0) else Inr (ms, 0)) of
           Inl e \<Rightarrow> Inl e
         | Inr a1 \<Rightarrow>
             (case (if sched_mc then chk_store (others \<inter> coregroup) a1 else Inr a1) of
                Inl e \<Rightarrow> Inl e
              | Inr a2 \<Rightarrow>
                  (case chk_store
                          ((if sched_mc then {0..<nr_cpumask_bits} - coregroup else others)
                             \<inter> core) a2 of
                     Inl e \<Rightarrow> Inl e
                   | Inr a3 \<Rightarrow>
                       (case chk_store (({0..<nr_cpumask_bits} - core) \<inter> online_cpus) a3 of
                          Inl e \<Rightarrow> Inl e
                        | Inr a4 \<Rightarrow> Inr (fst a4)))))"





subsection \<open>Fork\<close>

text \<open>
  \<^verbatim>\<open>sched_fork(clone_flags, p)\<close> on CPU \<open>c\<close>: the scheduling fields it writes. The
  forking task \<^verbatim>\<open>current\<close> is the task the CPU runs, \<^verbatim>\<open>rq->curr\<close>. The function
  returns 0 on its only path.
\<close>

definition sched_fork :: "config \<Rightarrow> cpu \<Rightarrow> tid \<Rightarrow> sched_state \<Rightarrow> sched_state" where
  "sched_fork cfg c p s =
     (let cur = curr (runqueues s c);
          s1 = upd_task p (\<lambda>t. t\<lparr>on_cpu := 0, on_rq := 0, sched_time := 0,
                                  prio := normal_prio (tasks s cur)\<rparr>) s;
          s2 = (if sched_reset_on_fork (tasks s1 p) then
                  upd_task p (\<lambda>t.
                    let t1 = (if rt_policy (policy t)
                              then t\<lparr>policy := SCHED_NORMAL, static_prio := NICE_TO_PRIO 0,
                                     rt_priority := 0\<rparr>
                              else if PRIO_TO_NICE (static_prio t) < 0
                              then t\<lparr>static_prio := NICE_TO_PRIO 0\<rparr>
                              else t)
                    in t1\<lparr>prio := normal_prio_of cfg t1, normal_prio := normal_prio_of cfg t1,
                          sched_reset_on_fork := False\<rparr>) s1
                else s1);
          s3 = upd_task p (\<lambda>t. t\<lparr>boost_prio := MAX_PRIORITY_ADJ cfg\<rparr>) s2;
          s4 = upd_task cur (\<lambda>t. t\<lparr>time_slice := c_div (time_slice t) 2\<rparr>) s3;
          s5 = upd_task p (\<lambda>t. t\<lparr>time_slice := time_slice (tasks s4 cur)\<rparr>) s4;
          s6 = (if time_slice (tasks s5 p) < RESCHED_NS
                then resched_curr c
                       (upd_task p (\<lambda>t. t\<lparr>time_slice := SCHED_TIMESLICE_NS cfg\<rparr>) s5)
                else s5)
      in upd_task p (\<lambda>t. t\<lparr>task_cpu := c\<rparr>) s6)"

subsection \<open>Time slices\<close>

definition update_curr :: "rq \<Rightarrow> task_struct \<Rightarrow> task_struct" where
  "update_curr r p =
     (let ns = s64 (int (u64 (int (clock_task r) - int (last_ran p))))
      in p\<lparr>sched_time := u64 (int (sched_time p) + ns),
           time_slice := s64 (time_slice p - ns),
           last_ran := clock_task r\<rparr>)"

definition check_curr :: "config \<Rightarrow> tid \<Rightarrow> cpu \<Rightarrow> sched_state \<Rightarrow> error + sched_state" where
  "check_curr cfg p c s =
     (if idle (runqueues s c) = p then Inr s
      else
        (let s1 = upd_task p (update_curr (runqueues s c)) s
         in if time_slice (tasks s1 p) < RESCHED_NS then
              (let s2 = upd_task p (\<lambda>t. t\<lparr>time_slice := SCHED_TIMESLICE_NS cfg\<rparr>) s1
               in if SCHED_FIFO \<noteq> policy (tasks s2 p) \<and> task_on_rq_queued (tasks s2 p) then
                    requeue_task cfg p c
                      (if SCHED_RR \<noteq> policy (tasks s2 p)
                       then upd_task p (deboost_task cfg) s2 else s2)
                  else Inr s2)
            else Inr s1))"

subsection \<open>Changing policy and priority\<close>

text \<open>
  \<^verbatim>\<open>struct sched_attr\<close>. \<^verbatim>\<open>sched_priority\<close> is unsigned; \<^verbatim>\<open>sched_flags\<close> is the set
  of the numbers of its set bits.
\<close>

record sched_attr =
  sched_policy :: int
  sched_priority :: nat
  sched_nice :: int
  sched_flags :: "nat set"

text \<open>
  What \<^verbatim>\<open>__sched_setscheduler\<close> asks of the rest of the kernel: \<^verbatim>\<open>capable(CAP_SYS_NICE)\<close>,
  \<^verbatim>\<open>task_rlimit(p, RLIMIT_RTPRIO)\<close>, \<^verbatim>\<open>check_same_owner(p)\<close>, the value of
  \<^verbatim>\<open>security_task_setscheduler(p)\<close>, and the bits of the constant \<^verbatim>\<open>SCHED_FLAG_ALL\<close>,
  whose header is not among the sources.
\<close>

record caller_env =
  capable_sys_nice :: bool
  rlimit_rtprio :: nat
  same_owner :: bool
  security_task_setscheduler :: int
  SCHED_FLAG_ALL :: "nat set"

definition SETPARAM_POLICY :: int where
  "SETPARAM_POLICY = - 1"

text \<open>\<^verbatim>\<open>SCHED_RESET_ON_FORK\<close> is \<^verbatim>\<open>0x40000000\<close>, bit 30.\<close>

definition SCHED_RESET_ON_FORK_BIT :: nat where
  "SCHED_RESET_ON_FORK_BIT = 30"

definition dl_squash_attr :: sched_attr where
  "dl_squash_attr = \<lparr>sched_policy = SCHED_FIFO, sched_priority = 99, sched_nice = 0,
     sched_flags = {}\<rparr>"

text \<open>
  The names \<open>uu_f\<close> stand for the C functions \<^verbatim>\<open>__f\<close>, whose names begin with two
  underscores.
\<close>

definition uu_setscheduler_params :: "config \<Rightarrow> sched_attr \<Rightarrow> task_struct \<Rightarrow> task_struct" where
  "uu_setscheduler_params cfg attr p =
     (let pol = (if sched_policy attr = SETPARAM_POLICY then policy p else sched_policy attr);
          p1 = p\<lparr>policy := pol, static_prio := NICE_TO_PRIO (sched_nice attr),
                 rt_priority := sched_priority attr\<rparr>
      in p1\<lparr>normal_prio := normal_prio_of cfg p1\<rparr>)"

definition uu_setscheduler ::
  "config \<Rightarrow> tid \<Rightarrow> sched_attr \<Rightarrow> bool \<Rightarrow> sched_state \<Rightarrow> sched_state" where
  "uu_setscheduler cfg p attr keep_boost s =
     (let s1 = upd_task p (uu_setscheduler_params cfg attr) s;
          s2 = upd_task p (\<lambda>t. t\<lparr>prio := normal_prio_of cfg t\<rparr>) s1
      in if keep_boost
         then upd_task p (\<lambda>t. t\<lparr>prio := rt_effective_prio (tasks s2) p (prio t)\<rparr>) s2
         else s2)"

text \<open>
  \<^verbatim>\<open>__sched_setscheduler(p, attr, user, pi)\<close> is one C function; the embedding names
  its stages. First the range checks, each of which returns \<^verbatim>\<open>-EINVAL\<close>: the policy
  (a negative policy, \<^verbatim>\<open>SETPARAM_POLICY\<close>, stands for the task's own), the flags, and
  the priority. \<^verbatim>\<open>attr->sched_priority < 0\<close> is false for the unsigned field, and
  \<^verbatim>\<open>newprio\<close> is computed from it modulo \<open>2\<^sup>3\<^sup>2\<close>.
\<close>

definition sched_attr_policy :: "task_struct \<Rightarrow> sched_attr \<Rightarrow> int" where
  "sched_attr_policy t attr = (if sched_policy attr < 0 then policy t else sched_policy attr)"

definition sched_attr_reset_on_fork :: "task_struct \<Rightarrow> sched_attr \<Rightarrow> bool" where
  "sched_attr_reset_on_fork t attr =
     (if sched_policy attr < 0 then sched_reset_on_fork t
      else SCHED_RESET_ON_FORK_BIT \<in> sched_flags attr)"

definition sched_attr_invalid :: "caller_env \<Rightarrow> task_struct \<Rightarrow> sched_attr \<Rightarrow> bool" where
  "sched_attr_invalid env t attr \<longleftrightarrow>
     (\<not> sched_policy attr < 0 \<and> sched_attr_policy t attr > SCHED_IDLE) \<or>
     \<not> sched_flags attr \<subseteq> SCHED_FLAG_ALL env \<or>
     (mm t \<and> int (sched_priority attr) > MAX_USER_RT_PRIO - 1) \<or>
     (\<not> mm t \<and> int (sched_priority attr) > MAX_RT_PRIO - 1) \<or>
     (SCHED_RR = sched_attr_policy t attr \<or> SCHED_FIFO = sched_attr_policy t attr)
       \<noteq> (sched_priority attr \<noteq> 0)"

text \<open>
  Then the permission checks of a caller without \<^verbatim>\<open>CAP_SYS_NICE\<close>, each of which
  returns \<^verbatim>\<open>-EPERM\<close>.
\<close>

definition sched_attr_denied :: "caller_env \<Rightarrow> task_struct \<Rightarrow> sched_attr \<Rightarrow> bool" where
  "sched_attr_denied env t attr \<longleftrightarrow>
     ((SCHED_FIFO = sched_attr_policy t attr \<or> SCHED_RR = sched_attr_policy t attr) \<and>
      (sched_attr_policy t attr \<noteq> policy t \<and> rlimit_rtprio env = 0 \<or>
       sched_priority attr > rt_priority t \<and> sched_priority attr > rlimit_rtprio env)) \<or>
     \<not> same_owner env \<or>
     (sched_reset_on_fork t \<and> \<not> sched_attr_reset_on_fork t attr)"

text \<open>
  Then the part under \<^verbatim>\<open>pi_lock\<close> and the runqueue lock. The jump back to
  \<^verbatim>\<open>recheck\<close> is taken only when another CPU changed \<^verbatim>\<open>p->policy\<close> between the
  unlocked read and the locked one, which does not happen in a sequential run.
  \<^verbatim>\<open>rt_mutex_adjust_pi\<close>, which the last path calls after unlocking, belongs to the
  rt-mutex code and is not part of this function's state change.
\<close>

definition setscheduler_locked ::
  "config \<Rightarrow> tid \<Rightarrow> sched_attr \<Rightarrow> bool \<Rightarrow> sched_state \<Rightarrow> error + (int \<times> sched_state)" where
  "setscheduler_locked cfg p attr pi s =
     (let t = tasks s p;
          pol = sched_attr_policy t attr;
          reset_on_fork = sched_attr_reset_on_fork t attr;
          newprio = s32 (MAX_RT_PRIO - 1 - int (sched_priority attr));
          c = task_cpu t
      in if Some p = stop (runqueues s c) then Inr (- EINVAL, s)
         else if pol = policy t \<and>
                 \<not> (rt_policy pol \<and> sched_priority attr \<noteq> rt_priority t) \<and>
                 \<not> (\<not> rt_policy pol \<and> NICE_TO_PRIO (sched_nice attr) \<noteq> static_prio t)
         then Inr (0, upd_task p (\<lambda>t. t\<lparr>sched_reset_on_fork := reset_on_fork\<rparr>) s)
         else
           (let s1 = upd_task p (\<lambda>t. t\<lparr>sched_reset_on_fork := reset_on_fork\<rparr>) s
            in if pi \<and> rt_effective_prio (tasks s1) p newprio = prio (tasks s1 p)
               then Inr (0, upd_task p (uu_setscheduler_params cfg attr) s1)
               else
                 (case check_task_changed cfg c p (uu_setscheduler cfg p attr pi s1) of
                    Inl e \<Rightarrow> Inl e
                  | Inr s2 \<Rightarrow> Inr (0, s2))))"

text \<open>
  The whole function: the return value and the state. A \<^verbatim>\<open>SCHED_DEADLINE\<close> request
  is replaced by \<^verbatim>\<open>dl_squash_attr\<close> before anything else.
\<close>

definition uu_sched_setscheduler ::
  "config \<Rightarrow> caller_env \<Rightarrow> tid \<Rightarrow> sched_attr \<Rightarrow> bool \<Rightarrow> bool \<Rightarrow> sched_state
     \<Rightarrow> error + (int \<times> sched_state)" where
  "uu_sched_setscheduler cfg env p attr0 user pi s =
     (let attr = (if SCHED_DEADLINE = sched_policy attr0 then dl_squash_attr else attr0)
      in if sched_attr_invalid env (tasks s p) attr then Inr (- EINVAL, s)
         else if user \<and> \<not> capable_sys_nice env \<and> sched_attr_denied env (tasks s p) attr
         then Inr (- EPERM, s)
         else if user \<and> security_task_setscheduler env \<noteq> 0
         then Inr (security_task_setscheduler env, s)
         else setscheduler_locked cfg p attr pi s)"

text \<open>
  \<^verbatim>\<open>_sched_setscheduler(p, policy, param, check)\<close>, behind \<^verbatim>\<open>sched_setscheduler\<close>:
  it builds the attributes from the policy and the priority of \<^verbatim>\<open>param\<close> (an
  \<^verbatim>\<open>int\<close> stored into the unsigned field) and moves the legacy flag
  \<^verbatim>\<open>SCHED_RESET_ON_FORK\<close> from the policy to the flags, where it is bit 0.
\<close>

definition u_sched_setscheduler ::
  "config \<Rightarrow> caller_env \<Rightarrow> tid \<Rightarrow> int \<Rightarrow> int \<Rightarrow> bool \<Rightarrow> sched_state
     \<Rightarrow> error + (int \<times> sched_state)" where
  "u_sched_setscheduler cfg env p pol param_priority check s =
     (let attr = \<lparr>sched_policy = pol, sched_priority = nat (param_priority mod 2 ^ 32),
                   sched_nice = PRIO_TO_NICE (static_prio (tasks s p)), sched_flags = {}\<rparr>;
          attr1 = (if pol \<noteq> SETPARAM_POLICY \<and> bit pol SCHED_RESET_ON_FORK_BIT
                   then attr\<lparr>sched_flags := {0},
                             sched_policy := unset_bit SCHED_RESET_ON_FORK_BIT pol\<rparr>
                   else attr)
      in uu_sched_setscheduler cfg env p attr1 check True s)"

text \<open>
  \<^verbatim>\<open>SYSCALL_DEFINE3(sched_setscheduler, pid, policy, param)\<close> for a \<^verbatim>\<open>pid\<close> that
  names the task \<open>p\<close> and a readable \<^verbatim>\<open>param\<close>: a negative policy is refused
  before \<^verbatim>\<open>do_sched_setscheduler\<close> is called.
\<close>

definition sys_sched_setscheduler ::
  "config \<Rightarrow> caller_env \<Rightarrow> tid \<Rightarrow> int \<Rightarrow> int \<Rightarrow> sched_state \<Rightarrow> error + (int \<times> sched_state)" where
  "sys_sched_setscheduler cfg env p pol param_priority s =
     (if pol < 0 then Inr (- EINVAL, s)
      else u_sched_setscheduler cfg env p pol param_priority True s)"

subsection \<open>Yield and the skip pointer\<close>

definition rt_task :: "task_struct \<Rightarrow> bool" where
  "rt_task p \<longleftrightarrow> rt_prio (prio p)"

text \<open>
  \<^verbatim>\<open>do_sched_yield()\<close> on CPU \<open>c\<close>, whose \<^verbatim>\<open>current\<close> is \<^verbatim>\<open>rq->curr\<close>: the state when
  the runqueue lock is released, and whether \<^verbatim>\<open>schedule()\<close> is called next.
\<close>

definition do_sched_yield :: "config \<Rightarrow> cpu \<Rightarrow> sched_state \<Rightarrow> error + (sched_state \<times> bool)" where
  "do_sched_yield cfg c s =
     (if sched_yield_type s = 0 then Inr (s, False)
      else
        (let cur = curr (runqueues s c)
         in case (if 1 = sched_yield_type s then
                    (if \<not> rt_task (tasks s cur)
                     then requeue_task cfg cur c
                            (upd_task cur (\<lambda>t. t\<lparr>boost_prio := MAX_PRIORITY_ADJ cfg\<rparr>) s)
                     else Inr s)
                  else if 2 = sched_yield_type s then
                    Inr (if nr_running (runqueues s c) > 1
                         then upd_rq c (\<lambda>r. r\<lparr>skip := Some cur\<rparr>) s else s)
                  else Inr s) of
              Inl e \<Rightarrow> Inl e
            | Inr s1 \<Rightarrow> Inr (s1, True)))"

text \<open>\<^verbatim>\<open>SYSCALL_DEFINE0(sched_yield)\<close>: the return value with what \<^verbatim>\<open>do_sched_yield\<close> did.\<close>

definition sys_sched_yield ::
  "config \<Rightarrow> cpu \<Rightarrow> sched_state \<Rightarrow> error + (int \<times> sched_state \<times> bool)" where
  "sys_sched_yield cfg c s =
     (case do_sched_yield cfg c s of Inl e \<Rightarrow> Inl e | Inr r \<Rightarrow> Inr (0, r))"

definition rq_next_bmq_task :: "config \<Rightarrow> (tid \<Rightarrow> task_struct) \<Rightarrow> tid \<Rightarrow> rq \<Rightarrow> error + tid" where
  "rq_next_bmq_task cfg ts p r =
     (let idx = bmq_idx (ts p)
      in if \<not> level_ok cfg idx then Inl OutOfBounds
         else
           (case dropWhile (\<lambda>t. t \<noteq> p) (heads (queue r) (nat idx)) of
              [] \<Rightarrow> Inl BUG
            | [_] \<Rightarrow>
                (let nxt = bmq_find_next_bit (bitmap (queue r)) (bmq_BITS cfg) (nat idx + 1)
                 in if \<not> nxt < bmq_BITS cfg then Inl OutOfBounds
                    else (case heads (queue r) nxt of [] \<Rightarrow> Inl BUG | t # _ \<Rightarrow> Inr t))
            | _ # t # _ \<Rightarrow> Inr t))"

definition rq_runnable_task :: "config \<Rightarrow> (tid \<Rightarrow> task_struct) \<Rightarrow> rq \<Rightarrow> error + tid" where
  "rq_runnable_task cfg ts r =
     (case rq_first_bmq_task cfg r of
        Inl e \<Rightarrow> Inl e
      | Inr t \<Rightarrow> if Some t = skip r then rq_next_bmq_task cfg ts t r else Inr t)"

text \<open>
  \<^verbatim>\<open>choose_next_task(rq, cpu, prev)\<close>, built with \<^verbatim>\<open>CONFIG_SMP\<close>. \<open>pull\<close> stands for
  \<^verbatim>\<open>take_other_rq_tasks(rq, cpu)\<close>, the migration from other runqueues: it returns
  whether tasks were pulled, and the state.
\<close>

definition choose_next_task ::
  "(cpu \<Rightarrow> sched_state \<Rightarrow> bool \<times> sched_state) \<Rightarrow> config \<Rightarrow> cpu \<Rightarrow> sched_state
     \<Rightarrow> error + (tid \<times> sched_state)" where
  "choose_next_task pull cfg c s =
     (let r = runqueues s c
      in if skip r \<noteq> None then
           (case rq_runnable_task cfg (tasks s) r of
              Inl e \<Rightarrow> Inl e
            | Inr nxt \<Rightarrow>
                (case (if online r \<and> nxt = idle r then
                         (let (got, s1) = pull c s
                          in if got then
                               (case rq_runnable_task cfg (tasks s1) (runqueues s1 c) of
                                  Inl e \<Rightarrow> Inl e
                                | Inr n \<Rightarrow> Inr (n, s1))
                             else Inr (nxt, s1))
                       else Inr (nxt, s)) of
                   Inl e \<Rightarrow> Inl e
                 | Inr (n, s2) \<Rightarrow> Inr (n, upd_rq c (\<lambda>r. r\<lparr>skip := None\<rparr>) s2)))
         else
           (case rq_first_bmq_task cfg r of
              Inl e \<Rightarrow> Inl e
            | Inr nxt \<Rightarrow>
                (if online r \<and> nxt = idle r then
                   (let (got, s1) = pull c s
                    in if got then
                         (case rq_first_bmq_task cfg (runqueues s1 c) of
                            Inl e \<Rightarrow> Inl e
                          | Inr n \<Rightarrow> Inr (n, s1))
                       else Inr (nxt, s1))
                 else Inr (nxt, s))))"

subsection \<open>Predicates of the properties\<close>

text \<open>\<^verbatim>\<open>boost_prio\<close> within \<^verbatim>\<open>[-MAX_PRIORITY_ADJ, MAX_PRIORITY_ADJ]\<close>.\<close>

definition boost_ok :: "config \<Rightarrow> task_struct \<Rightarrow> bool" where
  "boost_ok cfg p \<longleftrightarrow> - MAX_PRIORITY_ADJ cfg \<le> boost_prio p \<and> boost_prio p \<le> MAX_PRIORITY_ADJ cfg"



text \<open>Task \<open>p\<close> is linked at the level its \<^verbatim>\<open>bmq_idx\<close> names and at no other.\<close>

definition linked_at :: "bmq \<Rightarrow> task_struct \<Rightarrow> tid \<Rightarrow> bool" where
  "linked_at q t p \<longleftrightarrow>
     0 \<le> bmq_idx t \<and> p \<in> set (heads q (nat (bmq_idx t))) \<and>
     (\<forall>l. l \<noteq> nat (bmq_idx t) \<longrightarrow> p \<notin> set (heads q l))"






text \<open>The pending bit of CPU \<open>c\<close> is set exactly when its runqueue has two tasks or more.\<close>

definition pending_ok :: "sched_state \<Rightarrow> cpu \<Rightarrow> bool" where
  "pending_ok s c \<longleftrightarrow> (c \<in> sched_rq_pending_mask s \<longleftrightarrow> 2 \<le> nr_running (runqueues s c))"

subsection \<open>Example states\<close>

text \<open>
  Two CPUs after \<^verbatim>\<open>sched_init\<close> and \<^verbatim>\<open>init_idle\<close>: tasks 0 and 1 are their idle
  tasks, linked at the idle level; every other task is a \<^verbatim>\<open>SCHED_NORMAL\<close> task of nice 0
  that is not queued.
\<close>

definition idle_task :: "cpu \<Rightarrow> task_struct" where
  "idle_task c = \<lparr>policy = SCHED_NORMAL, prio = MAX_PRIO, static_prio = 120, normal_prio = 124,
     rt_priority = 0, boost_prio = 4, bmq_idx = 49, time_slice = 4000000, last_ran = 0,
     sched_time = 0, on_rq = 0, on_cpu = 1, task_cpu = c, cpus_mask = {c},
     pi_top_task = None, sched_reset_on_fork = False, mm = False, need_resched = False\<rparr>"

definition example_task :: task_struct where
  "example_task = \<lparr>policy = SCHED_NORMAL, prio = 124, static_prio = 120, normal_prio = 124,
     rt_priority = 0, boost_prio = 0, bmq_idx = 24, time_slice = 4000000, last_ran = 0,
     sched_time = 0, on_rq = 0, on_cpu = 0, task_cpu = 0, cpus_mask = {0, 1},
     pi_top_task = None, sched_reset_on_fork = False, mm = True, need_resched = False\<rparr>"

definition idle_rq :: "cpu \<Rightarrow> rq" where
  "idle_rq c = \<lparr>queue = \<lparr>bitmap = {49}, heads = (\<lambda>l. if l = 49 then [c] else [])\<rparr>,
     watermark = IDLE_WM, nr_running = 0, curr = c, idle = c, stop = None, skip = None,
     clock = 0, clock_task = 0, last_ts_switch = 0, online = True\<rparr>"

definition boot_state :: sched_state where
  "boot_state = \<lparr>tasks = (\<lambda>p. if p < 2 then idle_task p else example_task),
     runqueues = idle_rq,
     sched_rq_watermark = (\<lambda>w. if w = 1 then {0, 1} else {}),
     sched_rq_watermark_bitmap = {1},
     sched_rq_pending_mask = {},
     sched_yield_type = 1,
     sched_smt_present = False,
     cpu_smt_mask = (\<lambda>c. {c}),
     cpu_online_mask = {0, 1},
     sched_cpu_affinity_chk_masks =
       sched_init_topology_cpumask_early (NR_CPU_AFFINITY_CHK_LEVEL False False) {0, 1},
     nr_cpu_ids = 2\<rparr>"

text \<open>The same with task 2 queued and running on CPU 0.\<close>

definition busy_state :: sched_state where
  "busy_state = boot_state\<lparr>
     tasks := (tasks boot_state)(2 := example_task\<lparr>on_rq := 1, on_cpu := 1\<rparr>),
     runqueues := (runqueues boot_state)(0 := (idle_rq 0)\<lparr>
       queue := \<lparr>bitmap = {24, 49},
                 heads = (\<lambda>l. if l = 24 then [2] else if l = 49 then [0] else [])\<rparr>,
       watermark := 26, nr_running := 1, curr := 2\<rparr>),
     sched_rq_watermark := (\<lambda>w. if w = 1 then {1} else if w = 26 then {0} else {}),
     sched_rq_watermark_bitmap := {1, 26}\<rparr>"


text \<open>
  The same with task 3 a \<^verbatim>\<open>SCHED_FIFO\<close> task of \<^verbatim>\<open>rt_priority\<close> 49, which is not
  queued.
\<close>

definition rt_state :: sched_state where
  "rt_state = upd_task 3 (\<lambda>t. t\<lparr>policy := SCHED_FIFO, rt_priority := 49, normal_prio := 50,
     prio := 50\<rparr>) busy_state"

text \<open>
  Task 2 a \<^verbatim>\<open>SCHED_FIFO\<close> task of \<^verbatim>\<open>rt_priority\<close> 49 that runs on CPU 0, linked at
  level 0.
\<close>

definition rt_run_state :: sched_state where
  "rt_run_state = boot_state\<lparr>
     tasks := (tasks boot_state)(2 := example_task\<lparr>policy := SCHED_FIFO, rt_priority := 49,
       normal_prio := 50, prio := 50, bmq_idx := 0, on_rq := 1, on_cpu := 1\<rparr>),
     runqueues := (runqueues boot_state)(0 := (idle_rq 0)\<lparr>
       queue := \<lparr>bitmap = {0, 49},
                 heads = (\<lambda>l. if l = 0 then [2] else if l = 49 then [0] else [])\<rparr>,
       watermark := 50, nr_running := 1, curr := 2\<rparr>),
     sched_rq_watermark := (\<lambda>w. if w = 1 then {1} else if w = 50 then {0} else {}),
     sched_rq_watermark_bitmap := {1, 50}\<rparr>"

text \<open>Tasks 2 and 3 queued on CPU 0 at the level of nice 0, task 2 running.\<close>

definition loaded_state :: sched_state where
  "loaded_state = busy_state\<lparr>
     tasks := (tasks busy_state)(3 := example_task\<lparr>on_rq := 1\<rparr>),
     runqueues := (runqueues busy_state)(0 := (runqueues busy_state 0)\<lparr>
       queue := \<lparr>bitmap = {24, 49},
                 heads = (\<lambda>l. if l = 24 then [2, 3] else if l = 49 then [0] else [])\<rparr>,
       nr_running := 2\<rparr>),
     sched_rq_pending_mask := {0}\<rparr>"

text \<open>The same with \<^verbatim>\<open>sched_yield_type\<close> 2.\<close>

definition yield2_state :: sched_state where
  "yield2_state = loaded_state\<lparr>sched_yield_type := 2\<rparr>"

text \<open>
  Level 0 of CPU 0 holds the running \<^verbatim>\<open>SCHED_RR\<close> task 2 (\<^verbatim>\<open>prio\<close> 10), whose time
  slice is used up, and behind it the \<^verbatim>\<open>SCHED_FIFO\<close> task 3 (\<^verbatim>\<open>prio\<close> 20).
\<close>

definition rr_state :: sched_state where
  "rr_state = boot_state\<lparr>
     tasks := (tasks boot_state)(
       2 := example_task\<lparr>policy := SCHED_RR, rt_priority := 89, normal_prio := 10, prio := 10,
              bmq_idx := 0, on_rq := 1, on_cpu := 1, time_slice := 5\<rparr>,
       3 := example_task\<lparr>policy := SCHED_FIFO, rt_priority := 79, normal_prio := 20, prio := 20,
              bmq_idx := 0, on_rq := 1\<rparr>),
     runqueues := (runqueues boot_state)(0 := (idle_rq 0)\<lparr>
       queue := \<lparr>bitmap = {0, 49},
                 heads = (\<lambda>l. if l = 0 then [2, 3] else if l = 49 then [0] else [])\<rparr>,
       watermark := 50, nr_running := 2, curr := 2\<rparr>),
     sched_rq_watermark := (\<lambda>w. if w = 1 then {1} else if w = 50 then {0} else {}),
     sched_rq_watermark_bitmap := {1, 50},
     sched_rq_pending_mask := {0}\<rparr>"

text \<open>
  The same with the \<^verbatim>\<open>SCHED_FIFO\<close> task 4 at the tail of level 0: its
  \<^verbatim>\<open>normal_prio\<close> is 30 and a donor has boosted its \<^verbatim>\<open>prio\<close> to 7 where it was
  queued, so the level is not ordered by \<^verbatim>\<open>prio\<close>.
\<close>

definition boosted_state :: sched_state where
  "boosted_state = rr_state\<lparr>
     tasks := (tasks rr_state)(
       4 := example_task\<lparr>policy := SCHED_FIFO, rt_priority := 69, normal_prio := 30, prio := 7,
              bmq_idx := 0, on_rq := 1\<rparr>),
     runqueues := (runqueues rr_state)(0 := (runqueues rr_state 0)\<lparr>
       queue := \<lparr>bitmap = {0, 49},
                 heads = (\<lambda>l. if l = 0 then [2, 3, 4] else if l = 49 then [0] else [])\<rparr>,
       nr_running := 3\<rparr>)\<rparr>"

text \<open>
  Task 2, \<^verbatim>\<open>SCHED_NORMAL\<close>, runs on CPU 0 with a used-up time slice and a
  \<^verbatim>\<open>boost_prio\<close> of \<^verbatim>\<open>MAX_PRIORITY_ADJ\<close> already.
\<close>

definition expired_state :: sched_state where
  "expired_state = busy_state\<lparr>
     tasks := (tasks busy_state)(2 := example_task\<lparr>on_rq := 1, on_cpu := 1, boost_prio := 4,
       bmq_idx := 28, time_slice := 5\<rparr>),
     runqueues := (runqueues busy_state)(0 := (runqueues busy_state 0)\<lparr>
       queue := \<lparr>bitmap = {28, 49},
                 heads = (\<lambda>l. if l = 28 then [2] else if l = 49 then [0] else [])\<rparr>,
       watermark := 22\<rparr>),
     sched_rq_watermark := (\<lambda>w. if w = 1 then {1} else if w = 22 then {0} else {}),
     sched_rq_watermark_bitmap := {1, 22}\<rparr>"

text \<open>
  A caller with \<^verbatim>\<open>CAP_SYS_NICE\<close> and the request for \<^verbatim>\<open>SCHED_FIFO\<close> at priority 50.
\<close>

definition root_env :: caller_env where
  "root_env = \<lparr>capable_sys_nice = True, rlimit_rtprio = 0, same_owner = True,
     security_task_setscheduler = 0, SCHED_FLAG_ALL = {0, 1, 2, 3, 4, 5, 6}\<rparr>"

definition fifo50_attr :: sched_attr where
  "fifo50_attr = \<lparr>sched_policy = SCHED_FIFO, sched_priority = 50, sched_nice = 0,
     sched_flags = {}\<rparr>"

section \<open>Properties\<close>

subsection \<open>Auxiliary facts\<close>

lemmas example_defs = busy_state_def boot_state_def idle_rq_def idle_task_def example_task_def
  bmq_config_def

lemmas const_defs = MAX_RT_PRIO_def MAX_USER_RT_PRIO_def MAX_PRIO_def NICE_TO_PRIO_def
  PRIO_TO_NICE_def SCHED_NORMAL_def SCHED_FIFO_def SCHED_RR_def SCHED_BATCH_def SCHED_IDLE_def
  SCHED_DEADLINE_def EPERM_def EINVAL_def RESCHED_NS_def SCHED_TIMESLICE_NS_def WM_BITS_def
  IDLE_WM_def TASK_ON_RQ_QUEUED_def SETPARAM_POLICY_def SCHED_RESET_ON_FORK_BIT_def

lemmas queue_defs = requeue_task_def requeue_task_lazy_def enqueue_task_def dequeue_task_def
  task_sched_prio_def level_ok_def requeue_move_def list_del_def bmq_add_task_def
  clear_queue_bit_def set_queue_bit_def update_sched_rq_watermark_def bmq_find_first_bit_def
  bmq_find_next_bit_def upt_rec SCHED_PRIO2WATERMARK_def u64_def update_smt_watermark_def
  Let_def upd_task_def upd_rq_def

lemma tasks_upd_rq [simp]: "tasks (upd_rq c f s) = tasks s"
  by (simp add: upd_rq_def)

lemma tasks_upd_task [simp]: "tasks (upd_task p f s) = (tasks s)(p := f (tasks s p))"
  by (simp add: upd_task_def)

lemma runqueues_upd_task [simp]: "runqueues (upd_task p f s) = runqueues s"
  by (simp add: upd_task_def)

lemma runqueues_upd_rq [simp]: "runqueues (upd_rq c f s) = (runqueues s)(c := f (runqueues s c))"
  by (simp add: upd_rq_def)

lemma tasks_update_smt_watermark [simp]: "tasks (update_smt_watermark c l w s) = tasks s"
  by (simp add: update_smt_watermark_def Let_def)

lemma tasks_update_sched_rq_watermark:
  "update_sched_rq_watermark cfg c s = Inr s' \<Longrightarrow> tasks s' = tasks s"
  by (auto simp: update_sched_rq_watermark_def Let_def split: if_splits)

lemma tasks_set_queue_bit [simp]: "tasks (set_queue_bit c i s) = tasks s"
  by (simp add: set_queue_bit_def)

lemma tasks_clear_queue_bit [simp]: "tasks (clear_queue_bit c i s) = tasks s"
  by (simp add: clear_queue_bit_def)

lemma tasks_requeue_move:
  "requeue_move cfg p c idx s = Inr s' \<Longrightarrow> tasks s' = (tasks s)(p := (tasks s p)\<lparr>bmq_idx := idx\<rparr>)"
  by (auto simp: requeue_move_def Let_def split: if_splits dest!: tasks_update_sched_rq_watermark)

lemma tasks_requeue_task:
  "requeue_task cfg p c s = Inr s' \<Longrightarrow>
   tasks s' = (tasks s)(p := (tasks s p)\<lparr>bmq_idx := task_sched_prio (tasks s p)\<rparr>)"
  by (auto simp: requeue_task_def Let_def split: if_splits dest!: tasks_requeue_move)

lemma tasks_enqueue_task:
  "enqueue_task cfg p c s = Inr s' \<Longrightarrow>
   tasks s' = (tasks s)(p := (tasks s p)\<lparr>bmq_idx := task_sched_prio (tasks s p)\<rparr>)"
  by (auto simp: enqueue_task_def Let_def split: if_splits sum.splits dest!: tasks_update_sched_rq_watermark)

lemma tasks_dequeue_task:
  "dequeue_task cfg p c s = Inr s' \<Longrightarrow> tasks s' = tasks s"
  by (auto simp: dequeue_task_def Let_def split: if_splits sum.splits dest!: tasks_update_sched_rq_watermark)


lemma find_upt_Some:
  "find P [a..<b] = Some i \<longleftrightarrow> a \<le> i \<and> i < b \<and> P i \<and> (\<forall>j. a \<le> j \<and> j < i \<longrightarrow> \<not> P j)"
proof (induction "b - a" arbitrary: a)
  case 0
  then show ?case by auto
next
  case (Suc n)
  then have lt: "a < b" and n: "n = b - Suc a" by auto
  have "[a..<b] = a # [Suc a..<b]" using lt by (simp add: upt_conv_Cons)
  then have "find P [a..<b] = (if P a then Some a else find P [Suc a..<b])" by simp
  also have "\<dots> = Some i \<longleftrightarrow> a \<le> i \<and> i < b \<and> P i \<and> (\<forall>j. a \<le> j \<and> j < i \<longrightarrow> \<not> P j)"
  proof (cases "P a")
    case True
    then show ?thesis using lt by (auto simp: not_less dest: le_neq_implies_less)
  next
    case False
    have "(\<forall>j. Suc a \<le> j \<and> j < i \<longrightarrow> \<not> P j) \<longleftrightarrow> (\<forall>j. a \<le> j \<and> j < i \<longrightarrow> \<not> P j)"
      using False by (metis Suc_leD Suc_leI le_neq_implies_less)
    moreover have "Suc a \<le> i \<and> P i \<longleftrightarrow> a \<le> i \<and> P i"
      using False by (metis Suc_leD Suc_leI le_neq_implies_less)
    ultimately show ?thesis using False Suc.hyps(1) [OF n] by auto
  qed
  finally show ?case .
qed

lemma find_upt_None: "find P [a..<b] = None \<longleftrightarrow> (\<forall>j. a \<le> j \<and> j < b \<longrightarrow> \<not> P j)"
  by (auto simp: find_None_iff)

lemma bmq_find_next_bit_eq:
  "start \<le> i \<Longrightarrow> i < sz \<Longrightarrow> i \<in> bm \<Longrightarrow> (\<forall>j. start \<le> j \<and> j < i \<longrightarrow> j \<notin> bm) \<Longrightarrow>
   bmq_find_next_bit bm sz start = i"
  using find_upt_Some [of "\<lambda>i. i \<in> bm" start sz i] by (simp add: bmq_find_next_bit_def)

lemma bmq_find_next_bit_none:
  "(\<forall>j. start \<le> j \<and> j < sz \<longrightarrow> j \<notin> bm) \<Longrightarrow> bmq_find_next_bit bm sz start = sz"
  using find_upt_None [of "\<lambda>i. i \<in> bm" start sz] by (simp add: bmq_find_next_bit_def)


lemma boost_task_cases:
  "boost_prio (boost_task cfg p r) = boost_prio p \<or>
   boost_prio (boost_task cfg p r) = boost_prio p - 1 \<and>
     (policy p = SCHED_NORMAL \<and> - MAX_PRIORITY_ADJ cfg \<le> boost_prio (boost_task cfg p r) \<or>
      (policy p = SCHED_BATCH \<or> policy p = SCHED_IDLE) \<and> 0 \<le> boost_prio (boost_task cfg p r))"
  by (auto simp: boost_task_def Let_def SCHED_NORMAL_def SCHED_BATCH_def SCHED_IDLE_def)

lemma deboost_task_cases:
  "boost_prio (deboost_task cfg p) = boost_prio p \<or>
   boost_prio (deboost_task cfg p) = boost_prio p + 1 \<and>
     boost_prio (deboost_task cfg p) \<le> MAX_PRIORITY_ADJ cfg"
  by (auto simp: deboost_task_def)

lemma boost_sched_fork:
  "boost_prio (tasks (sched_fork cfg c p s) q) =
     (if q = p then MAX_PRIORITY_ADJ cfg else boost_prio (tasks s q))"
  by (simp add: sched_fork_def Let_def resched_curr_def)

lemma boost_do_sched_yield:
  assumes "do_sched_yield cfg c s = Inr (s', b)"
  shows "boost_prio (tasks s' q) = boost_prio (tasks s q) \<or>
         boost_prio (tasks s' q) = MAX_PRIORITY_ADJ cfg \<and> sched_yield_type s = 1 \<and>
           q = curr (runqueues s c)"
  using assms
  by (auto simp: do_sched_yield_def Let_def split: if_splits sum.splits
      dest!: tasks_requeue_task)

lemma boost_check_curr:
  assumes "check_curr cfg p c s = Inr s'"
  shows "boost_prio (tasks s' q) = boost_prio (tasks s q) \<or>
         q = p \<and> boost_prio (tasks s' q) = boost_prio (deboost_task cfg (tasks s p))"
  using assms
  by (auto simp: check_curr_def Let_def update_curr_def deboost_task_def split: if_splits
      dest!: tasks_requeue_task)

lemma c_div_2: "\<bar>a - 2 * c_div a 2\<bar> \<le> 1 \<and> (0 \<le> a \<longrightarrow> c_div a 2 = a div 2)"
  by (auto simp: c_div_def abs_if)



lemma upd_rq_fields [simp]:
  "sched_rq_watermark (upd_rq c f s) = sched_rq_watermark s"
  "sched_rq_watermark_bitmap (upd_rq c f s) = sched_rq_watermark_bitmap s"
  "sched_rq_pending_mask (upd_rq c f s) = sched_rq_pending_mask s"
  "sched_yield_type (upd_rq c f s) = sched_yield_type s"
  "sched_smt_present (upd_rq c f s) = sched_smt_present s"
  "cpu_smt_mask (upd_rq c f s) = cpu_smt_mask s"
  "cpu_online_mask (upd_rq c f s) = cpu_online_mask s"
  "sched_cpu_affinity_chk_masks (upd_rq c f s) = sched_cpu_affinity_chk_masks s"
  "nr_cpu_ids (upd_rq c f s) = nr_cpu_ids s"
  by (simp_all add: upd_rq_def)

lemma upd_task_fields [simp]:
  "sched_rq_watermark (upd_task p g s) = sched_rq_watermark s"
  "sched_rq_watermark_bitmap (upd_task p g s) = sched_rq_watermark_bitmap s"
  "sched_rq_pending_mask (upd_task p g s) = sched_rq_pending_mask s"
  "sched_yield_type (upd_task p g s) = sched_yield_type s"
  "sched_smt_present (upd_task p g s) = sched_smt_present s"
  "cpu_smt_mask (upd_task p g s) = cpu_smt_mask s"
  "cpu_online_mask (upd_task p g s) = cpu_online_mask s"
  "sched_cpu_affinity_chk_masks (upd_task p g s) = sched_cpu_affinity_chk_masks s"
  "nr_cpu_ids (upd_task p g s) = nr_cpu_ids s"
  by (simp_all add: upd_task_def)

text \<open>Frame of update_sched_rq_watermark\<close>

lemma smt_frame:
  "runqueues (update_smt_watermark c l w s) = runqueues s"
  "sched_smt_present (update_smt_watermark c l w s) = sched_smt_present s"
  "sched_rq_pending_mask (update_smt_watermark c l w s) = sched_rq_pending_mask s"
  "k \<noteq> 0 \<Longrightarrow> sched_rq_watermark (update_smt_watermark c l w s) k = sched_rq_watermark s k"
  "\<not> sched_smt_present s \<Longrightarrow> update_smt_watermark c l w s = s"
  by (simp_all add: update_smt_watermark_def Let_def)

lemma update_wm_frame:
  assumes "update_sched_rq_watermark cfg c s = Inr s'"
  shows "sched_smt_present s' = sched_smt_present s"
    and "sched_rq_pending_mask s' = sched_rq_pending_mask s"
    and "queue (runqueues s' k) = queue (runqueues s k)"
    and "nr_running (runqueues s' k) = nr_running (runqueues s k)"
    and "k \<noteq> c \<Longrightarrow> runqueues s' k = runqueues s k"
  using assms
  by (auto simp: update_sched_rq_watermark_def Let_def smt_frame split: if_splits)




lemma queue_bit_fields [simp]:
  "sched_rq_watermark (set_queue_bit c i s) = sched_rq_watermark s"
  "sched_smt_present (set_queue_bit c i s) = sched_smt_present s"
  "sched_rq_pending_mask (set_queue_bit c i s) = sched_rq_pending_mask s"
  "sched_rq_watermark (clear_queue_bit c i s) = sched_rq_watermark s"
  "sched_smt_present (clear_queue_bit c i s) = sched_smt_present s"
  "sched_rq_pending_mask (clear_queue_bit c i s) = sched_rq_pending_mask s"
  "watermark (runqueues (set_queue_bit c i s) k) = watermark (runqueues s k)"
  "watermark (runqueues (clear_queue_bit c i s) k) = watermark (runqueues s k)"
  "nr_running (runqueues (set_queue_bit c i s) k) = nr_running (runqueues s k)"
  "nr_running (runqueues (clear_queue_bit c i s) k) = nr_running (runqueues s k)"
  "k \<noteq> c \<Longrightarrow> runqueues (set_queue_bit c i s) k = runqueues s k"
  "k \<noteq> c \<Longrightarrow> runqueues (clear_queue_bit c i s) k = runqueues s k"
  by (simp_all add: set_queue_bit_def clear_queue_bit_def)













lemma u64_id: "0 \<le> i \<Longrightarrow> i < 2 ^ 64 \<Longrightarrow> u64 i = nat i"
  by (simp add: u64_def)

lemma enqueue_task_pending:
  assumes e: "enqueue_task cfg p c s = Inr s'"
    and n: "nr_running (runqueues s c) + 1 < 2 ^ 64"
    and inv: "pending_ok s k"
  shows "pending_ok s' k"
proof -
  let ?idx = "task_sched_prio (tasks s p)"
  let ?s1 = "upd_task p (\<lambda>t. t\<lparr>bmq_idx := ?idx\<rparr>) s"
  let ?s2 = "set_queue_bit c (nat ?idx)
     (upd_rq c (\<lambda>r. r\<lparr>queue := bmq_add_task (tasks ?s1) p (queue r) (nat ?idx)\<rparr>) ?s1)"
  from e obtain s3 where u: "update_sched_rq_watermark cfg c ?s2 = Inr s3"
    and s': "s' = (let n = u64 (int (nr_running (runqueues s3 c)) + 1);
                       s4 = upd_rq c (\<lambda>r. r\<lparr>nr_running := n\<rparr>) s3
                   in if 2 = n
                      then s4\<lparr>sched_rq_pending_mask := insert c (sched_rq_pending_mask s4)\<rparr>
                      else s4)"
    by (auto simp: enqueue_task_def Let_def split: if_splits sum.splits)
  have nr: "nr_running (runqueues s3 k) = nr_running (runqueues s k)" for k
    using update_wm_frame(4) [OF u, of k] by simp
  have pm: "sched_rq_pending_mask s3 = sched_rq_pending_mask s"
    using update_wm_frame(2) [OF u] by simp
  have "u64 (int (nr_running (runqueues s c)) + 1) = nr_running (runqueues s c) + 1"
    using n by (subst u64_id) auto
  then show ?thesis
    using inv by (auto simp: pending_ok_def s' Let_def nr pm)
qed

lemma dequeue_task_pending:
  assumes e: "dequeue_task cfg p c s = Inr s'"
    and n: "0 < nr_running (runqueues s c)" "nr_running (runqueues s c) < 2 ^ 64"
    and inv: "pending_ok s k"
  shows "pending_ok s' k"
proof -
  let ?idx = "bmq_idx (tasks s p)"
  let ?s1 = "upd_rq c (\<lambda>r. r\<lparr>queue := list_del p (queue r)\<rparr>) s"
  from e obtain s2 where u: "(if heads (queue (runqueues ?s1 c)) (nat ?idx) = []
                  then update_sched_rq_watermark cfg c (clear_queue_bit c (nat ?idx) ?s1)
                  else Inr ?s1) = Inr s2"
    and s': "s' = (let n = u64 (int (nr_running (runqueues s2 c)) - 1);
                     s3 = upd_rq c (\<lambda>r. r\<lparr>nr_running := n\<rparr>) s2
                 in (if 1 = n
                         then s3\<lparr>sched_rq_pending_mask := sched_rq_pending_mask s3 - {c}\<rparr>
                         else s3))"
    by (auto simp: dequeue_task_def Let_def split: if_splits sum.splits)
  have fr: "nr_running (runqueues s2 k) = nr_running (runqueues s k) \<and>
            sched_rq_pending_mask s2 = sched_rq_pending_mask s" for k
  proof (cases "heads (queue (runqueues ?s1 c)) (nat ?idx) = []")
    case True
    with u have "update_sched_rq_watermark cfg c (clear_queue_bit c (nat ?idx) ?s1) = Inr s2"
      by simp
    from update_wm_frame(4) [OF this, of k] update_wm_frame(2) [OF this]
    show ?thesis by simp
  next
    case False
    with u have "s2 = ?s1" by simp
    then show ?thesis by simp
  qed
  have "u64 (int (nr_running (runqueues s c)) - 1) = nr_running (runqueues s c) - 1"
    using n by (subst u64_id) auto
  then show ?thesis
    using inv n(1) fr [of k] fr [of c] by (auto simp: pending_ok_def s' Let_def)
qed

lemma tasks_requeue_task_lazy:
  "requeue_task_lazy cfg p c s = Inr (r, s') \<Longrightarrow>
   tasks s' = (tasks s)(p := (tasks s p)\<lparr>bmq_idx := task_sched_prio (tasks s p)\<rparr>)"
  by (auto simp: requeue_task_lazy_def Let_def split: if_splits sum.splits
      dest!: tasks_requeue_move)

lemma tasks_resched_curr:
  "tasks (resched_curr c s) q = tasks s q \<or>
   tasks (resched_curr c s) q = (tasks s q)\<lparr>need_resched := True\<rparr>"
  by (simp add: resched_curr_def)

lemma tasks_check_preempt_curr:
  assumes "check_preempt_curr cfg c p s = Inr s'"
  shows "\<exists>n. tasks s' q = (tasks s q)\<lparr>need_resched := n\<rparr>"
proof -
  have a: "\<exists>n. tasks (resched_curr c s1) q = (tasks s1 q)\<lparr>need_resched := n\<rparr>" for s1
    by (cases "q = curr (runqueues s1 c)") (auto simp: resched_curr_def intro: exI [of _ "need_resched (tasks s1 q)"])
  have b: "\<exists>n. tasks s q = (tasks s q)\<lparr>need_resched := n\<rparr>"
    by (rule exI [of _ "need_resched (tasks s q)"]) simp
  let ?s1 = "(if MAX_PRIO = prio (tasks s (curr (runqueues s c))) then resched_curr c s else s)"
  have c1: "\<exists>n. tasks ?s1 q = (tasks s q)\<lparr>need_resched := n\<rparr>"
    using a [of s] b by auto
  from assms obtain t where "s' = (if t = p then resched_curr c ?s1 else ?s1)"
    by (auto simp: check_preempt_curr_def Let_def split: sum.splits)
  moreover have "\<exists>n. tasks (resched_curr c ?s1) q = (tasks s q)\<lparr>need_resched := n\<rparr>"
  proof -
    from a [of ?s1] obtain n where "tasks (resched_curr c ?s1) q = (tasks ?s1 q)\<lparr>need_resched := n\<rparr>"
      by blast
    moreover from c1 obtain m where "tasks ?s1 q = (tasks s q)\<lparr>need_resched := m\<rparr>" by blast
    ultimately have "tasks (resched_curr c ?s1) q = (tasks s q)\<lparr>need_resched := n\<rparr>" by simp
    then show ?thesis by blast
  qed
  ultimately show ?thesis using c1 by (cases "t = p") simp_all
qed

lemma tasks_check_task_changed:
  assumes "check_task_changed cfg c p s = Inr s'"
  shows "\<exists>i n. tasks s' q = (tasks s q)\<lparr>bmq_idx := i, need_resched := n\<rparr>"
proof (cases "task_on_rq_queued (tasks s p)")
  case False
  with assms have "s' = s" by (simp add: check_task_changed_def)
  then show ?thesis
    by (auto intro!: exI [of _ "bmq_idx (tasks s q)"] exI [of _ "need_resched (tasks s q)"])
next
  case True
  with assms obtain r s1 where l: "requeue_task_lazy cfg p c s = Inr (r, s1)"
    and k: "(if r \<noteq> 0 then check_preempt_curr cfg c p s1 else Inr s1) = Inr s'"
    by (auto simp: check_task_changed_def split: sum.splits)
  from tasks_requeue_task_lazy [OF l]
  have t1: "\<exists>i. tasks s1 q = (tasks s q)\<lparr>bmq_idx := i\<rparr>"
    by (cases "q = p") (auto intro: exI [of _ "bmq_idx (tasks s q)"])
  then obtain i where i: "tasks s1 q = (tasks s q)\<lparr>bmq_idx := i\<rparr>" by blast
  have "\<exists>n. tasks s' q = (tasks s1 q)\<lparr>need_resched := n\<rparr>"
  proof (cases "r \<noteq> 0")
    case True
    with k show ?thesis using tasks_check_preempt_curr by simp
  next
    case False
    with k have "s' = s1" by simp
    then show ?thesis by (auto intro: exI [of _ "need_resched (tasks s1 q)"])
  qed
  then obtain n where "tasks s' q = (tasks s1 q)\<lparr>need_resched := n\<rparr>" by blast
  with i have "tasks s' q = (tasks s q)\<lparr>bmq_idx := i, need_resched := n\<rparr>" by simp
  then show ?thesis by blast
qed

lemma runqueues_idle_frame:
  "update_sched_rq_watermark cfg c s = Inr s' \<Longrightarrow> idle (runqueues s' k) = idle (runqueues s k)"
  by (auto simp: update_sched_rq_watermark_def Let_def smt_frame split: if_splits)

lemmas pi_defs = rt_mutex_setprio_def check_task_changed_def check_preempt_curr_def
  rq_first_bmq_task_def resched_curr_def rt_effective_prio_of_def rt_effective_prio_def
  task_on_rq_queued_def rt_state_def

lemma requeue_move_queue:
  assumes "requeue_move cfg p c idx s = Inr s'"
  shows "heads (queue (runqueues s' k)) = heads (queue (runqueues s k))"
proof -
  let ?old = "bmq_idx (tasks s p)"
  let ?sa = "(if heads (queue (runqueues s c)) (nat ?old) = []
                      then clear_queue_bit c (nat ?old) s else s)"
  from assms have u: "update_sched_rq_watermark cfg c
      (set_queue_bit c (nat idx) (upd_task p (\<lambda>t. t\<lparr>bmq_idx := idx\<rparr>) ?sa)) = Inr s'"
    by (auto simp: requeue_move_def Let_def split: if_splits)
  from update_wm_frame(3) [OF u, of k] show ?thesis
    by (simp add: set_queue_bit_def clear_queue_bit_def)
qed

lemma requeue_task_heads:
  assumes "requeue_task cfg p c s = Inr s'"
  shows "heads (queue (runqueues s' c)) =
           heads (bmq_add_task (tasks s) p (list_del p (queue (runqueues s c)))
                    (nat (task_sched_prio (tasks s p))))"
    and "k \<noteq> c \<Longrightarrow> heads (queue (runqueues s' k)) = heads (queue (runqueues s k))"
    and "level_ok cfg (task_sched_prio (tasks s p))"
proof -
  let ?idx = "task_sched_prio (tasks s p)"
  let ?s1 = "upd_rq c (\<lambda>r. r\<lparr>queue :=
                       bmq_add_task (tasks s) p (list_del p (queue r)) (nat ?idx)\<rparr>) s"
  from assms show ok: "level_ok cfg ?idx"
    by (auto simp: requeue_task_def Let_def split: if_splits)
  have h: "heads (queue (runqueues s' j)) = heads (queue (runqueues ?s1 j))" for j
  proof (cases "?idx \<noteq> bmq_idx (tasks s p)")
    case True
    with assms ok have "requeue_move cfg p c ?idx ?s1 = Inr s'"
      by (simp add: requeue_task_def Let_def)
    then show ?thesis by (rule requeue_move_queue)
  next
    case False
    with assms ok have "s' = ?s1" by (simp add: requeue_task_def Let_def)
    then show ?thesis by simp
  qed
  from h [of c] show "heads (queue (runqueues s' c)) =
           heads (bmq_add_task (tasks s) p (list_del p (queue (runqueues s c))) (nat ?idx))"
    by simp
  from h [of k] show "k \<noteq> c \<Longrightarrow> heads (queue (runqueues s' k)) = heads (queue (runqueues s k))"
    by simp
qed

lemma update_wm_rq:
  assumes "update_sched_rq_watermark cfg c s = Inr s'"
  shows "nr_running (runqueues s' k) = nr_running (runqueues s k)"
    and "curr (runqueues s' k) = curr (runqueues s k)"
    and "idle (runqueues s' k) = idle (runqueues s k)"
    and "stop (runqueues s' k) = stop (runqueues s k)"
    and "skip (runqueues s' k) = skip (runqueues s k)"
    and "online (runqueues s' k) = online (runqueues s k)"
  using assms
  by (auto simp: update_sched_rq_watermark_def Let_def smt_frame split: if_splits)

lemma requeue_task_skip:
  assumes "requeue_task cfg p c s = Inr s'"
  shows "nr_running (runqueues s' k) = nr_running (runqueues s k)"
    and "curr (runqueues s' k) = curr (runqueues s k)"
    and "idle (runqueues s' k) = idle (runqueues s k)"
    and "stop (runqueues s' k) = stop (runqueues s k)"
    and "skip (runqueues s' k) = skip (runqueues s k)"
    and "online (runqueues s' k) = online (runqueues s k)"
proof -
  let ?idx = "task_sched_prio (tasks s p)"
  let ?s1 = "upd_rq c (\<lambda>r. r\<lparr>queue :=
                       bmq_add_task (tasks s) p (list_del p (queue r)) (nat ?idx)\<rparr>) s"
  define sb where "sb = set_queue_bit c (nat ?idx) (upd_task p (\<lambda>t. t\<lparr>bmq_idx := ?idx\<rparr>)
      (if heads (queue (runqueues ?s1 c)) (nat (bmq_idx (tasks ?s1 p))) = []
       then clear_queue_bit c (nat (bmq_idx (tasks ?s1 p))) ?s1 else ?s1))"
  have sb: "nr_running (runqueues sb k) = nr_running (runqueues s k)"
    "curr (runqueues sb k) = curr (runqueues s k)"
    "idle (runqueues sb k) = idle (runqueues s k)"
    "stop (runqueues sb k) = stop (runqueues s k)"
    "skip (runqueues sb k) = skip (runqueues s k)"
    "online (runqueues sb k) = online (runqueues s k)"
    by (simp_all add: sb_def set_queue_bit_def clear_queue_bit_def)
  have "nr_running (runqueues s' k) = nr_running (runqueues s k) \<and>
    curr (runqueues s' k) = curr (runqueues s k) \<and>
    idle (runqueues s' k) = idle (runqueues s k) \<and>
    stop (runqueues s' k) = stop (runqueues s k) \<and>
    skip (runqueues s' k) = skip (runqueues s k) \<and>
    online (runqueues s' k) = online (runqueues s k)"
  proof (cases "?idx \<noteq> bmq_idx (tasks s p)")
    case False
    with assms have "s' = ?s1" by (auto simp: requeue_task_def Let_def split: if_splits)
    then show ?thesis by simp
  next
    case True
    with assms have "requeue_move cfg p c ?idx ?s1 = Inr s'"
      by (auto simp: requeue_task_def Let_def split: if_splits)
    then have u: "update_sched_rq_watermark cfg c sb = Inr s'"
      by (auto simp: requeue_move_def Let_def sb_def split: if_splits)
    show ?thesis
      using update_wm_rq [OF u, of k] sb by simp
  qed
  then show "nr_running (runqueues s' k) = nr_running (runqueues s k)"
    and "curr (runqueues s' k) = curr (runqueues s k)"
    and "idle (runqueues s' k) = idle (runqueues s k)"
    and "stop (runqueues s' k) = stop (runqueues s k)"
    and "skip (runqueues s' k) = skip (runqueues s k)"
    and "online (runqueues s' k) = online (runqueues s k)"
    by simp_all
qed

text \<open>where the task sits after a requeue\<close>

lemma requeue_task_place:
  assumes "requeue_task cfg p c s = Inr s'"
  shows "bmq_idx (tasks s' p) = task_sched_prio (tasks s p)"
    and "task_sched_prio (tasks s p) \<noteq> 0 \<Longrightarrow>
           heads (queue (runqueues s' c)) (nat (task_sched_prio (tasks s p))) =
             removeAll p (heads (queue (runqueues s c)) (nat (task_sched_prio (tasks s p)))) @ [p]"
    and "task_sched_prio (tasks s p) = 0 \<Longrightarrow>
           heads (queue (runqueues s' c)) 0 =
             takeWhile (\<lambda>t. prio (tasks s t) \<le> prio (tasks s p))
               (removeAll p (heads (queue (runqueues s c)) 0)) @
             p # dropWhile (\<lambda>t. prio (tasks s t) \<le> prio (tasks s p))
               (removeAll p (heads (queue (runqueues s c)) 0))"
    and "l \<noteq> nat (task_sched_prio (tasks s p)) \<Longrightarrow>
           heads (queue (runqueues s' c)) l = removeAll p (heads (queue (runqueues s c)) l)"
proof -
  from tasks_requeue_task [OF assms] show "bmq_idx (tasks s' p) = task_sched_prio (tasks s p)"
    by simp
  note h = requeue_task_heads(1) [OF assms] and ok = requeue_task_heads(3) [OF assms]
  show "task_sched_prio (tasks s p) \<noteq> 0 \<Longrightarrow>
           heads (queue (runqueues s' c)) (nat (task_sched_prio (tasks s p))) =
             removeAll p (heads (queue (runqueues s c)) (nat (task_sched_prio (tasks s p)))) @ [p]"
    using ok by (simp add: h bmq_add_task_def list_del_def level_ok_def)
  show "task_sched_prio (tasks s p) = 0 \<Longrightarrow>
           heads (queue (runqueues s' c)) 0 =
             takeWhile (\<lambda>t. prio (tasks s t) \<le> prio (tasks s p))
               (removeAll p (heads (queue (runqueues s c)) 0)) @
             p # dropWhile (\<lambda>t. prio (tasks s t) \<le> prio (tasks s p))
               (removeAll p (heads (queue (runqueues s c)) 0))"
    by (simp add: h bmq_add_task_def list_del_def not_less)
  show "l \<noteq> nat (task_sched_prio (tasks s p)) \<Longrightarrow>
           heads (queue (runqueues s' c)) l = removeAll p (heads (queue (runqueues s c)) l)"
    by (auto simp: h bmq_add_task_def list_del_def)
qed

lemmas yield_defs = yield2_state_def sys_sched_yield_def do_sched_yield_def rt_task_def rt_prio_def
  choose_next_task_def rq_runnable_task_def rq_next_bmq_task_def rq_first_bmq_task_def
  rt_run_state_def loaded_state_def

lemmas slice_defs = check_curr_def update_curr_def s64_def u64_def deboost_task_def
  task_on_rq_queued_def rr_state_def expired_state_def boosted_state_def

lemma setscheduler_deadline:
  "sched_policy attr = SCHED_DEADLINE \<Longrightarrow>
   uu_sched_setscheduler cfg env p attr user pi s =
   uu_sched_setscheduler cfg env p dl_squash_attr user pi s"
  by (simp add: uu_sched_setscheduler_def dl_squash_attr_def SCHED_DEADLINE_def SCHED_FIFO_def)

lemma setscheduler_locked_error:
  assumes "setscheduler_locked cfg p attr pi s = Inr (ret, s')" and "ret \<noteq> 0"
  shows "s' = s"
  using assms unfolding setscheduler_locked_def Let_def
  by (simp add: EINVAL_def split: if_splits sum.splits)

lemma setscheduler_error_unchanged:
  assumes "uu_sched_setscheduler cfg env p attr user pi s = Inr (ret, s')" and "ret \<noteq> 0"
  shows "s' = s"
  using assms unfolding uu_sched_setscheduler_def Let_def
  by (auto simp: EINVAL_def EPERM_def split: if_splits dest: setscheduler_locked_error)

lemma setscheduler_validation:
  assumes "sched_policy attr \<noteq> SCHED_DEADLINE"
    and "sched_attr_invalid env (tasks s p) attr"
  shows "uu_sched_setscheduler cfg env p attr user pi s = Inr (- EINVAL, s)"
  using assms by (simp add: uu_sched_setscheduler_def)

lemma sched_attr_invalid_range:
  "sched_policy attr > SCHED_IDLE \<or> sched_priority attr > 99 \<or>
   (sched_policy attr = SCHED_FIFO \<or> sched_policy attr = SCHED_RR) \<and> sched_priority attr = 0 \<or>
   (sched_policy attr = SCHED_NORMAL \<or> sched_policy attr = SCHED_BATCH \<or>
    sched_policy attr = SCHED_IDLE) \<and> sched_priority attr \<noteq> 0 \<Longrightarrow>
   sched_attr_invalid env t attr"
  by (auto simp: sched_attr_invalid_def sched_attr_policy_def const_defs)

text \<open>What a policy change stores, and what it refuses\<close>

lemma params_policy:
  "policy (uu_setscheduler_params cfg attr t) = (if sched_policy attr = SETPARAM_POLICY then policy t else sched_policy attr)"
  by (simp add: uu_setscheduler_params_def Let_def)

lemma uu_setscheduler_policy:
  "policy (tasks (uu_setscheduler cfg p attr kb s) p) = (if sched_policy attr = SETPARAM_POLICY then policy (tasks s p) else sched_policy attr)"
  by (simp add: uu_setscheduler_def Let_def params_policy)

lemma locked_policy:
  assumes r: "setscheduler_locked cfg p attr pi s = Inr (0, s')"
  shows "policy (tasks s' p) = policy (tasks s p) \<and>
           sched_attr_policy (tasks s p) attr = policy (tasks s p) \<or>
         policy (tasks s' p) = (if sched_policy attr = SETPARAM_POLICY then policy (tasks s p) else sched_policy attr)"
proof -
  define t where "t = tasks s p"
  define s1 where "s1 = upd_task p (\<lambda>t'. t'\<lparr>sched_reset_on_fork := sched_attr_reset_on_fork t attr\<rparr>) s"
  define same where "same \<longleftrightarrow> sched_attr_policy t attr = policy t \<and>
                 \<not> (rt_policy (sched_attr_policy t attr) \<and> sched_priority attr \<noteq> rt_priority t) \<and>
                 \<not> (\<not> rt_policy (sched_attr_policy t attr) \<and>
                    NICE_TO_PRIO (sched_nice attr) \<noteq> static_prio t)"
  define boosted where "boosted \<longleftrightarrow> pi \<and>
     rt_effective_prio (tasks s1) p (s32 (MAX_RT_PRIO - 1 - int (sched_priority attr))) =
       prio (tasks s1 p)"
  have unf: "setscheduler_locked cfg p attr pi s =
     (if Some p = stop (runqueues s (task_cpu t)) then Inr (- EINVAL, s)
      else if same then Inr (0, s1)
      else if boosted then Inr (0, upd_task p (uu_setscheduler_params cfg attr) s1)
      else (case check_task_changed cfg (task_cpu t) p (uu_setscheduler cfg p attr pi s1) of
              Inl e \<Rightarrow> Inl e
            | Inr s2 \<Rightarrow> Inr (0, s2)))"
    unfolding setscheduler_locked_def Let_def t_def s1_def same_def boosted_def by (rule refl)
  have p1: "policy (tasks s1 p) = policy (tasks s p)" "(if sched_policy attr = SETPARAM_POLICY then policy (tasks s1 p) else sched_policy attr) = (if sched_policy attr = SETPARAM_POLICY then policy (tasks s p) else sched_policy attr)"
    by (simp_all add: s1_def)
  from r have ns: "Some p \<noteq> stop (runqueues s (task_cpu t))"
    unfolding unf by (auto simp: EINVAL_def split: if_splits)
  show ?thesis
  proof (cases same)
    case True
    with r ns have "s' = s1" unfolding unf by simp
    moreover from True have "sched_attr_policy (tasks s p) attr = policy (tasks s p)"
      unfolding same_def t_def by blast
    ultimately show ?thesis using p1 by simp
  next
    case False
    show ?thesis
    proof (cases boosted)
      case True
      with r ns False have "s' = upd_task p (uu_setscheduler_params cfg attr) s1"
        unfolding unf by simp
      then show ?thesis using p1 by (simp add: params_policy)
    next
      case nb: False
      with r ns False have "check_task_changed cfg (task_cpu t) p
          (uu_setscheduler cfg p attr pi s1) = Inr s'"
        unfolding unf by (simp split: sum.splits)
      from tasks_check_task_changed [OF this, of p] obtain i n where
        "tasks s' p = (tasks (uu_setscheduler cfg p attr pi s1) p)\<lparr>bmq_idx := i, need_resched := n\<rparr>"
        by blast
      then have "policy (tasks s' p) = (if sched_policy attr = SETPARAM_POLICY then policy (tasks s1 p) else sched_policy attr)"
        by (simp add: uu_setscheduler_policy)
      then show ?thesis using p1 by simp
    qed
  qed
qed

lemma setscheduler_policy:
  assumes r: "uu_sched_setscheduler cfg env p attr user pi s = Inr (0, s')"
    and nd: "sched_policy attr \<noteq> SCHED_DEADLINE"
  shows "(sched_policy attr = SETPARAM_POLICY \<longrightarrow> policy (tasks s' p) = policy (tasks s p)) \<and>
         (0 \<le> sched_policy attr \<longrightarrow> policy (tasks s' p) = sched_policy attr)"
proof -
  from r nd have "setscheduler_locked cfg p attr pi s = Inr (0, s')"
    unfolding uu_sched_setscheduler_def Let_def
    by (auto simp: EINVAL_def EPERM_def split: if_splits)
  from locked_policy [OF this] show ?thesis
    by (auto simp: sched_attr_policy_def SETPARAM_POLICY_def)
qed

lemma sched_attr_invalid_policy:
  "(rt_policy (sched_attr_policy t attr) \<and>
      \<not> (1 \<le> sched_priority attr \<and> sched_priority attr \<le> 99)) \<or>
   (\<not> rt_policy (sched_attr_policy t attr) \<and> sched_priority attr \<noteq> 0) \<or>
   (0 \<le> sched_policy attr \<and> sched_policy attr > SCHED_IDLE) \<Longrightarrow>
   sched_attr_invalid env t attr"
  by (auto simp: sched_attr_invalid_def sched_attr_policy_def rt_policy_def const_defs)


lemma setscheduler_checks:
  assumes r: "uu_sched_setscheduler cfg env p attr user pi s = Inr (ret, s')"
  shows "(ret \<noteq> 0 \<longrightarrow> s' = s) \<and>
         ((sched_policy attr = SCHED_FIFO \<or> sched_policy attr = SCHED_RR) \<and>
          \<not> (1 \<le> sched_priority attr \<and> sched_priority attr \<le> 99) \<longrightarrow>
            ret = - EINVAL \<and> s' = s) \<and>
         (0 \<le> sched_policy attr \<and> sched_policy attr \<le> SCHED_IDLE \<and>
          sched_policy attr \<noteq> SCHED_FIFO \<and> sched_policy attr \<noteq> SCHED_RR \<and>
          sched_priority attr \<noteq> 0 \<longrightarrow>
            ret = - EINVAL \<and> s' = s) \<and>
         (sched_policy attr \<noteq> SCHED_DEADLINE \<and>
          (sched_policy attr > SCHED_IDLE \<or> sched_priority attr > 99) \<longrightarrow>
            ret = - EINVAL \<and> s' = s) \<and>
         (sched_policy attr = SCHED_DEADLINE \<longrightarrow>
            uu_sched_setscheduler cfg env p dl_squash_attr user pi s = Inr (ret, s') \<and>
            sched_policy dl_squash_attr = SCHED_FIFO \<and> sched_priority dl_squash_attr = 99) \<and>
         (sched_policy attr = SETPARAM_POLICY \<longrightarrow>
            (rt_policy (policy (tasks s p)) \<and>
               \<not> (1 \<le> sched_priority attr \<and> sched_priority attr \<le> 99) \<or>
             \<not> rt_policy (policy (tasks s p)) \<and> sched_priority attr \<noteq> 0 \<longrightarrow>
               ret = - EINVAL \<and> s' = s) \<and>
            (ret = 0 \<longrightarrow> policy (tasks s' p) = policy (tasks s p))) \<and>
         (0 \<le> sched_policy attr \<and> sched_policy attr \<noteq> SCHED_DEADLINE \<and> ret = 0 \<longrightarrow>
            policy (tasks s' p) = sched_policy attr)"
proof -
  have e: "ret \<noteq> 0 \<longrightarrow> s' = s"
    using setscheduler_error_unchanged [OF r] by blast
  have v: "ret = - EINVAL \<and> s' = s"
    if "sched_policy attr \<noteq> SCHED_DEADLINE" and "sched_attr_invalid env (tasks s p) attr"
    using setscheduler_validation [OF that, of cfg user pi] r by simp
  have rt: "(sched_policy attr = SCHED_FIFO \<or> sched_policy attr = SCHED_RR) \<and>
          \<not> (1 \<le> sched_priority attr \<and> sched_priority attr \<le> 99) \<longrightarrow>
            ret = - EINVAL \<and> s' = s"
  proof (intro impI)
    assume a: "(sched_policy attr = SCHED_FIFO \<or> sched_policy attr = SCHED_RR) \<and>
          \<not> (1 \<le> sched_priority attr \<and> sched_priority attr \<le> 99)"
    then have nd: "sched_policy attr \<noteq> SCHED_DEADLINE" by (auto simp: const_defs)
    from a have "sched_attr_invalid env (tasks s p) attr"
      by (intro sched_attr_invalid_policy)
        (auto simp: sched_attr_policy_def rt_policy_def const_defs)
    with v [OF nd] show "ret = - EINVAL \<and> s' = s" by blast
  qed
  have no: "0 \<le> sched_policy attr \<and> sched_policy attr \<le> SCHED_IDLE \<and>
          sched_policy attr \<noteq> SCHED_FIFO \<and> sched_policy attr \<noteq> SCHED_RR \<and>
          sched_priority attr \<noteq> 0 \<longrightarrow>
            ret = - EINVAL \<and> s' = s"
  proof (intro impI)
    assume a: "0 \<le> sched_policy attr \<and> sched_policy attr \<le> SCHED_IDLE \<and>
          sched_policy attr \<noteq> SCHED_FIFO \<and> sched_policy attr \<noteq> SCHED_RR \<and>
          sched_priority attr \<noteq> 0"
    then have nd: "sched_policy attr \<noteq> SCHED_DEADLINE" by (auto simp: const_defs)
    from a have "sched_attr_invalid env (tasks s p) attr"
      by (intro sched_attr_invalid_policy)
        (auto simp: sched_attr_policy_def rt_policy_def const_defs)
    with v [OF nd] show "ret = - EINVAL \<and> s' = s" by blast
  qed
  have rej: "sched_policy attr \<noteq> SCHED_DEADLINE \<and>
          (sched_policy attr > SCHED_IDLE \<or> sched_priority attr > 99) \<longrightarrow>
            ret = - EINVAL \<and> s' = s"
  proof (intro impI)
    assume a: "sched_policy attr \<noteq> SCHED_DEADLINE \<and>
          (sched_policy attr > SCHED_IDLE \<or> sched_priority attr > 99)"
    then have "sched_attr_invalid env (tasks s p) attr"
      by (intro sched_attr_invalid_range) auto
    with v a show "ret = - EINVAL \<and> s' = s" by blast
  qed
  have dl: "sched_policy attr = SCHED_DEADLINE \<longrightarrow>
            uu_sched_setscheduler cfg env p dl_squash_attr user pi s = Inr (ret, s') \<and>
            sched_policy dl_squash_attr = SCHED_FIFO \<and> sched_priority dl_squash_attr = 99"
    using setscheduler_deadline [of attr cfg env p user pi s] r
    by (simp add: dl_squash_attr_def)
  have sp: "sched_policy attr = SETPARAM_POLICY \<longrightarrow>
            (rt_policy (policy (tasks s p)) \<and>
               \<not> (1 \<le> sched_priority attr \<and> sched_priority attr \<le> 99) \<or>
             \<not> rt_policy (policy (tasks s p)) \<and> sched_priority attr \<noteq> 0 \<longrightarrow>
               ret = - EINVAL \<and> s' = s) \<and>
            (ret = 0 \<longrightarrow> policy (tasks s' p) = policy (tasks s p))"
  proof (intro impI conjI)
    assume a: "sched_policy attr = SETPARAM_POLICY"
    then have nd: "sched_policy attr \<noteq> SCHED_DEADLINE" by (simp add: const_defs)
    from a have ap: "sched_attr_policy (tasks s p) attr = policy (tasks s p)"
      by (simp add: sched_attr_policy_def SETPARAM_POLICY_def)
    {
      assume "rt_policy (policy (tasks s p)) \<and>
               \<not> (1 \<le> sched_priority attr \<and> sched_priority attr \<le> 99) \<or>
             \<not> rt_policy (policy (tasks s p)) \<and> sched_priority attr \<noteq> 0"
      then have "sched_attr_invalid env (tasks s p) attr"
        using sched_attr_invalid_policy [of "tasks s p" attr env] unfolding ap by blast
      with v [OF nd] show "ret = - EINVAL" "s' = s" by blast+
    }
    assume "ret = 0"
    with r have "uu_sched_setscheduler cfg env p attr user pi s = Inr (0, s')" by simp
    from setscheduler_policy [OF this nd] a
    show "policy (tasks s' p) = policy (tasks s p)" by blast
  qed
  have st: "0 \<le> sched_policy attr \<and> sched_policy attr \<noteq> SCHED_DEADLINE \<and> ret = 0 \<longrightarrow>
            policy (tasks s' p) = sched_policy attr"
  proof (intro impI)
    assume a: "0 \<le> sched_policy attr \<and> sched_policy attr \<noteq> SCHED_DEADLINE \<and> ret = 0"
    with r have "uu_sched_setscheduler cfg env p attr user pi s = Inr (0, s')" by simp
    from setscheduler_policy [OF this] a
    show "policy (tasks s' p) = sched_policy attr" by blast
  qed
  show ?thesis using e rt no rej dl sp st by blast
qed

lemma syscall_attr:
  assumes "0 \<le> pol"
  shows "u_sched_setscheduler cfg env p pol pp chk s =
         uu_sched_setscheduler cfg env p
           \<lparr>sched_policy = unset_bit SCHED_RESET_ON_FORK_BIT pol,
            sched_priority = nat (pp mod 2 ^ 32),
            sched_nice = PRIO_TO_NICE (static_prio (tasks s p)),
            sched_flags = (if bit pol SCHED_RESET_ON_FORK_BIT then {0} else {})\<rparr> chk True s"
proof (cases "bit pol SCHED_RESET_ON_FORK_BIT")
  case True
  with assms show ?thesis
    by (simp add: u_sched_setscheduler_def Let_def SETPARAM_POLICY_def)
next
  case False
  then have "unset_bit SCHED_RESET_ON_FORK_BIT pol = pol"
    by (simp add: unset_bit_eq)
  with False show ?thesis
    by (simp add: u_sched_setscheduler_def Let_def)
qed

lemma syscall_checks:
  assumes r: "sys_sched_setscheduler cfg env p pol pp s = Inr (ret, s')"
    and rng: "- (2 ^ 31) \<le> pp" "pp < 2 ^ 31"
  shows "(ret \<noteq> 0 \<longrightarrow> s' = s) \<and>
         (pol < 0 \<or>
          SCHED_IDLE < unset_bit SCHED_RESET_ON_FORK_BIT pol \<and>
            unset_bit SCHED_RESET_ON_FORK_BIT pol \<noteq> SCHED_DEADLINE \<or>
          rt_policy (unset_bit SCHED_RESET_ON_FORK_BIT pol) \<and> \<not> (1 \<le> pp \<and> pp \<le> 99) \<or>
          unset_bit SCHED_RESET_ON_FORK_BIT pol \<le> SCHED_IDLE \<and>
            \<not> rt_policy (unset_bit SCHED_RESET_ON_FORK_BIT pol) \<and> pp \<noteq> 0 \<longrightarrow>
            ret = - EINVAL \<and> s' = s)"
proof (cases "pol < 0")
  case True
  with r show ?thesis by (simp add: sys_sched_setscheduler_def)
next
  case False
  define pol' where "pol' = unset_bit SCHED_RESET_ON_FORK_BIT pol"
  define attr where "attr = \<lparr>sched_policy = pol',
            sched_priority = nat (pp mod 2 ^ 32),
            sched_nice = PRIO_TO_NICE (static_prio (tasks s p)),
            sched_flags = (if bit pol SCHED_RESET_ON_FORK_BIT then {0::nat} else {})\<rparr>"
  from False have p0: "0 \<le> pol" by simp
  then have p1: "0 \<le> pol'" by (simp add: pol'_def)
  from r False have u: "uu_sched_setscheduler cfg env p attr True True s = Inr (ret, s')"
    by (simp add: sys_sched_setscheduler_def syscall_attr [OF p0] attr_def pol'_def)
  have a: "sched_policy attr = pol'" "sched_priority attr = nat (pp mod 2 ^ 32)"
    by (simp_all add: attr_def)
  have pr: "(1 \<le> sched_priority attr \<and> sched_priority attr \<le> 99) = (1 \<le> pp \<and> pp \<le> 99)"
    "(sched_priority attr \<noteq> 0) = (pp \<noteq> 0)"
  proof -
    show "(1 \<le> sched_priority attr \<and> sched_priority attr \<le> 99) = (1 \<le> pp \<and> pp \<le> 99)"
    proof (cases "0 \<le> pp")
      case True
      with rng have "pp mod 2 ^ 32 = pp" by simp
      with True show ?thesis by (auto simp: a)
    next
      case False
      have "pp mod 2 ^ 32 = (pp + 2 ^ 32) mod 2 ^ 32" by simp
      also have "\<dots> = pp + 2 ^ 32"
        using rng False by (intro mod_pos_pos_trivial) simp_all
      finally have "pp mod 2 ^ 32 = pp + 2 ^ 32" .
      with False rng show ?thesis by (auto simp: a)
    qed
    show "(sched_priority attr \<noteq> 0) = (pp \<noteq> 0)"
    proof (cases "0 \<le> pp")
      case True
      with rng have "pp mod 2 ^ 32 = pp" by simp
      with True show ?thesis by (auto simp: a)
    next
      case False
      have "pp mod 2 ^ 32 = (pp + 2 ^ 32) mod 2 ^ 32" by simp
      also have "\<dots> = pp + 2 ^ 32"
        using rng False by (intro mod_pos_pos_trivial) simp_all
      finally have "pp mod 2 ^ 32 = pp + 2 ^ 32" .
      with False rng show ?thesis by (auto simp: a)
    qed
  qed
  note k = setscheduler_checks [OF u, unfolded a(1) pr]
  from k have e: "ret \<noteq> 0 \<longrightarrow> s' = s" by blast
  have "ret = - EINVAL \<and> s' = s"
    if c: "SCHED_IDLE < pol' \<and> pol' \<noteq> SCHED_DEADLINE \<or>
          rt_policy pol' \<and> \<not> (1 \<le> pp \<and> pp \<le> 99) \<or>
          pol' \<le> SCHED_IDLE \<and> \<not> rt_policy pol' \<and> pp \<noteq> 0"
    using c k p1 unfolding rt_policy_def by blast
  with e False show ?thesis unfolding pol'_def by blast
qed

lemmas attr_defs = uu_sched_setscheduler_def setscheduler_locked_def sched_attr_invalid_def
  sched_attr_denied_def sched_attr_policy_def sched_attr_reset_on_fork_def uu_setscheduler_def
  uu_setscheduler_params_def normal_prio_of_def s32_def rt_policy_def dl_squash_attr_def
  root_env_def fifo50_attr_def







text \<open>
  The masks that either initialisation builds for a CPU hold, between them, every online
  CPU but the CPU itself.
\<close>

lemma early_masks_cover:
  assumes "0 < levels" and "online_cpus \<subseteq> cpu_possible_mask"
  shows "online_cpus - {c} \<subseteq> \<Union> (set (sched_init_topology_cpumask_early levels cpu_possible_mask c))"
  using assms by (auto simp: sched_init_topology_cpumask_early_def)

lemma chk_store_ok:
  assumes "i < length ms"
  shows "\<exists>ms' i'. chk_store m (ms, i) = Inr (ms', i') \<and> length ms' = length ms \<and>
           i \<le> i' \<and> i' \<le> i + 1 \<and> (m \<noteq> {} \<longrightarrow> i' = i + 1) \<and> ms' ! i = m \<and>
           (\<forall>j. j \<noteq> i \<longrightarrow> ms' ! j = ms ! j)"
  using assms by (simp add: chk_store_def)

lemma topology_masks_cover:
  assumes len: "length ms = NR_CPU_AFFINITY_CHK_LEVEL sched_smt sched_mc"
    and bits: "online_cpus \<subseteq> {0..<nr_cpumask_bits}"
  shows "\<exists>ms'. sched_init_topology_cpumask sched_smt sched_mc nr_cpumask_bits sibling coregroup
                  core online_cpus c ms = Inr ms' \<and>
               length ms' = length ms \<and> online_cpus - {c} \<subseteq> \<Union> (set ms')"
proof -
  define others where "others = {0..<nr_cpumask_bits} - {c}"
  define m1 where "m1 = others \<inter> sibling"
  define m2 where "m2 = others \<inter> coregroup"
  define m3 where "m3 = (if sched_mc then {0..<nr_cpumask_bits} - coregroup else others) \<inter> core"
  define m4 where "m4 = ({0..<nr_cpumask_bits} - core) \<inter> online_cpus"
  have l2: "2 \<le> length ms" "sched_smt \<longrightarrow> 3 \<le> length ms" "sched_mc \<longrightarrow> 3 \<le> length ms"
    "sched_smt \<and> sched_mc \<longrightarrow> 4 \<le> length ms"
    using len by (auto simp: NR_CPU_AFFINITY_CHK_LEVEL_def)
  obtain ms1 i1 where s1: "(if sched_smt then chk_store m1 (ms, 0) else Inr (ms, 0)) = Inr (ms1, i1)"
    and n1: "length ms1 = length ms" and b1: "i1 \<le> (if sched_smt then 1 else 0)"
  proof (cases sched_smt)
    case True
    from l2(1) have "0 < length ms" by arith
    from chk_store_ok [OF this, of m1] True show ?thesis by (auto intro: that)
  next
    case False
    then show ?thesis by (auto intro: that)
  qed
  obtain ms2 i2 where s2: "(if sched_mc then chk_store m2 (ms1, i1) else Inr (ms1, i1)) = Inr (ms2, i2)"
    and n2: "length ms2 = length ms" and b2: "i1 \<le> i2" "i2 \<le> i1 + (if sched_mc then 1 else 0)"
    and k2: "sched_mc \<and> m2 \<noteq> {} \<longrightarrow> i2 = i1 + 1 \<and> ms2 ! i1 = m2"
  proof (cases sched_mc)
    case True
    from l2 b1 True n1 have "i1 < length ms1" by (auto split: if_splits)
    from chk_store_ok [OF this, of m2] True n1 show ?thesis by (auto intro: that)
  next
    case False
    with n1 show ?thesis by (auto intro: that)
  qed
  have "i2 < length ms2" using l2 b1 b2 n2 by (auto split: if_splits)
  from chk_store_ok [OF this, of m3] obtain ms3 i3 where s3: "chk_store m3 (ms2, i2) = Inr (ms3, i3)"
    and n3: "length ms3 = length ms" and b3: "i2 \<le> i3" "i3 \<le> i2 + 1"
    and k3: "m3 \<noteq> {} \<longrightarrow> i3 = i2 + 1" "ms3 ! i2 = m3" "\<forall>j. j \<noteq> i2 \<longrightarrow> ms3 ! j = ms2 ! j"
    using n2 by auto
  have "i3 < length ms3" using l2 b1 b2 b3 n3 by (auto split: if_splits)
  from chk_store_ok [OF this, of m4] obtain ms4 i4 where s4: "chk_store m4 (ms3, i3) = Inr (ms4, i4)"
    and n4: "length ms4 = length ms"
    and k4: "ms4 ! i3 = m4" "\<forall>j. j \<noteq> i3 \<longrightarrow> ms4 ! j = ms3 ! j"
    using n3 by auto
  have res: "sched_init_topology_cpumask sched_smt sched_mc nr_cpumask_bits sibling coregroup
                  core online_cpus c ms = Inr ms4"
    unfolding sched_init_topology_cpumask_def Let_def
    by (simp only: s1 [unfolded m1_def others_def] s2 [unfolded m2_def others_def]
        s3 [unfolded m3_def others_def] s4 [unfolded m4_def] sum.case fst_conv)
  have cover: "online_cpus - {c} \<subseteq> \<Union> (set ms4)"
  proof
    fix x assume x: "x \<in> online_cpus - {c}"
    with bits have xo: "x \<in> others" "x \<in> {0..<nr_cpumask_bits}" by (auto simp: others_def)
    have i3l: "i3 < length ms4" using l2 b1 b2 b3 n4 by (auto split: if_splits)
    have i2l: "i2 < length ms4" using l2 b1 b2 n4 by (auto split: if_splits)
    have i1l: "i1 < length ms4" using l2 b1 n4 by (auto split: if_splits)
    consider (cg) "sched_mc" "x \<in> coregroup" | (co) "\<not> (sched_mc \<and> x \<in> coregroup)" "x \<in> core"
      | (ot) "x \<notin> core"
      by blast
    then show "x \<in> \<Union> (set ms4)"
    proof cases
      case cg
      with xo have "x \<in> m2" by (simp add: m2_def)
      with cg k2 have "i2 = i1 + 1" "ms2 ! i1 = m2" by auto
      with b3 k3 k4 have "ms4 ! i1 = m2" by simp
      with \<open>x \<in> m2\<close> i1l show ?thesis by (metis UnionI nth_mem)
    next
      case co
      with xo have xm: "x \<in> m3" by (auto simp: m3_def)
      with k3 have "i3 = i2 + 1" by auto
      with k3 k4 have "ms4 ! i2 = m3" by simp
      with xm i2l show ?thesis by (metis UnionI nth_mem)
    next
      case ot
      with x xo have "x \<in> m4" by (simp add: m4_def)
      with k4 i3l show ?thesis by (metis UnionI nth_mem)
    qed
  qed
  from res n4 cover show ?thesis by blast
qed




lemma enqueue_task_queue:
  assumes "enqueue_task cfg p c s = Inr s'"
  shows "level_ok cfg (task_sched_prio (tasks s p))"
    and "bitmap (queue (runqueues s' c)) =
           insert (nat (task_sched_prio (tasks s p))) (bitmap (queue (runqueues s c)))"
    and "\<exists>ts. heads (queue (runqueues s' c)) =
           heads (bmq_add_task ts p (queue (runqueues s c)) (nat (task_sched_prio (tasks s p))))"
    and "k \<noteq> c \<Longrightarrow> queue (runqueues s' k) = queue (runqueues s k)"
proof -
  let ?idx = "task_sched_prio (tasks s p)"
  let ?s1 = "upd_task p (\<lambda>t. t\<lparr>bmq_idx := ?idx\<rparr>) s"
  define s2 where "s2 = set_queue_bit c (nat ?idx)
     (upd_rq c (\<lambda>r. r\<lparr>queue := bmq_add_task (tasks ?s1) p (queue r) (nat ?idx)\<rparr>) ?s1)"
  from assms show ok: "level_ok cfg ?idx"
    by (auto simp: enqueue_task_def Let_def split: if_splits)
  from assms ok obtain s3 where u: "update_sched_rq_watermark cfg c s2 = Inr s3"
    and s': "s' = (let n = u64 (int (nr_running (runqueues s3 c)) + 1);
                       s4 = upd_rq c (\<lambda>r. r\<lparr>nr_running := n\<rparr>) s3
                   in if 2 = n
                      then s4\<lparr>sched_rq_pending_mask := insert c (sched_rq_pending_mask s4)\<rparr>
                      else s4)"
    by (auto simp: enqueue_task_def Let_def s2_def split: sum.splits)
  have q': "queue (runqueues s' j) = queue (runqueues s2 j)" for j
    using update_wm_frame(3) [OF u, of j] by (auto simp: s' Let_def)
  show "bitmap (queue (runqueues s' c)) = insert (nat ?idx) (bitmap (queue (runqueues s c)))"
    by (simp add: q' s2_def set_queue_bit_def bmq_add_task_def)
  have "heads (queue (runqueues s' c)) =
           heads (bmq_add_task (tasks ?s1) p (queue (runqueues s c)) (nat ?idx))"
    by (simp add: q' s2_def set_queue_bit_def)
  then show "\<exists>ts. heads (queue (runqueues s' c)) =
           heads (bmq_add_task ts p (queue (runqueues s c)) (nat ?idx))"
    by blast
  show "k \<noteq> c \<Longrightarrow> queue (runqueues s' k) = queue (runqueues s k)"
    by (simp add: q' s2_def set_queue_bit_def)
qed




lemma list_del_heads:
  "heads (list_del p q) l = removeAll p (heads q l)"
  by (simp add: list_del_def)




lemma bmq_add_task_other:
  "l \<noteq> i \<Longrightarrow> heads (bmq_add_task ts p q i) l = heads q l"
  by (simp add: bmq_add_task_def)





text \<open>Slot 0 of the watermark map\<close>

lemma smt_fields [simp]:
  "cpu_smt_mask (update_smt_watermark c l w s) = cpu_smt_mask s"
  "cpu_smt_mask (set_queue_bit c i s) = cpu_smt_mask s"
  "cpu_smt_mask (clear_queue_bit c i s) = cpu_smt_mask s"
  by (simp_all add: update_smt_watermark_def Let_def set_queue_bit_def clear_queue_bit_def)























text \<open>
  A task that is enqueued, or requeued, is linked at the level of its \<^verbatim>\<open>bmq_idx\<close>
  and nowhere else.
\<close>

lemma bmq_add_task_mem: "p \<in> set (heads (bmq_add_task ts p q i) i)"
  by (simp add: bmq_add_task_def)

lemma enqueue_task_linked:
  assumes e: "enqueue_task cfg p c s = Inr s'"
    and fresh: "\<forall>l. p \<notin> set (heads (queue (runqueues s c)) l)"
  shows "linked_at (queue (runqueues s' c)) (tasks s' p) p"
proof -
  from enqueue_task_queue(3) [OF e] obtain ts where
    h: "heads (queue (runqueues s' c)) =
        heads (bmq_add_task ts p (queue (runqueues s c)) (nat (task_sched_prio (tasks s p))))"
    by blast
  have i: "bmq_idx (tasks s' p) = task_sched_prio (tasks s p)"
    by (simp add: tasks_enqueue_task [OF e])
  from enqueue_task_queue(1) [OF e] have "0 \<le> task_sched_prio (tasks s p)"
    by (simp add: level_ok_def)
  with fresh show ?thesis
    unfolding linked_at_def h i by (simp add: bmq_add_task_mem bmq_add_task_other)
qed

lemma requeue_task_linked:
  assumes e: "requeue_task cfg p c s = Inr s'"
  shows "linked_at (queue (runqueues s' c)) (tasks s' p) p"
proof -
  have i: "bmq_idx (tasks s' p) = task_sched_prio (tasks s p)"
    by (simp add: tasks_requeue_task [OF e])
  from requeue_task_heads(3) [OF e] have "0 \<le> task_sched_prio (tasks s p)"
    by (simp add: level_ok_def)
  then show ?thesis
    unfolding linked_at_def requeue_task_heads(1) [OF e] i
    by (simp add: bmq_add_task_mem bmq_add_task_other list_del_heads)
qed

subsection \<open>The queue index\<close>

text \<open>
  C2, as the code has it: the queue index is 0 for a task with \<^verbatim>\<open>prio\<close> below
  \<^verbatim>\<open>MAX_RT_PRIO\<close> and \<^verbatim>\<open>prio - MAX_RT_PRIO + boost_prio\<close> otherwise, with no clamp; it is
  0 exactly when the task is real-time or \<^verbatim>\<open>prio + boost_prio = MAX_RT_PRIO\<close>. For a
  \<^verbatim>\<open>prio\<close> between \<^verbatim>\<open>MAX_RT_PRIO + MAX_PRIORITY_ADJ\<close> and
  \<^verbatim>\<open>MAX_RT_PRIO + bmq_BITS - 1 - MAX_PRIORITY_ADJ\<close> and a \<^verbatim>\<open>boost_prio\<close> within
  \<^verbatim>\<open>[-MAX_PRIORITY_ADJ, MAX_PRIORITY_ADJ]\<close> the value lies in \<^verbatim>\<open>[0, bmq_BITS - 1]\<close>, where
  clamping would change nothing.
\<close>

theorem task_sched_prio_value:
  "(prio p < MAX_RT_PRIO \<longrightarrow> task_sched_prio p = 0) \<and>
   (\<not> prio p < MAX_RT_PRIO \<longrightarrow> task_sched_prio p = prio p - MAX_RT_PRIO + boost_prio p) \<and>
   (task_sched_prio p = 0 \<longleftrightarrow> prio p < MAX_RT_PRIO \<or> prio p + boost_prio p = MAX_RT_PRIO) \<and>
   (MAX_RT_PRIO + MAX_PRIORITY_ADJ cfg \<le> prio p \<and>
    prio p + MAX_PRIORITY_ADJ cfg \<le> MAX_RT_PRIO + int (bmq_BITS cfg) - 1 \<and>
    - MAX_PRIORITY_ADJ cfg \<le> boost_prio p \<and> boost_prio p \<le> MAX_PRIORITY_ADJ cfg \<longrightarrow>
      0 \<le> task_sched_prio p \<and> task_sched_prio p \<le> int (bmq_BITS cfg) - 1 \<and>
      task_sched_prio p = max 0 (min (int (bmq_BITS cfg) - 1) (prio p - MAX_RT_PRIO + boost_prio p)))"
  by (auto simp: task_sched_prio_def)

theorem task_sched_prio_value_witness:
  "\<not> prio (example_task\<lparr>prio := 139, boost_prio := 4\<rparr>) < MAX_RT_PRIO \<and>
   prio (example_task\<lparr>prio := 50\<rparr>) < MAX_RT_PRIO \<and>
   task_sched_prio (example_task\<lparr>prio := 50\<rparr>) = 0 \<and>
   MAX_RT_PRIO + MAX_PRIORITY_ADJ bmq_config \<le> prio (example_task\<lparr>prio := 139, boost_prio := 4\<rparr>) \<and>
   prio (example_task\<lparr>prio := 139, boost_prio := 4\<rparr>) + MAX_PRIORITY_ADJ bmq_config
     \<le> MAX_RT_PRIO + int (bmq_BITS bmq_config) - 1 \<and>
   - MAX_PRIORITY_ADJ bmq_config \<le> boost_prio (example_task\<lparr>prio := 139, boost_prio := 4\<rparr>) \<and>
   boost_prio (example_task\<lparr>prio := 139, boost_prio := 4\<rparr>) \<le> MAX_PRIORITY_ADJ bmq_config \<and>
   task_sched_prio (example_task\<lparr>prio := 139, boost_prio := 4\<rparr>) = 43"
  using task_sched_prio_value [of "example_task\<lparr>prio := 139, boost_prio := 4\<rparr>" bmq_config]
    task_sched_prio_value [of "example_task\<lparr>prio := 50\<rparr>" bmq_config]
  by (simp add: example_task_def bmq_config_def MAX_RT_PRIO_def)

text \<open>
  The claim as the specification words it fails: a \<^verbatim>\<open>SCHED_NORMAL\<close> task of nice -20
  (\<^verbatim>\<open>prio\<close> 104) with the full boost of -4 has queue index 0 although it is not
  real-time, and below that the value is negative, not clamped.
\<close>

theorem task_sched_prio_counterexample:
  "task_sched_prio (example_task\<lparr>prio := 104, boost_prio := - 4\<rparr>) = 0 \<and>
   \<not> prio (example_task\<lparr>prio := 104, boost_prio := - 4\<rparr>) < MAX_RT_PRIO \<and>
   task_sched_prio (example_task\<lparr>prio := 100, boost_prio := - 4\<rparr>) = - 4"
  by (simp add: task_sched_prio_def example_task_def MAX_RT_PRIO_def)

subsection \<open>Bounds of the boost\<close>

text \<open>
  C9: \<^verbatim>\<open>boost_prio\<close> stays within \<^verbatim>\<open>[-MAX_PRIORITY_ADJ, MAX_PRIORITY_ADJ]\<close>.
  \<^verbatim>\<open>boost_task\<close> leaves it or decrements it, and decrements only above the limit of
  the policy (\<^verbatim>\<open>-MAX_PRIORITY_ADJ\<close> for NORMAL, 0 for BATCH and IDLE, never for another
  policy); \<^verbatim>\<open>deboost_task\<close> leaves it or increments it, never beyond
  \<^verbatim>\<open>MAX_PRIORITY_ADJ\<close>; \<^verbatim>\<open>sched_fork\<close> gives the child \<^verbatim>\<open>MAX_PRIORITY_ADJ\<close>;
  \<^verbatim>\<open>do_sched_yield\<close> leaves every task's value or assigns \<^verbatim>\<open>MAX_PRIORITY_ADJ\<close>; and
  \<^verbatim>\<open>check_curr\<close>, which calls \<^verbatim>\<open>deboost_task\<close>, keeps the bounds.
\<close>

theorem boost_prio_bounded:
  assumes "0 \<le> MAX_PRIORITY_ADJ cfg" and "\<forall>q. boost_ok cfg (tasks s q)"
  shows "boost_ok cfg (boost_task cfg (tasks s p) r) \<and>
         (boost_prio (boost_task cfg (tasks s p) r) = boost_prio (tasks s p) \<or>
          boost_prio (boost_task cfg (tasks s p) r) = boost_prio (tasks s p) - 1 \<and>
            (policy (tasks s p) = SCHED_NORMAL \<and>
               - MAX_PRIORITY_ADJ cfg \<le> boost_prio (boost_task cfg (tasks s p) r) \<or>
             (policy (tasks s p) = SCHED_BATCH \<or> policy (tasks s p) = SCHED_IDLE) \<and>
               0 \<le> boost_prio (boost_task cfg (tasks s p) r))) \<and>
         boost_ok cfg (deboost_task cfg (tasks s p)) \<and>
         (boost_prio (deboost_task cfg (tasks s p)) = boost_prio (tasks s p) \<or>
          boost_prio (deboost_task cfg (tasks s p)) = boost_prio (tasks s p) + 1) \<and>
         boost_prio (tasks (sched_fork cfg c p s) p) = MAX_PRIORITY_ADJ cfg \<and>
         (\<forall>q. boost_ok cfg (tasks (sched_fork cfg c p s) q)) \<and>
         (\<forall>s' b. do_sched_yield cfg c s = Inr (s', b) \<longrightarrow>
            (\<forall>q. boost_ok cfg (tasks s' q) \<and>
                 (boost_prio (tasks s' q) = boost_prio (tasks s q) \<or>
                  boost_prio (tasks s' q) = MAX_PRIORITY_ADJ cfg))) \<and>
         (\<forall>s'. check_curr cfg p c s = Inr s' \<longrightarrow> (\<forall>q. boost_ok cfg (tasks s' q)))"
proof -
  have ok: "\<And>q. - MAX_PRIORITY_ADJ cfg \<le> boost_prio (tasks s q) \<and>
                 boost_prio (tasks s q) \<le> MAX_PRIORITY_ADJ cfg"
    using assms(2) by (simp add: boost_ok_def)
  have b: "boost_ok cfg (boost_task cfg (tasks s p) r)"
    using boost_task_cases [of cfg "tasks s p" r] ok [of p] assms(1)
    by (auto simp: boost_ok_def)
  have d: "boost_ok cfg (deboost_task cfg (tasks s p))"
    using deboost_task_cases [of cfg "tasks s p"] ok [of p]
    by (auto simp: boost_ok_def)
  have d2: "boost_prio (deboost_task cfg (tasks s p)) = boost_prio (tasks s p) \<or>
            boost_prio (deboost_task cfg (tasks s p)) = boost_prio (tasks s p) + 1"
    using deboost_task_cases [of cfg "tasks s p"] by blast
  have f: "\<forall>q. boost_ok cfg (tasks (sched_fork cfg c p s) q)"
    using ok assms(1) by (simp add: boost_ok_def boost_sched_fork)
  have y: "\<forall>s' b. do_sched_yield cfg c s = Inr (s', b) \<longrightarrow>
            (\<forall>q. boost_ok cfg (tasks s' q) \<and>
                 (boost_prio (tasks s' q) = boost_prio (tasks s q) \<or>
                  boost_prio (tasks s' q) = MAX_PRIORITY_ADJ cfg))"
  proof (intro allI impI)
    fix s' b q
    assume "do_sched_yield cfg c s = Inr (s', b)"
    from boost_do_sched_yield [OF this, of q] ok [of q] assms(1)
    show "boost_ok cfg (tasks s' q) \<and>
          (boost_prio (tasks s' q) = boost_prio (tasks s q) \<or>
           boost_prio (tasks s' q) = MAX_PRIORITY_ADJ cfg)"
      by (auto simp: boost_ok_def)
  qed
  have k: "\<forall>s'. check_curr cfg p c s = Inr s' \<longrightarrow> (\<forall>q. boost_ok cfg (tasks s' q))"
  proof (intro allI impI)
    fix s' q
    assume "check_curr cfg p c s = Inr s'"
    from boost_check_curr [OF this, of q] ok [of q] d
    show "boost_ok cfg (tasks s' q)"
      by (auto simp: boost_ok_def)
  qed
  show ?thesis
    using b boost_task_cases [of cfg "tasks s p" r] d d2 f y k
    by (simp add: boost_sched_fork)
qed


theorem boost_prio_bounded_witness:
  "0 \<le> MAX_PRIORITY_ADJ bmq_config \<and> (\<forall>q. boost_ok bmq_config (tasks busy_state q)) \<and>
   boost_prio (tasks (sched_fork bmq_config 0 3 busy_state) 3) = 4 \<and>
   (\<exists>s'. do_sched_yield bmq_config 0 busy_state = Inr (s', True) \<and>
      boost_prio (tasks s' 2) = 4 \<and> boost_ok bmq_config (tasks s' 2)) \<and>
   (\<exists>s'. check_curr bmq_config 2 0 (upd_task 2 (\<lambda>t. t\<lparr>time_slice := 5\<rparr>) busy_state) = Inr s' \<and>
      boost_prio (tasks s' 2) = 1 \<and> boost_ok bmq_config (tasks s' 2))"
proof -
  have h1: "0 \<le> MAX_PRIORITY_ADJ bmq_config"
    by (simp add: bmq_config_def)
  have h2: "\<forall>q. boost_ok bmq_config (tasks busy_state q)"
    by (simp add: boost_ok_def busy_state_def boot_state_def idle_task_def example_task_def
        bmq_config_def)
  have h3: "\<forall>q. boost_ok bmq_config (tasks (upd_task 2 (\<lambda>t. t\<lparr>time_slice := 5\<rparr>) busy_state) q)"
    by (simp add: boost_ok_def busy_state_def boot_state_def idle_task_def example_task_def
        bmq_config_def)
  have y: "\<exists>s'. do_sched_yield bmq_config 0 busy_state = Inr (s', True) \<and> boost_prio (tasks s' 2) = 4"
    by (simp add: do_sched_yield_def busy_state_def boot_state_def idle_rq_def idle_task_def
        example_task_def bmq_config_def rt_task_def rt_prio_def MAX_RT_PRIO_def requeue_task_def
        task_sched_prio_def level_ok_def requeue_move_def list_del_def bmq_add_task_def
        clear_queue_bit_def set_queue_bit_def update_sched_rq_watermark_def
        bmq_find_first_bit_def bmq_find_next_bit_def upt_rec SCHED_PRIO2WATERMARK_def u64_def
        WM_BITS_def update_smt_watermark_def Let_def upd_task_def upd_rq_def)
  have k: "\<exists>s'. check_curr bmq_config 2 0 (upd_task 2 (\<lambda>t. t\<lparr>time_slice := 5\<rparr>) busy_state) = Inr s' \<and>
      boost_prio (tasks s' 2) = 1"
    by (simp add: check_curr_def update_curr_def s64_def RESCHED_NS_def SCHED_TIMESLICE_NS_def
        task_on_rq_queued_def TASK_ON_RQ_QUEUED_def SCHED_FIFO_def SCHED_RR_def SCHED_NORMAL_def
        deboost_task_def
        busy_state_def boot_state_def idle_rq_def idle_task_def
        example_task_def bmq_config_def MAX_RT_PRIO_def requeue_task_def
        task_sched_prio_def level_ok_def requeue_move_def list_del_def bmq_add_task_def
        clear_queue_bit_def set_queue_bit_def update_sched_rq_watermark_def
        bmq_find_first_bit_def bmq_find_next_bit_def upt_rec SCHED_PRIO2WATERMARK_def u64_def
        WM_BITS_def update_smt_watermark_def Let_def upd_task_def upd_rq_def)
  from y obtain sy where sy: "do_sched_yield bmq_config 0 busy_state = Inr (sy, True)"
    "boost_prio (tasks sy 2) = 4" by blast
  from k obtain sk where sk:
    "check_curr bmq_config 2 0 (upd_task 2 (\<lambda>t. t\<lparr>time_slice := 5\<rparr>) busy_state) = Inr sk"
    "boost_prio (tasks sk 2) = 1" by blast
  have f: "boost_prio (tasks (sched_fork bmq_config 0 3 busy_state) 3) = 4"
    using boost_prio_bounded [OF h1 h2, of 3 "idle_rq 0" 0] by (simp add: bmq_config_def)
  have "boost_ok bmq_config (tasks sy 2)"
    using boost_prio_bounded [OF h1 h2, of 2 "idle_rq 0" 0] sy(1) by blast
  moreover have "boost_ok bmq_config (tasks sk 2)"
    using boost_prio_bounded [OF h1 h3, of 2 "idle_rq 0" 0] sk(1) by blast
  ultimately show ?thesis
    using h1 h2 f sy sk by blast
qed

subsection \<open>The time slice at fork\<close>

text \<open>
  C10: in \<^verbatim>\<open>sched_fork\<close> the time slice of the running parent is halved (C division,
  so the halved value is within one half of the exact one) and the child gets the halved
  value, except that below \<^verbatim>\<open>RESCHED_NS\<close> the child gets \<^verbatim>\<open>SCHED_TIMESLICE_NS\<close> and
  the parent is marked for rescheduling.
\<close>

theorem sched_fork_time_slice:
  assumes "p \<noteq> curr (runqueues s c)"
  shows "time_slice (tasks (sched_fork cfg c p s) (curr (runqueues s c))) =
           c_div (time_slice (tasks s (curr (runqueues s c)))) 2 \<and>
         \<bar>time_slice (tasks s (curr (runqueues s c))) -
            2 * time_slice (tasks (sched_fork cfg c p s) (curr (runqueues s c)))\<bar> \<le> 1 \<and>
         time_slice (tasks (sched_fork cfg c p s) p) =
           (if c_div (time_slice (tasks s (curr (runqueues s c)))) 2 < RESCHED_NS
            then SCHED_TIMESLICE_NS cfg
            else c_div (time_slice (tasks s (curr (runqueues s c)))) 2) \<and>
         need_resched (tasks (sched_fork cfg c p s) (curr (runqueues s c))) =
           (c_div (time_slice (tasks s (curr (runqueues s c)))) 2 < RESCHED_NS \<or>
            need_resched (tasks s (curr (runqueues s c))))"
  using assms c_div_2 [of "time_slice (tasks s (curr (runqueues s c)))"]
  by (simp add: sched_fork_def Let_def resched_curr_def)

theorem sched_fork_time_slice_witness:
  "(3::nat) \<noteq> curr (runqueues busy_state 0) \<and>
   time_slice (tasks busy_state 2) = 4000000 \<and>
   time_slice (tasks (sched_fork bmq_config 0 3 busy_state) 2) = 2000000 \<and>
   time_slice (tasks (sched_fork bmq_config 0 3 busy_state) 3) = 2000000 \<and>
   \<not> need_resched (tasks (sched_fork bmq_config 0 3 busy_state) 2) \<and>
   time_slice (tasks (sched_fork bmq_config 0 3
      (upd_task 2 (\<lambda>t. t\<lparr>time_slice := 150001\<rparr>) busy_state)) 2) = 75000 \<and>
   time_slice (tasks (sched_fork bmq_config 0 3
      (upd_task 2 (\<lambda>t. t\<lparr>time_slice := 150001\<rparr>) busy_state)) 3) = 4000000 \<and>
   need_resched (tasks (sched_fork bmq_config 0 3
      (upd_task 2 (\<lambda>t. t\<lparr>time_slice := 150001\<rparr>) busy_state)) 2)"
proof -
  have h: "(3::nat) \<noteq> curr (runqueues busy_state 0)"
    by (simp add: busy_state_def boot_state_def idle_rq_def)
  have h2: "(3::nat) \<noteq> curr (runqueues (upd_task 2 (\<lambda>t. t\<lparr>time_slice := 150001\<rparr>) busy_state) 0)"
    by (simp add: busy_state_def boot_state_def idle_rq_def)
  show ?thesis
    using h sched_fork_time_slice [OF h, of bmq_config] sched_fork_time_slice [OF h2, of bmq_config]
    by (simp add: busy_state_def boot_state_def idle_rq_def example_task_def c_div_def
        RESCHED_NS_def SCHED_TIMESLICE_NS_def bmq_config_def)
qed


subsection \<open>The watermark map\<close>



subsection \<open>The pending mask\<close>

text \<open>
  C4: the bit of a CPU in \<^verbatim>\<open>sched_rq_pending_mask\<close> is set exactly when its runqueue
  has \<^verbatim>\<open>nr_running\<close> of 2 or more. This is true after \<^verbatim>\<open>sched_init\<close> and is kept by
  \<^verbatim>\<open>enqueue_task\<close> and \<^verbatim>\<open>dequeue_task\<close>, for every CPU \<open>k\<close>, as long as the counter
  does not wrap: a task that is dequeued was counted when it was enqueued, and there are
  fewer than \<^verbatim>\<open>2^64\<close> tasks.
\<close>

theorem pending_invariant:
  assumes "pending_ok s k" and "nr_running (runqueues s c) < 2 ^ 64"
  shows "(\<forall>s'. enqueue_task cfg p c s = Inr s' \<and> nr_running (runqueues s c) + 1 < 2 ^ 64 \<longrightarrow>
            pending_ok s' k) \<and>
         (\<forall>s'. dequeue_task cfg p c s = Inr s' \<and> 0 < nr_running (runqueues s c) \<longrightarrow>
            pending_ok s' k)"
  using assms by (blast intro: enqueue_task_pending dequeue_task_pending)


theorem pending_invariant_witness:
  "pending_ok busy_state 0 \<and> pending_ok busy_state 1 \<and>
   nr_running (runqueues busy_state 0) = 1 \<and> (0::nat) \<notin> sched_rq_pending_mask busy_state \<and>
   \<not> isl (enqueue_task bmq_config 3 0 busy_state) \<and>
   nr_running (runqueues (projr (enqueue_task bmq_config 3 0 busy_state)) 0) = 2 \<and>
   (0::nat) \<in> sched_rq_pending_mask (projr (enqueue_task bmq_config 3 0 busy_state)) \<and>
   pending_ok (projr (enqueue_task bmq_config 3 0 busy_state)) 0 \<and>
   pending_ok (projr (enqueue_task bmq_config 3 0 busy_state)) 1 \<and>
   \<not> isl (dequeue_task bmq_config 3 0 (projr (enqueue_task bmq_config 3 0 busy_state))) \<and>
   nr_running (runqueues
     (projr (dequeue_task bmq_config 3 0 (projr (enqueue_task bmq_config 3 0 busy_state)))) 0) = 1 \<and>
   (0::nat) \<notin> sched_rq_pending_mask
     (projr (dequeue_task bmq_config 3 0 (projr (enqueue_task bmq_config 3 0 busy_state)))) \<and>
   pending_ok
     (projr (dequeue_task bmq_config 3 0 (projr (enqueue_task bmq_config 3 0 busy_state)))) 0"
proof -
  let ?e = "projr (enqueue_task bmq_config 3 0 busy_state)"
  have b: "pending_ok busy_state 0" "pending_ok busy_state 1"
    "nr_running (runqueues busy_state 0) = 1" "(0::nat) \<notin> sched_rq_pending_mask busy_state"
    by (simp_all add: pending_ok_def example_defs)
  have e: "\<not> isl (enqueue_task bmq_config 3 0 busy_state)"
    "nr_running (runqueues ?e 0) = 2" "(0::nat) \<in> sched_rq_pending_mask ?e"
    by (simp_all add: example_defs queue_defs const_defs)
  have d: "\<not> isl (dequeue_task bmq_config 3 0 ?e)"
    "nr_running (runqueues (projr (dequeue_task bmq_config 3 0 ?e)) 0) = 1"
    "(0::nat) \<notin> sched_rq_pending_mask (projr (dequeue_task bmq_config 3 0 ?e))"
    by (simp_all add: example_defs queue_defs const_defs)
  from e(1) have ee: "enqueue_task bmq_config 3 0 busy_state = Inr ?e"
    by (cases "enqueue_task bmq_config 3 0 busy_state") simp_all
  from d(1) have dd: "dequeue_task bmq_config 3 0 ?e = Inr (projr (dequeue_task bmq_config 3 0 ?e))"
    by (cases "dequeue_task bmq_config 3 0 ?e") simp_all
  have n1: "nr_running (runqueues busy_state 0) < 2 ^ 64"
    "nr_running (runqueues busy_state 0) + 1 < 2 ^ 64" using b(3) by simp_all
  have pe: "pending_ok ?e 0" "pending_ok ?e 1"
    using pending_invariant [OF b(1) n1(1), of bmq_config 3] 
      pending_invariant [OF b(2) n1(1), of bmq_config 3] ee n1(2) by blast+
  have n2: "nr_running (runqueues ?e 0) < 2 ^ 64" "0 < nr_running (runqueues ?e 0)"
    using e(2) by simp_all
  have pd: "pending_ok (projr (dequeue_task bmq_config 3 0 ?e)) 0"
    using pending_invariant [OF pe(1) n2(1), of bmq_config 3] dd n2(2) by blast
  show ?thesis
    using b e d pe pd by blast
qed

subsection \<open>Priority inheritance\<close>

text \<open>
  C7, as the code has it: after \<^verbatim>\<open>rt_mutex_setprio(t, donor)\<close> returns,
  \<^verbatim>\<open>normal_prio\<close> of the task is unchanged and the donor is recorded in
  \<^verbatim>\<open>pi_top_task\<close>; for a task that is not the idle task of its runqueue the effective
  \<^verbatim>\<open>prio\<close> is the minimum of its \<^verbatim>\<open>normal_prio\<close> and the donor's \<^verbatim>\<open>prio\<close> (its
  \<^verbatim>\<open>normal_prio\<close> without a donor), hence at most each of them; for the idle task of a
  runqueue \<^verbatim>\<open>prio\<close> is left as it was, the boost being ignored; and the call changes
  nothing when the recorded donor and the resulting \<^verbatim>\<open>prio\<close> are both unchanged.
\<close>

theorem rt_mutex_setprio_effect:
  assumes r: "rt_mutex_setprio cfg p donor s = Inr s'"
  shows "normal_prio (tasks s' p) = normal_prio (tasks s p) \<and>
         pi_top_task (tasks s' p) = donor \<and>
         (p \<noteq> idle (runqueues s (task_cpu (tasks s p))) \<longrightarrow>
            prio (tasks s' p) =
              (case donor of None \<Rightarrow> normal_prio (tasks s p)
               | Some d \<Rightarrow> min (normal_prio (tasks s p)) (prio (tasks s d))) \<and>
            prio (tasks s' p) \<le> normal_prio (tasks s' p) \<and>
            (\<forall>d. donor = Some d \<longrightarrow> prio (tasks s' p) \<le> prio (tasks s' d))) \<and>
         (p = idle (runqueues s (task_cpu (tasks s p))) \<longrightarrow>
            prio (tasks s' p) = prio (tasks s p)) \<and>
         (pi_top_task (tasks s p) = donor \<and>
          rt_effective_prio_of (tasks s) donor (normal_prio (tasks s p)) = prio (tasks s p) \<longrightarrow>
            s' = s)"
proof -
  let ?pr = "rt_effective_prio_of (tasks s) donor (normal_prio (tasks s p))"
  let ?c = "task_cpu (tasks s p)"
  let ?s1 = "upd_task p (\<lambda>t. t\<lparr>pi_top_task := donor\<rparr>) s"
  let ?s2 = "upd_task p (\<lambda>t. t\<lparr>prio := ?pr\<rparr>) ?s1"
  have unf: "rt_mutex_setprio cfg p donor s =
      (if pi_top_task (tasks s p) = donor \<and> ?pr = prio (tasks s p) then Inr s
       else if ?pr = prio (tasks s p) then Inr ?s1
       else if p = idle (runqueues s ?c) then Inr ?s1
       else check_task_changed cfg ?c p ?s2)"
    by (simp add: rt_mutex_setprio_def Let_def)
  consider (noop) "pi_top_task (tasks s p) = donor" "?pr = prio (tasks s p)" "s' = s"
    | (same) "pi_top_task (tasks s p) \<noteq> donor" "?pr = prio (tasks s p)" "s' = ?s1"
    | (idle) "?pr \<noteq> prio (tasks s p)" "p = idle (runqueues s ?c)" "s' = ?s1"
    | (change) "?pr \<noteq> prio (tasks s p)" "p \<noteq> idle (runqueues s ?c)"
        "check_task_changed cfg ?c p ?s2 = Inr s'"
  proof (cases "pi_top_task (tasks s p) = donor \<and> ?pr = prio (tasks s p)")
    case True
    with r unf have "s' = s" by simp
    with True noop show ?thesis by blast
  next
    case nn: False
    show ?thesis
    proof (cases "?pr = prio (tasks s p)")
      case True
      with nn r unf have "s' = ?s1" by simp
      with True nn same show ?thesis by blast
    next
      case np: False
      show ?thesis
      proof (cases "p = idle (runqueues s ?c)")
        case True
        with np r unf have "s' = ?s1" by simp
        with True np idle show ?thesis by blast
      next
        case False
        with np r unf have "check_task_changed cfg ?c p ?s2 = Inr s'" by simp
        with False np change show ?thesis by blast
      qed
    qed
  qed
  then show ?thesis
  proof cases
    case noop
    then show ?thesis
      by (auto simp: rt_effective_prio_of_def split: option.splits)
  next
    case same
    then show ?thesis
      by (auto simp: rt_effective_prio_of_def split: option.splits)
  next
    case idle
    then show ?thesis by simp
  next
    case change
    have fr: "\<exists>i n. tasks s' q = (tasks ?s2 q)\<lparr>bmq_idx := i, need_resched := n\<rparr>" for q
      using tasks_check_task_changed [OF change(3)] by blast
    from fr [of p] have p': "prio (tasks s' p) = ?pr" "normal_prio (tasks s' p) = normal_prio (tasks s p)"
      "pi_top_task (tasks s' p) = donor"
      by auto
    have d': "prio (tasks s' d) = (if d = p then ?pr else prio (tasks s d))" for d
      using fr [of d] by auto
    show ?thesis
      using change(1,2) p' d'
      by (auto simp: rt_effective_prio_of_def split: option.splits)
  qed
qed


theorem rt_mutex_setprio_effect_witness:
  "\<not> isl (rt_mutex_setprio bmq_config 2 (Some 3) rt_state) \<and>
   (2::nat) \<noteq> idle (runqueues rt_state (task_cpu (tasks rt_state 2))) \<and>
   prio (tasks rt_state 2) = 124 \<and> prio (tasks rt_state 3) = 50 \<and>
   pi_top_task (tasks rt_state 2) = None \<and>
   prio (tasks (projr (rt_mutex_setprio bmq_config 2 (Some 3) rt_state)) 2) = 50 \<and>
   normal_prio (tasks (projr (rt_mutex_setprio bmq_config 2 (Some 3) rt_state)) 2) = 124 \<and>
   pi_top_task (tasks (projr (rt_mutex_setprio bmq_config 2 (Some 3) rt_state)) 2) = Some 3 \<and>
   rt_mutex_setprio bmq_config 2 None rt_state = Inr rt_state"
proof -
  have e: "\<not> isl (rt_mutex_setprio bmq_config 2 (Some 3) rt_state)"
    by (simp add: pi_defs example_defs queue_defs const_defs)
  then have r: "rt_mutex_setprio bmq_config 2 (Some 3) rt_state =
      Inr (projr (rt_mutex_setprio bmq_config 2 (Some 3) rt_state))"
    by (cases "rt_mutex_setprio bmq_config 2 (Some 3) rt_state") simp_all
  have n: "rt_mutex_setprio bmq_config 2 None rt_state = Inr rt_state"
    by (simp add: rt_mutex_setprio_def rt_effective_prio_of_def rt_state_def example_defs)
  have b: "(2::nat) \<noteq> idle (runqueues rt_state (task_cpu (tasks rt_state 2)))"
    "prio (tasks rt_state 2) = 124" "prio (tasks rt_state 3) = 50"
    "normal_prio (tasks rt_state 2) = 124" "pi_top_task (tasks rt_state 2) = None"
    by (simp_all add: rt_state_def example_defs)
  show ?thesis
    using e b n rt_mutex_setprio_effect [OF r] rt_mutex_setprio_effect [OF n]
    by simp
qed

text \<open>
  The claim as the specification words it fails for an idle task: boosted by a donor of
  \<^verbatim>\<open>prio\<close> 50, the idle task of CPU 0 keeps its \<^verbatim>\<open>prio\<close> of 140 (\<^verbatim>\<open>MAX_PRIO\<close>), above
  both its \<^verbatim>\<open>normal_prio\<close> and the donor's \<^verbatim>\<open>prio\<close>.
\<close>

theorem rt_mutex_setprio_counterexample:
  "idle (runqueues rt_state (task_cpu (tasks rt_state 0))) = 0 \<and>
   \<not> isl (rt_mutex_setprio bmq_config 0 (Some 3) rt_state) \<and>
   prio (tasks (projr (rt_mutex_setprio bmq_config 0 (Some 3) rt_state)) 0) = 140 \<and>
   normal_prio (tasks (projr (rt_mutex_setprio bmq_config 0 (Some 3) rt_state)) 0) = 124 \<and>
   prio (tasks (projr (rt_mutex_setprio bmq_config 0 (Some 3) rt_state)) 3) = 50 \<and>
   pi_top_task (tasks (projr (rt_mutex_setprio bmq_config 0 (Some 3) rt_state)) 0) = Some 3 \<and>
   \<not> prio (tasks (projr (rt_mutex_setprio bmq_config 0 (Some 3) rt_state)) 0)
       \<le> min (normal_prio (tasks (projr (rt_mutex_setprio bmq_config 0 (Some 3) rt_state)) 0))
             (prio (tasks (projr (rt_mutex_setprio bmq_config 0 (Some 3) rt_state)) 3))"
  by (simp add: pi_defs example_defs const_defs)

subsection \<open>Yield\<close>

text \<open>
  C8, as the code has it: \<^verbatim>\<open>sched_yield\<close> returns 0. With \<^verbatim>\<open>sched_yield_type\<close> 0 it
  changes nothing and does not call \<^verbatim>\<open>schedule()\<close>. With type 1 it sets the
  \<^verbatim>\<open>boost_prio\<close> of the calling task to \<^verbatim>\<open>MAX_PRIORITY_ADJ\<close> and requeues it (to the
  tail of its new level) only when the task is not real-time; a real-time caller is left
  as it is. With type 2 it sets the \<^verbatim>\<open>skip\<close> pointer of the runqueue to the calling task
  only when \<^verbatim>\<open>nr_running\<close> is above 1, and the next \<^verbatim>\<open>choose_next_task\<close> clears the
  pointer again; otherwise it changes nothing. Every type but 0 goes on to call
  \<^verbatim>\<open>schedule()\<close>.
\<close>

theorem sched_yield_effect:
  assumes y: "sys_sched_yield cfg c s = Inr (ret, s', called)"
  shows "ret = 0 \<and>
         (sched_yield_type s = 0 \<longrightarrow> s' = s \<and> \<not> called) \<and>
         (sched_yield_type s = 1 \<and> \<not> rt_task (tasks s (curr (runqueues s c))) \<longrightarrow>
            requeue_task cfg (curr (runqueues s c)) c
              (upd_task (curr (runqueues s c)) (\<lambda>t. t\<lparr>boost_prio := MAX_PRIORITY_ADJ cfg\<rparr>) s) = Inr s' \<and>
            boost_prio (tasks s' (curr (runqueues s c))) = MAX_PRIORITY_ADJ cfg \<and>
            bmq_idx (tasks s' (curr (runqueues s c))) =
              prio (tasks s (curr (runqueues s c))) - MAX_RT_PRIO + MAX_PRIORITY_ADJ cfg \<and>
            (bmq_idx (tasks s' (curr (runqueues s c))) \<noteq> 0 \<longrightarrow>
               last (heads (queue (runqueues s' c)) (nat (bmq_idx (tasks s' (curr (runqueues s c))))))
                 = curr (runqueues s c)) \<and>
            skip (runqueues s' c) = skip (runqueues s c) \<and> called) \<and>
         (sched_yield_type s = 1 \<and> rt_task (tasks s (curr (runqueues s c))) \<longrightarrow>
            s' = s \<and> called) \<and>
         (sched_yield_type s = 2 \<and> 1 < nr_running (runqueues s c) \<longrightarrow>
            s' = upd_rq c (\<lambda>r. r\<lparr>skip := Some (curr (runqueues s c))\<rparr>) s \<and>
            skip (runqueues s' c) = Some (curr (runqueues s c)) \<and> called \<and>
            (\<forall>pull n s''. choose_next_task pull cfg c s' = Inr (n, s'') \<longrightarrow>
               skip (runqueues s'' c) = None)) \<and>
         (sched_yield_type s = 2 \<and> \<not> 1 < nr_running (runqueues s c) \<longrightarrow> s' = s \<and> called) \<and>
         (sched_yield_type s \<notin> {0, 1, 2} \<longrightarrow> s' = s \<and> called)"
proof -
  let ?cur = "curr (runqueues s c)"
  let ?b = "upd_task ?cur (\<lambda>t. t\<lparr>boost_prio := MAX_PRIORITY_ADJ cfg\<rparr>) s"
  from y have ret: "ret = 0" and d: "do_sched_yield cfg c s = Inr (s', called)"
    by (auto simp: sys_sched_yield_def split: sum.splits)
  have m0: "sched_yield_type s = 0 \<longrightarrow> s' = s \<and> \<not> called"
    using d by (auto simp: do_sched_yield_def)
  have m1r: "sched_yield_type s = 1 \<and> rt_task (tasks s ?cur) \<longrightarrow> s' = s \<and> called"
    using d by (auto simp: do_sched_yield_def Let_def)
  have m2n: "sched_yield_type s = 2 \<and> \<not> 1 < nr_running (runqueues s c) \<longrightarrow> s' = s \<and> called"
    using d by (auto simp: do_sched_yield_def Let_def)
  have mo: "sched_yield_type s \<notin> {0, 1, 2} \<longrightarrow> s' = s \<and> called"
    using d by (auto simp: do_sched_yield_def Let_def)
  have m2: "sched_yield_type s = 2 \<and> 1 < nr_running (runqueues s c) \<longrightarrow>
            s' = upd_rq c (\<lambda>r. r\<lparr>skip := Some ?cur\<rparr>) s \<and>
            skip (runqueues s' c) = Some ?cur \<and> called \<and>
            (\<forall>pull n s''. choose_next_task pull cfg c s' = Inr (n, s'') \<longrightarrow>
               skip (runqueues s'' c) = None)"
  proof (intro impI)
    assume a: "sched_yield_type s = 2 \<and> 1 < nr_running (runqueues s c)"
    with d have s': "s' = upd_rq c (\<lambda>r. r\<lparr>skip := Some ?cur\<rparr>) s" and c: called
      by (auto simp: do_sched_yield_def Let_def)
    then have sk: "skip (runqueues s' c) = Some ?cur" by simp
    have "skip (runqueues s'' c) = None" if "choose_next_task pull cfg c s' = Inr (n, s'')"
      for pull n s''
      using that sk
      by (auto simp: choose_next_task_def Let_def split: sum.splits if_splits prod.splits)
    with s' sk c show "s' = upd_rq c (\<lambda>r. r\<lparr>skip := Some ?cur\<rparr>) s \<and>
            skip (runqueues s' c) = Some ?cur \<and> called \<and>
            (\<forall>pull n s''. choose_next_task pull cfg c s' = Inr (n, s'') \<longrightarrow>
               skip (runqueues s'' c) = None)" by blast
  qed
  have m1: "sched_yield_type s = 1 \<and> \<not> rt_task (tasks s ?cur) \<longrightarrow>
            requeue_task cfg ?cur c ?b = Inr s' \<and>
            boost_prio (tasks s' ?cur) = MAX_PRIORITY_ADJ cfg \<and>
            bmq_idx (tasks s' ?cur) = prio (tasks s ?cur) - MAX_RT_PRIO + MAX_PRIORITY_ADJ cfg \<and>
            (bmq_idx (tasks s' ?cur) \<noteq> 0 \<longrightarrow>
               last (heads (queue (runqueues s' c)) (nat (bmq_idx (tasks s' ?cur)))) = ?cur) \<and>
            skip (runqueues s' c) = skip (runqueues s c) \<and> called"
  proof (intro impI)
    assume a: "sched_yield_type s = 1 \<and> \<not> rt_task (tasks s ?cur)"
    with d have r: "requeue_task cfg ?cur c ?b = Inr s'" and c: called
      by (auto simp: do_sched_yield_def Let_def split: sum.splits)
    have idx: "task_sched_prio (tasks ?b ?cur) =
        prio (tasks s ?cur) - MAX_RT_PRIO + MAX_PRIORITY_ADJ cfg"
      using a by (simp add: task_sched_prio_def rt_task_def rt_prio_def)
    have b: "boost_prio (tasks s' ?cur) = MAX_PRIORITY_ADJ cfg"
      using tasks_requeue_task [OF r] by simp
    have i: "bmq_idx (tasks s' ?cur) = prio (tasks s ?cur) - MAX_RT_PRIO + MAX_PRIORITY_ADJ cfg"
      using requeue_task_place(1) [OF r] idx by simp
    have l: "bmq_idx (tasks s' ?cur) \<noteq> 0 \<longrightarrow>
               last (heads (queue (runqueues s' c)) (nat (bmq_idx (tasks s' ?cur)))) = ?cur"
      using requeue_task_place(2) [OF r] requeue_task_place(1) [OF r] by simp
    have k: "skip (runqueues s' c) = skip (runqueues s c)"
      using requeue_task_skip(5) [OF r, of c] by simp
    from r c b i l k show "requeue_task cfg ?cur c ?b = Inr s' \<and>
            boost_prio (tasks s' ?cur) = MAX_PRIORITY_ADJ cfg \<and>
            bmq_idx (tasks s' ?cur) = prio (tasks s ?cur) - MAX_RT_PRIO + MAX_PRIORITY_ADJ cfg \<and>
            (bmq_idx (tasks s' ?cur) \<noteq> 0 \<longrightarrow>
               last (heads (queue (runqueues s' c)) (nat (bmq_idx (tasks s' ?cur)))) = ?cur) \<and>
            skip (runqueues s' c) = skip (runqueues s c) \<and> called" by blast
  qed
  show ?thesis using ret m0 m1 m1r m2 m2n mo by blast
qed


theorem sched_yield_effect_witness:
  "sys_sched_yield bmq_config 0 (busy_state\<lparr>sched_yield_type := 0\<rparr>) =
     Inr (0, busy_state\<lparr>sched_yield_type := 0\<rparr>, False) \<and>
   sched_yield_type busy_state = 1 \<and> \<not> rt_task (tasks busy_state (curr (runqueues busy_state 0))) \<and>
   \<not> isl (sys_sched_yield bmq_config 0 busy_state) \<and>
   boost_prio (tasks (fst (snd (projr (sys_sched_yield bmq_config 0 busy_state)))) 2) = 4 \<and>
   bmq_idx (tasks (fst (snd (projr (sys_sched_yield bmq_config 0 busy_state)))) 2) = 28 \<and>
   heads (queue (runqueues (fst (snd (projr (sys_sched_yield bmq_config 0 busy_state)))) 0)) 28 = [2] \<and>
   1 < nr_running (runqueues yield2_state 0) \<and>
   sys_sched_yield bmq_config 0 yield2_state =
     Inr (0, upd_rq 0 (\<lambda>r. r\<lparr>skip := Some 2\<rparr>) yield2_state, True) \<and>
   \<not> isl (choose_next_task (\<lambda>c s. (False, s)) bmq_config 0
          (upd_rq 0 (\<lambda>r. r\<lparr>skip := Some 2\<rparr>) yield2_state)) \<and>
   fst (projr (choose_next_task (\<lambda>c s. (False, s)) bmq_config 0
          (upd_rq 0 (\<lambda>r. r\<lparr>skip := Some 2\<rparr>) yield2_state))) = 3 \<and>
   skip (runqueues (snd (projr (choose_next_task (\<lambda>c s. (False, s)) bmq_config 0
          (upd_rq 0 (\<lambda>r. r\<lparr>skip := Some 2\<rparr>) yield2_state)))) 0) = None"
proof -
  let ?z = "busy_state\<lparr>sched_yield_type := 0\<rparr>"
  let ?k = "upd_rq 0 (\<lambda>r. r\<lparr>skip := Some 2\<rparr>) yield2_state"
  have z: "sys_sched_yield bmq_config 0 ?z = Inr (0, ?z, False)"
    by (simp add: yield_defs example_defs)
  have b: "sched_yield_type busy_state = 1"
    "\<not> rt_task (tasks busy_state (curr (runqueues busy_state 0)))"
    "curr (runqueues busy_state 0) = 2" "prio (tasks busy_state 2) = 124"
    by (simp_all add: yield_defs example_defs const_defs)
  have y1: "\<not> isl (sys_sched_yield bmq_config 0 busy_state)"
    "heads (queue (runqueues (fst (snd (projr (sys_sched_yield bmq_config 0 busy_state)))) 0)) 28 = [2]"
    by (simp_all add: yield_defs example_defs queue_defs const_defs)
  obtain s1 c1 where e1: "sys_sched_yield bmq_config 0 busy_state = Inr (0, s1, c1)"
    using y1(1) by (cases "sys_sched_yield bmq_config 0 busy_state")
      (auto simp: sys_sched_yield_def split: sum.splits)
  have l: "sched_yield_type yield2_state = 2" "1 < nr_running (runqueues yield2_state 0)"
    "curr (runqueues yield2_state 0) = 2"
    by (simp_all add: yield_defs example_defs)
  have e2: "sys_sched_yield bmq_config 0 yield2_state = Inr (0, ?k, True)"
    by (simp add: yield_defs example_defs)
  have n: "\<not> isl (choose_next_task (\<lambda>c s. (False, s)) bmq_config 0 ?k)"
    "fst (projr (choose_next_task (\<lambda>c s. (False, s)) bmq_config 0 ?k)) = 3"
    by (simp_all add: yield_defs example_defs queue_defs const_defs)
  then obtain s3 where e3: "choose_next_task (\<lambda>c s. (False, s)) bmq_config 0 ?k = Inr (3, s3)"
    by (cases "choose_next_task (\<lambda>c s. (False, s)) bmq_config 0 ?k") auto
  have t1: "boost_prio (tasks s1 2) = 4" "bmq_idx (tasks s1 2) = 28"
    using sched_yield_effect [OF e1] b by (simp_all add: bmq_config_def MAX_RT_PRIO_def)
  have t2: "skip (runqueues s3 0) = None"
    using sched_yield_effect [OF e2] l e3 by auto
  show ?thesis
    using z b(1,2) y1 l(2) n t1 t2 e1 e2 e3 by simp
qed

text \<open>
  The claim as the specification words it fails, because the effect does not depend on the
  yield type alone: with type 1 a real-time caller keeps its \<^verbatim>\<open>boost_prio\<close> (0 here,
  not 4) and is not requeued, and with type 2 a caller that is alone on its runqueue does
  not become the \<^verbatim>\<open>skip\<close> task.
\<close>

theorem sched_yield_counterexample:
  "sched_yield_type rt_run_state = 1 \<and> curr (runqueues rt_run_state 0) = 2 \<and>
   sys_sched_yield bmq_config 0 rt_run_state = Inr (0, rt_run_state, True) \<and>
   boost_prio (tasks rt_run_state 2) = 0 \<and> MAX_PRIORITY_ADJ bmq_config = 4 \<and>
   sched_yield_type (busy_state\<lparr>sched_yield_type := 2\<rparr>) = 2 \<and>
   sys_sched_yield bmq_config 0 (busy_state\<lparr>sched_yield_type := 2\<rparr>) =
     Inr (0, busy_state\<lparr>sched_yield_type := 2\<rparr>, True) \<and>
   skip (runqueues (busy_state\<lparr>sched_yield_type := 2\<rparr>) 0) = None"
  by (simp add: yield_defs example_defs const_defs)

subsection \<open>Slice expiry\<close>

text \<open>
  C3, as the code has it: \<^verbatim>\<open>check_curr\<close> at schedule time, for a task other than the
  idle task. The run time is accounted first (\<^verbatim>\<open>update_curr\<close>); if the remaining
  \<^verbatim>\<open>time_slice\<close> is then below \<^verbatim>\<open>RESCHED_NS\<close> it is replenished to
  \<^verbatim>\<open>SCHED_TIMESLICE_NS\<close>. A \<^verbatim>\<open>SCHED_FIFO\<close> task, or one that is not queued, is not
  requeued: the runqueues are unchanged. A queued task of another policy is requeued at
  the level of its queue index: a \<^verbatim>\<open>SCHED_RR\<close> task with \<^verbatim>\<open>boost_prio\<close> unchanged,
  any other with \<^verbatim>\<open>boost_prio\<close> one higher unless it is \<^verbatim>\<open>MAX_PRIORITY_ADJ\<close> already.
  The task is taken out of the level it was in and every other level keeps its other
  tasks in their order. At a level other than 0 the task ends at the tail of the level.
  At level 0, the level of the real-time tasks, it is put right before the first task,
  counted from the head, whose \<^verbatim>\<open>prio\<close> is greater than its own, and at the tail when
  there is none; the level need not be ordered by \<^verbatim>\<open>prio\<close>, so a task of smaller
  \<^verbatim>\<open>prio\<close> further back stays behind it.
\<close>

theorem check_curr_effect:
  assumes k: "check_curr cfg p c s = Inr s'" and ni: "p \<noteq> idle (runqueues s c)"
  shows "(\<not> time_slice (update_curr (runqueues s c) (tasks s p)) < RESCHED_NS \<longrightarrow>
            s' = upd_task p (update_curr (runqueues s c)) s) \<and>
         (time_slice (update_curr (runqueues s c) (tasks s p)) < RESCHED_NS \<longrightarrow>
            time_slice (tasks s' p) = SCHED_TIMESLICE_NS cfg \<and>
            (policy (tasks s p) = SCHED_FIFO \<or> \<not> task_on_rq_queued (tasks s p) \<longrightarrow>
               runqueues s' = runqueues s \<and>
               boost_prio (tasks s' p) = boost_prio (tasks s p) \<and>
               bmq_idx (tasks s' p) = bmq_idx (tasks s p)) \<and>
            (policy (tasks s p) \<noteq> SCHED_FIFO \<and> task_on_rq_queued (tasks s p) \<longrightarrow>
               boost_prio (tasks s' p) =
                 (if policy (tasks s p) = SCHED_RR then boost_prio (tasks s p)
                  else if boost_prio (tasks s p) < MAX_PRIORITY_ADJ cfg
                  then boost_prio (tasks s p) + 1 else boost_prio (tasks s p)) \<and>
               bmq_idx (tasks s' p) = task_sched_prio (tasks s' p) \<and>
               (bmq_idx (tasks s' p) \<noteq> 0 \<longrightarrow>
                  heads (queue (runqueues s' c)) (nat (bmq_idx (tasks s' p))) =
                    removeAll p (heads (queue (runqueues s c)) (nat (bmq_idx (tasks s' p)))) @ [p]) \<and>
               (bmq_idx (tasks s' p) = 0 \<longrightarrow>
                  heads (queue (runqueues s' c)) 0 =
                    takeWhile (\<lambda>t. prio (tasks s t) \<le> prio (tasks s p))
                      (removeAll p (heads (queue (runqueues s c)) 0)) @
                    p # dropWhile (\<lambda>t. prio (tasks s t) \<le> prio (tasks s p))
                      (removeAll p (heads (queue (runqueues s c)) 0))) \<and>
               (\<forall>l. l \<noteq> nat (bmq_idx (tasks s' p)) \<longrightarrow>
                  heads (queue (runqueues s' c)) l =
                    removeAll p (heads (queue (runqueues s c)) l))))"
proof -
  let ?s1 = "upd_task p (update_curr (runqueues s c)) s"
  let ?s2 = "upd_task p (\<lambda>t. t\<lparr>time_slice := SCHED_TIMESLICE_NS cfg\<rparr>) ?s1"
  let ?s3 = "(if SCHED_RR \<noteq> policy (tasks ?s2 p) then upd_task p (deboost_task cfg) ?s2 else ?s2)"
  define r1 where "r1 = ?s1"
  define r2 where "r2 = ?s2"
  define r3 where "r3 = ?s3"
  define ts where "ts = time_slice (update_curr (runqueues s c) (tasks s p))"
  have unf: "check_curr cfg p c s =
      (if ts < RESCHED_NS then
         (if SCHED_FIFO \<noteq> policy (tasks s p) \<and> task_on_rq_queued (tasks s p)
          then requeue_task cfg p c r3 else Inr r2)
       else Inr r1)"
    using ni
    by (simp add: check_curr_def Let_def r1_def r2_def r3_def ts_def update_curr_def
        task_on_rq_queued_def)
  have a: "\<not> ts < RESCHED_NS \<longrightarrow> s' = r1"
    using k unfolding unf by (auto split: if_splits)
  have b: "ts < RESCHED_NS \<and>
           (policy (tasks s p) = SCHED_FIFO \<or> \<not> task_on_rq_queued (tasks s p)) \<longrightarrow> s' = r2"
    using k unfolding unf by (auto split: if_splits)
  have c: "ts < RESCHED_NS \<and>
           policy (tasks s p) \<noteq> SCHED_FIFO \<and> task_on_rq_queued (tasks s p) \<longrightarrow>
           requeue_task cfg p c r3 = Inr s'"
    using k unfolding unf by (auto split: if_splits)
  have s3: "prio (tasks ?s3 t) = prio (tasks s t)"
    "heads (queue (runqueues ?s3 c)) = heads (queue (runqueues s c))"
    "time_slice (tasks ?s3 p) = SCHED_TIMESLICE_NS cfg"
    "boost_prio (tasks ?s3 p) =
       (if policy (tasks s p) = SCHED_RR then boost_prio (tasks s p)
        else if boost_prio (tasks s p) < MAX_PRIORITY_ADJ cfg
        then boost_prio (tasks s p) + 1 else boost_prio (tasks s p))" for t
    by (auto simp: update_curr_def Let_def deboost_task_def)
  have main: "time_slice (tasks s' p) = SCHED_TIMESLICE_NS cfg \<and>
       boost_prio (tasks s' p) =
                 (if policy (tasks s p) = SCHED_RR then boost_prio (tasks s p)
                  else if boost_prio (tasks s p) < MAX_PRIORITY_ADJ cfg
                  then boost_prio (tasks s p) + 1 else boost_prio (tasks s p)) \<and>
               bmq_idx (tasks s' p) = task_sched_prio (tasks s' p) \<and>
               (bmq_idx (tasks s' p) \<noteq> 0 \<longrightarrow>
                  heads (queue (runqueues s' c)) (nat (bmq_idx (tasks s' p))) =
                    removeAll p (heads (queue (runqueues s c)) (nat (bmq_idx (tasks s' p)))) @ [p]) \<and>
               (bmq_idx (tasks s' p) = 0 \<longrightarrow>
                  heads (queue (runqueues s' c)) 0 =
                    takeWhile (\<lambda>t. prio (tasks s t) \<le> prio (tasks s p))
                      (removeAll p (heads (queue (runqueues s c)) 0)) @
                    p # dropWhile (\<lambda>t. prio (tasks s t) \<le> prio (tasks s p))
                      (removeAll p (heads (queue (runqueues s c)) 0))) \<and>
               (\<forall>l. l \<noteq> nat (bmq_idx (tasks s' p)) \<longrightarrow>
                  heads (queue (runqueues s' c)) l =
                    removeAll p (heads (queue (runqueues s c)) l))"
    if r0: "requeue_task cfg p c r3 = Inr s'"
  proof -
    from r0 have r: "requeue_task cfg p c ?s3 = Inr s'" by (simp only: r3_def)
    note t = tasks_requeue_task [OF r]
    have i: "bmq_idx (tasks s' p) = task_sched_prio (tasks ?s3 p)"
      using requeue_task_place(1) [OF r] .
    have e: "task_sched_prio (tasks s' p) = task_sched_prio (tasks ?s3 p)"
      unfolding t by (simp add: task_sched_prio_def)
    have ts: "time_slice (tasks s' p) = SCHED_TIMESLICE_NS cfg"
      unfolding t using s3(3) by simp
    have bo: "boost_prio (tasks s' p) = boost_prio (tasks ?s3 p)"
      unfolding t by simp
    have h1: "bmq_idx (tasks s' p) \<noteq> 0 \<longrightarrow>
                  heads (queue (runqueues s' c)) (nat (bmq_idx (tasks s' p))) =
                    removeAll p (heads (queue (runqueues s c)) (nat (bmq_idx (tasks s' p)))) @ [p]"
      using requeue_task_place(2) [OF r] unfolding i s3(2) by blast
    have h0: "bmq_idx (tasks s' p) = 0 \<longrightarrow>
                  heads (queue (runqueues s' c)) 0 =
                    takeWhile (\<lambda>t. prio (tasks s t) \<le> prio (tasks s p))
                      (removeAll p (heads (queue (runqueues s c)) 0)) @
                    p # dropWhile (\<lambda>t. prio (tasks s t) \<le> prio (tasks s p))
                      (removeAll p (heads (queue (runqueues s c)) 0))"
      using requeue_task_place(3) [OF r] unfolding i s3(1,2) by blast
    have ho: "\<forall>l. l \<noteq> nat (bmq_idx (tasks s' p)) \<longrightarrow>
                  heads (queue (runqueues s' c)) l =
                    removeAll p (heads (queue (runqueues s c)) l)"
      using requeue_task_place(4) [OF r] unfolding i s3(2) by blast
    show ?thesis
      using ts bo s3(4) i e h1 h0 ho by simp
  qed
  have fifo: "runqueues ?s2 = runqueues s \<and> boost_prio (tasks ?s2 p) = boost_prio (tasks s p) \<and>
      bmq_idx (tasks ?s2 p) = bmq_idx (tasks s p) \<and>
      time_slice (tasks ?s2 p) = SCHED_TIMESLICE_NS cfg"
    by (simp add: update_curr_def Let_def)
  show ?thesis
  proof (cases "ts < RESCHED_NS")
    case False
    with a have "s' = ?s1" by (simp add: r1_def)
    with False show ?thesis unfolding ts_def by simp
  next
    case True
    show ?thesis
    proof (cases "policy (tasks s p) = SCHED_FIFO")
      case f: True
      with b True have "s' = ?s2" by (simp add: r2_def)
      with fifo f True show ?thesis unfolding ts_def by simp
    next
      case nf: False
      show ?thesis
      proof (cases "task_on_rq_queued (tasks s p)")
        case nq: False
        with b True have "s' = ?s2" by (simp add: r2_def)
        with fifo nq True show ?thesis unfolding ts_def by simp
      next
        case q: True
        with c nf True have "requeue_task cfg p c r3 = Inr s'" by simp
        from main [OF this] q nf True show ?thesis unfolding ts_def by blast
      qed
    qed
  qed
qed


theorem check_curr_effect_witness:
  "(2::nat) \<noteq> idle (runqueues (upd_task 2 (\<lambda>t. t\<lparr>time_slice := 5\<rparr>) busy_state) 0) \<and>
   time_slice (update_curr (runqueues (upd_task 2 (\<lambda>t. t\<lparr>time_slice := 5\<rparr>) busy_state) 0)
     (tasks (upd_task 2 (\<lambda>t. t\<lparr>time_slice := 5\<rparr>) busy_state) 2)) < RESCHED_NS \<and>
   \<not> isl (check_curr bmq_config 2 0 (upd_task 2 (\<lambda>t. t\<lparr>time_slice := 5\<rparr>) busy_state)) \<and>
   time_slice (tasks (projr (check_curr bmq_config 2 0
     (upd_task 2 (\<lambda>t. t\<lparr>time_slice := 5\<rparr>) busy_state))) 2) = 4000000 \<and>
   boost_prio (tasks (projr (check_curr bmq_config 2 0
     (upd_task 2 (\<lambda>t. t\<lparr>time_slice := 5\<rparr>) busy_state))) 2) = 1 \<and>
   bmq_idx (tasks (projr (check_curr bmq_config 2 0
     (upd_task 2 (\<lambda>t. t\<lparr>time_slice := 5\<rparr>) busy_state))) 2) = 25 \<and>
   heads (queue (runqueues (projr (check_curr bmq_config 2 0
     (upd_task 2 (\<lambda>t. t\<lparr>time_slice := 5\<rparr>) busy_state))) 0)) 25 = [2] \<and>
   heads (queue (runqueues (projr (check_curr bmq_config 2 0
     (upd_task 2 (\<lambda>t. t\<lparr>time_slice := 5\<rparr>) busy_state))) 0)) 24 = [] \<and>
   policy (tasks (upd_task 2 (\<lambda>t. t\<lparr>time_slice := 5\<rparr>) rt_run_state) 2) = SCHED_FIFO \<and>
   \<not> isl (check_curr bmq_config 2 0 (upd_task 2 (\<lambda>t. t\<lparr>time_slice := 5\<rparr>) rt_run_state)) \<and>
   time_slice (tasks (projr (check_curr bmq_config 2 0
     (upd_task 2 (\<lambda>t. t\<lparr>time_slice := 5\<rparr>) rt_run_state))) 2) = 4000000 \<and>
   runqueues (projr (check_curr bmq_config 2 0
     (upd_task 2 (\<lambda>t. t\<lparr>time_slice := 5\<rparr>) rt_run_state))) = runqueues rt_run_state \<and>
   (2::nat) \<noteq> idle (runqueues boosted_state 0) \<and>
   map (\<lambda>t. prio (tasks boosted_state t)) (heads (queue (runqueues boosted_state 0)) 0) =
     [10, 20, 7] \<and>
   \<not> isl (check_curr bmq_config 2 0 boosted_state) \<and>
   heads (queue (runqueues (projr (check_curr bmq_config 2 0 boosted_state)) 0)) 0 = [2, 3, 4]"
proof -
  let ?b = "upd_task 2 (\<lambda>t. t\<lparr>time_slice := 5\<rparr>) busy_state"
  let ?f = "upd_task 2 (\<lambda>t. t\<lparr>time_slice := 5\<rparr>) rt_run_state"
  have hb: "(2::nat) \<noteq> idle (runqueues ?b 0)"
    "time_slice (update_curr (runqueues ?b 0) (tasks ?b 2)) < RESCHED_NS"
    "policy (tasks ?b 2) \<noteq> SCHED_FIFO" "task_on_rq_queued (tasks ?b 2)"
    "policy (tasks ?b 2) \<noteq> SCHED_RR" "boost_prio (tasks ?b 2) = 0"
    "heads (queue (runqueues ?b 0)) 25 = []" "prio (tasks ?b 2) = 124"
    by (simp_all add: slice_defs example_defs const_defs)
  have hf: "(2::nat) \<noteq> idle (runqueues ?f 0)"
    "time_slice (update_curr (runqueues ?f 0) (tasks ?f 2)) < RESCHED_NS"
    "policy (tasks ?f 2) = SCHED_FIFO" "runqueues ?f = runqueues rt_run_state"
    by (simp_all add: slice_defs yield_defs example_defs const_defs)
  have eb: "\<not> isl (check_curr bmq_config 2 0 ?b)"
    by (simp add: slice_defs example_defs queue_defs const_defs)
  have ef: "\<not> isl (check_curr bmq_config 2 0 ?f)"
    by (simp add: slice_defs yield_defs example_defs queue_defs const_defs)
  from eb have rb: "check_curr bmq_config 2 0 ?b = Inr (projr (check_curr bmq_config 2 0 ?b))"
    by (cases "check_curr bmq_config 2 0 ?b") simp_all
  from ef have rf: "check_curr bmq_config 2 0 ?f = Inr (projr (check_curr bmq_config 2 0 ?f))"
    by (cases "check_curr bmq_config 2 0 ?f") simp_all
  have tb: "time_slice (tasks (projr (check_curr bmq_config 2 0 ?b)) 2) = 4000000"
    "boost_prio (tasks (projr (check_curr bmq_config 2 0 ?b)) 2) = 1"
    using check_curr_effect [OF rb hb(1)] hb
    by (simp_all add: bmq_config_def SCHED_TIMESLICE_NS_def)
  have ib: "bmq_idx (tasks (projr (check_curr bmq_config 2 0 ?b)) 2) = 25"
    by (simp add: slice_defs example_defs queue_defs const_defs)
  have lb: "heads (queue (runqueues (projr (check_curr bmq_config 2 0 ?b)) 0)) 25 = [2]"
    using check_curr_effect [OF rb hb(1)] hb ib by simp
  have "heads (queue (runqueues (projr (check_curr bmq_config 2 0 ?b)) 0)) 24 =
      removeAll 2 (heads (queue (runqueues ?b 0)) 24)"
    using check_curr_effect [OF rb hb(1)] hb ib by simp
  then have ob: "heads (queue (runqueues (projr (check_curr bmq_config 2 0 ?b)) 0)) 24 = []"
    by (simp add: example_defs)
  have tf: "time_slice (tasks (projr (check_curr bmq_config 2 0 ?f)) 2) = 4000000"
    "runqueues (projr (check_curr bmq_config 2 0 ?f)) = runqueues rt_run_state"
    using check_curr_effect [OF rf hf(1)] hf
    by (simp_all add: bmq_config_def SCHED_TIMESLICE_NS_def)
  have hu: "(2::nat) \<noteq> idle (runqueues boosted_state 0)"
    "time_slice (update_curr (runqueues boosted_state 0) (tasks boosted_state 2)) < RESCHED_NS"
    "policy (tasks boosted_state 2) \<noteq> SCHED_FIFO" "task_on_rq_queued (tasks boosted_state 2)"
    "map (\<lambda>t. prio (tasks boosted_state t)) (heads (queue (runqueues boosted_state 0)) 0) =
       [10, 20, 7]"
    "heads (queue (runqueues boosted_state 0)) 0 = [2, 3, 4]"
    "prio (tasks boosted_state 2) = 10" "prio (tasks boosted_state 3) = 20"
    by (simp_all add: slice_defs example_defs const_defs)
  have eu: "\<not> isl (check_curr bmq_config 2 0 boosted_state)"
    by (simp add: slice_defs example_defs queue_defs const_defs)
  from eu have ru: "check_curr bmq_config 2 0 boosted_state =
      Inr (projr (check_curr bmq_config 2 0 boosted_state))"
    by (cases "check_curr bmq_config 2 0 boosted_state") simp_all
  have iu: "bmq_idx (tasks (projr (check_curr bmq_config 2 0 boosted_state)) 2) = 0"
    by (simp add: slice_defs example_defs queue_defs const_defs)
  have lu: "heads (queue (runqueues (projr (check_curr bmq_config 2 0 boosted_state)) 0)) 0 =
      [2, 3, 4]"
    using check_curr_effect [OF ru hu(1)] hu iu by simp
  show ?thesis
    using hb(1,2) hf(3) eb ef tb ib lb ob tf hu(1,5) eu lu by simp
qed

text \<open>
  The claim as the specification words it fails twice. A \<^verbatim>\<open>SCHED_RR\<close> task whose slice
  expires is not moved to the tail of its level when a task of lower priority is queued
  behind it at level 0: it stays at the head. And a \<^verbatim>\<open>SCHED_NORMAL\<close> task whose
  \<^verbatim>\<open>boost_prio\<close> is \<^verbatim>\<open>MAX_PRIORITY_ADJ\<close> is not deboosted by one.
\<close>

theorem check_curr_counterexample:
  "policy (tasks rr_state 2) = SCHED_RR \<and> task_on_rq_queued (tasks rr_state 2) \<and>
   time_slice (tasks rr_state 2) = 5 \<and>
   heads (queue (runqueues rr_state 0)) 0 = [2, 3] \<and>
   \<not> isl (check_curr bmq_config 2 0 rr_state) \<and>
   time_slice (tasks (projr (check_curr bmq_config 2 0 rr_state)) 2) = 4000000 \<and>
   heads (queue (runqueues (projr (check_curr bmq_config 2 0 rr_state)) 0)) 0 = [2, 3] \<and>
   policy (tasks expired_state 2) = SCHED_NORMAL \<and> task_on_rq_queued (tasks expired_state 2) \<and>
   time_slice (tasks expired_state 2) = 5 \<and> boost_prio (tasks expired_state 2) = 4 \<and>
   \<not> isl (check_curr bmq_config 2 0 expired_state) \<and>
   time_slice (tasks (projr (check_curr bmq_config 2 0 expired_state)) 2) = 4000000 \<and>
   boost_prio (tasks (projr (check_curr bmq_config 2 0 expired_state)) 2) = 4"
  by (simp add: slice_defs example_defs queue_defs const_defs)

subsection \<open>Validation in the policy change\<close>

text \<open>
  C6, as the code has it: \<^verbatim>\<open>__sched_setscheduler\<close> validates before it changes anything.
  Whenever it returns an error, the state is the one it was called with. A
  \<^verbatim>\<open>SCHED_FIFO\<close> or \<^verbatim>\<open>SCHED_RR\<close> request with a priority outside 1..99 returns
  \<^verbatim>\<open>-EINVAL\<close>, and so does a request with a priority other than 0 for any other policy
  number from 0 to \<^verbatim>\<open>SCHED_IDLE\<close>: \<^verbatim>\<open>SCHED_NORMAL\<close>, \<^verbatim>\<open>SCHED_BATCH\<close>,
  \<^verbatim>\<open>SCHED_IDLE\<close> and the number 4, which names no policy but is not above
  \<^verbatim>\<open>SCHED_IDLE\<close>. A policy above \<^verbatim>\<open>SCHED_IDLE\<close> other than \<^verbatim>\<open>SCHED_DEADLINE\<close>, or
  a priority above 99, returns \<^verbatim>\<open>-EINVAL\<close>; a \<^verbatim>\<open>SCHED_DEADLINE\<close> request does what
  the request for \<^verbatim>\<open>SCHED_FIFO\<close> at priority 99 does. The policy -1,
  \<^verbatim>\<open>SETPARAM_POLICY\<close>, stands for the policy the task has: the priority is validated
  against that policy, and a successful call keeps it. A successful call with a policy
  that is not negative stores that policy. The system call \<^verbatim>\<open>sched_setscheduler\<close>, for
  a priority that is a C \<^verbatim>\<open>int\<close>, leaves the state unchanged whenever it returns an
  error, and returns \<^verbatim>\<open>-EINVAL\<close> for a negative policy and, once the legacy flag
  \<^verbatim>\<open>SCHED_RESET_ON_FORK\<close> is taken out of the policy, in each of the cases above.
\<close>

theorem setscheduler_validates:
  "(uu_sched_setscheduler cfg env p attr user pi s = Inr (ret, s') \<longrightarrow>
      (ret \<noteq> 0 \<longrightarrow> s' = s) \<and>
      ((sched_policy attr = SCHED_FIFO \<or> sched_policy attr = SCHED_RR) \<and>
       \<not> (1 \<le> sched_priority attr \<and> sched_priority attr \<le> 99) \<longrightarrow>
         ret = - EINVAL \<and> s' = s) \<and>
      (0 \<le> sched_policy attr \<and> sched_policy attr \<le> SCHED_IDLE \<and>
       sched_policy attr \<noteq> SCHED_FIFO \<and> sched_policy attr \<noteq> SCHED_RR \<and>
       sched_priority attr \<noteq> 0 \<longrightarrow>
         ret = - EINVAL \<and> s' = s) \<and>
      (sched_policy attr \<noteq> SCHED_DEADLINE \<and>
       (sched_policy attr > SCHED_IDLE \<or> sched_priority attr > 99) \<longrightarrow>
         ret = - EINVAL \<and> s' = s) \<and>
      (sched_policy attr = SCHED_DEADLINE \<longrightarrow>
         uu_sched_setscheduler cfg env p dl_squash_attr user pi s = Inr (ret, s') \<and>
         sched_policy dl_squash_attr = SCHED_FIFO \<and> sched_priority dl_squash_attr = 99) \<and>
      (sched_policy attr = SETPARAM_POLICY \<longrightarrow>
         (rt_policy (policy (tasks s p)) \<and>
            \<not> (1 \<le> sched_priority attr \<and> sched_priority attr \<le> 99) \<or>
          \<not> rt_policy (policy (tasks s p)) \<and> sched_priority attr \<noteq> 0 \<longrightarrow>
            ret = - EINVAL \<and> s' = s) \<and>
         (ret = 0 \<longrightarrow> policy (tasks s' p) = policy (tasks s p))) \<and>
      (0 \<le> sched_policy attr \<and> sched_policy attr \<noteq> SCHED_DEADLINE \<and> ret = 0 \<longrightarrow>
         policy (tasks s' p) = sched_policy attr)) \<and>
   (- (2 ^ 31) \<le> pp \<and> pp < 2 ^ 31 \<and>
    sys_sched_setscheduler cfg env p pol pp s = Inr (rv, sf) \<longrightarrow>
      (rv \<noteq> 0 \<longrightarrow> sf = s) \<and>
      (pol < 0 \<or>
       SCHED_IDLE < unset_bit SCHED_RESET_ON_FORK_BIT pol \<and>
         unset_bit SCHED_RESET_ON_FORK_BIT pol \<noteq> SCHED_DEADLINE \<or>
       rt_policy (unset_bit SCHED_RESET_ON_FORK_BIT pol) \<and> \<not> (1 \<le> pp \<and> pp \<le> 99) \<or>
       unset_bit SCHED_RESET_ON_FORK_BIT pol \<le> SCHED_IDLE \<and>
         \<not> rt_policy (unset_bit SCHED_RESET_ON_FORK_BIT pol) \<and> pp \<noteq> 0 \<longrightarrow>
         rv = - EINVAL \<and> sf = s))"
proof (rule conjI)
  show "uu_sched_setscheduler cfg env p attr user pi s = Inr (ret, s') \<longrightarrow>
      (ret \<noteq> 0 \<longrightarrow> s' = s) \<and>
      ((sched_policy attr = SCHED_FIFO \<or> sched_policy attr = SCHED_RR) \<and>
       \<not> (1 \<le> sched_priority attr \<and> sched_priority attr \<le> 99) \<longrightarrow>
         ret = - EINVAL \<and> s' = s) \<and>
      (0 \<le> sched_policy attr \<and> sched_policy attr \<le> SCHED_IDLE \<and>
       sched_policy attr \<noteq> SCHED_FIFO \<and> sched_policy attr \<noteq> SCHED_RR \<and>
       sched_priority attr \<noteq> 0 \<longrightarrow>
         ret = - EINVAL \<and> s' = s) \<and>
      (sched_policy attr \<noteq> SCHED_DEADLINE \<and>
       (sched_policy attr > SCHED_IDLE \<or> sched_priority attr > 99) \<longrightarrow>
         ret = - EINVAL \<and> s' = s) \<and>
      (sched_policy attr = SCHED_DEADLINE \<longrightarrow>
         uu_sched_setscheduler cfg env p dl_squash_attr user pi s = Inr (ret, s') \<and>
         sched_policy dl_squash_attr = SCHED_FIFO \<and> sched_priority dl_squash_attr = 99) \<and>
      (sched_policy attr = SETPARAM_POLICY \<longrightarrow>
         (rt_policy (policy (tasks s p)) \<and>
            \<not> (1 \<le> sched_priority attr \<and> sched_priority attr \<le> 99) \<or>
          \<not> rt_policy (policy (tasks s p)) \<and> sched_priority attr \<noteq> 0 \<longrightarrow>
            ret = - EINVAL \<and> s' = s) \<and>
         (ret = 0 \<longrightarrow> policy (tasks s' p) = policy (tasks s p))) \<and>
      (0 \<le> sched_policy attr \<and> sched_policy attr \<noteq> SCHED_DEADLINE \<and> ret = 0 \<longrightarrow>
         policy (tasks s' p) = sched_policy attr)"
    by (rule impI) (rule setscheduler_checks)
  show "- (2 ^ 31) \<le> pp \<and> pp < 2 ^ 31 \<and>
    sys_sched_setscheduler cfg env p pol pp s = Inr (rv, sf) \<longrightarrow>
      (rv \<noteq> 0 \<longrightarrow> sf = s) \<and>
      (pol < 0 \<or>
       SCHED_IDLE < unset_bit SCHED_RESET_ON_FORK_BIT pol \<and>
         unset_bit SCHED_RESET_ON_FORK_BIT pol \<noteq> SCHED_DEADLINE \<or>
       rt_policy (unset_bit SCHED_RESET_ON_FORK_BIT pol) \<and> \<not> (1 \<le> pp \<and> pp \<le> 99) \<or>
       unset_bit SCHED_RESET_ON_FORK_BIT pol \<le> SCHED_IDLE \<and>
         \<not> rt_policy (unset_bit SCHED_RESET_ON_FORK_BIT pol) \<and> pp \<noteq> 0 \<longrightarrow>
         rv = - EINVAL \<and> sf = s)"
  proof (rule impI)
    assume a: "- (2 ^ 31) \<le> pp \<and> pp < 2 ^ 31 \<and>
      sys_sched_setscheduler cfg env p pol pp s = Inr (rv, sf)"
    show "(rv \<noteq> 0 \<longrightarrow> sf = s) \<and>
      (pol < 0 \<or>
       SCHED_IDLE < unset_bit SCHED_RESET_ON_FORK_BIT pol \<and>
         unset_bit SCHED_RESET_ON_FORK_BIT pol \<noteq> SCHED_DEADLINE \<or>
       rt_policy (unset_bit SCHED_RESET_ON_FORK_BIT pol) \<and> \<not> (1 \<le> pp \<and> pp \<le> 99) \<or>
       unset_bit SCHED_RESET_ON_FORK_BIT pol \<le> SCHED_IDLE \<and>
         \<not> rt_policy (unset_bit SCHED_RESET_ON_FORK_BIT pol) \<and> pp \<noteq> 0 \<longrightarrow>
         rv = - EINVAL \<and> sf = s)"
      by (rule syscall_checks [OF a [THEN conjunct2, THEN conjunct2] a [THEN conjunct1]
            a [THEN conjunct2, THEN conjunct1]])
  qed
qed

theorem setscheduler_validates_witness:
  "\<not> isl (uu_sched_setscheduler bmq_config root_env 2 fifo50_attr False True busy_state) \<and>
   fst (projr (uu_sched_setscheduler bmq_config root_env 2 fifo50_attr False True busy_state)) = 0 \<and>
   policy (tasks (snd (projr
     (uu_sched_setscheduler bmq_config root_env 2 fifo50_attr False True busy_state))) 2) = SCHED_FIFO \<and>
   rt_priority (tasks (snd (projr
     (uu_sched_setscheduler bmq_config root_env 2 fifo50_attr False True busy_state))) 2) = 50 \<and>
   prio (tasks (snd (projr
     (uu_sched_setscheduler bmq_config root_env 2 fifo50_attr False True busy_state))) 2) = 49 \<and>
   uu_sched_setscheduler bmq_config root_env 2 (fifo50_attr\<lparr>sched_priority := 100\<rparr>) False True
     busy_state = Inr (- EINVAL, busy_state) \<and>
   uu_sched_setscheduler bmq_config root_env 2 (fifo50_attr\<lparr>sched_policy := 7\<rparr>) False True
     busy_state = Inr (- EINVAL, busy_state) \<and>
   uu_sched_setscheduler bmq_config root_env 2 (fifo50_attr\<lparr>sched_policy := SCHED_BATCH\<rparr>) False True
     busy_state = Inr (- EINVAL, busy_state) \<and>
   uu_sched_setscheduler bmq_config root_env 2 (fifo50_attr\<lparr>sched_policy := 4\<rparr>) False True
     busy_state = Inr (- EINVAL, busy_state) \<and>
   policy (tasks busy_state 2) = SCHED_NORMAL \<and>
   uu_sched_setscheduler bmq_config root_env 2 (fifo50_attr\<lparr>sched_policy := SETPARAM_POLICY\<rparr>)
     False True busy_state = Inr (- EINVAL, busy_state) \<and>
   \<not> isl (uu_sched_setscheduler bmq_config root_env 2
     (fifo50_attr\<lparr>sched_policy := SCHED_DEADLINE, sched_priority := 0\<rparr>) False True busy_state) \<and>
   uu_sched_setscheduler bmq_config root_env 2
     (fifo50_attr\<lparr>sched_policy := SCHED_DEADLINE, sched_priority := 0\<rparr>) False True busy_state =
   uu_sched_setscheduler bmq_config root_env 2 dl_squash_attr False True busy_state \<and>
   rt_priority (tasks (snd (projr (uu_sched_setscheduler bmq_config root_env 2
     (fifo50_attr\<lparr>sched_policy := SCHED_DEADLINE, sched_priority := 0\<rparr>) False True busy_state))) 2)
     = 99 \<and>
   sys_sched_setscheduler bmq_config root_env 2 (- 1) 50 busy_state = Inr (- EINVAL, busy_state) \<and>
   \<not> isl (sys_sched_setscheduler bmq_config root_env 2 SCHED_RR 10 busy_state) \<and>
   fst (projr (sys_sched_setscheduler bmq_config root_env 2 SCHED_RR 10 busy_state)) = 0 \<and>
   policy (tasks (snd (projr
     (sys_sched_setscheduler bmq_config root_env 2 SCHED_RR 10 busy_state))) 2) = SCHED_RR \<and>
   sys_sched_setscheduler bmq_config root_env 2 SCHED_RR (- 3) busy_state =
     Inr (- EINVAL, busy_state) \<and>
   sys_sched_setscheduler bmq_config root_env 2 7 0 busy_state = Inr (- EINVAL, busy_state)"
proof -
  let ?dl = "fifo50_attr\<lparr>sched_policy := SCHED_DEADLINE, sched_priority := 0\<rparr>"
  have ok: "\<not> isl (uu_sched_setscheduler bmq_config root_env 2 fifo50_attr False True busy_state)"
    "fst (projr (uu_sched_setscheduler bmq_config root_env 2 fifo50_attr False True busy_state)) = 0"
    "rt_priority (tasks (snd (projr
       (uu_sched_setscheduler bmq_config root_env 2 fifo50_attr False True busy_state))) 2) = 50"
    "prio (tasks (snd (projr
       (uu_sched_setscheduler bmq_config root_env 2 fifo50_attr False True busy_state))) 2) = 49"
    by (simp_all add: attr_defs pi_defs example_defs queue_defs const_defs)
  have dl: "\<not> isl (uu_sched_setscheduler bmq_config root_env 2 ?dl False True busy_state)"
    "rt_priority (tasks (snd (projr
       (uu_sched_setscheduler bmq_config root_env 2 ?dl False True busy_state))) 2) = 99"
    by (simp_all add: attr_defs pi_defs example_defs queue_defs const_defs)
  have np: "policy (tasks busy_state 2) = SCHED_NORMAL"
    by (simp add: example_defs const_defs)
  obtain r0 s0 where e0:
    "uu_sched_setscheduler bmq_config root_env 2 fifo50_attr False True busy_state = Inr (r0, s0)"
    using ok(1) by (cases "uu_sched_setscheduler bmq_config root_env 2 fifo50_attr False True busy_state") auto
  obtain r1 s1 where e1:
    "uu_sched_setscheduler bmq_config root_env 2 (fifo50_attr\<lparr>sched_priority := 100\<rparr>) False True
       busy_state = Inr (r1, s1)"
    by (simp add: attr_defs const_defs)
  obtain r2 s2 where e2:
    "uu_sched_setscheduler bmq_config root_env 2 (fifo50_attr\<lparr>sched_policy := 7\<rparr>) False True
       busy_state = Inr (r2, s2)"
    by (simp add: attr_defs const_defs)
  obtain r3 s3 where e3:
    "uu_sched_setscheduler bmq_config root_env 2 (fifo50_attr\<lparr>sched_policy := SCHED_BATCH\<rparr>) False True
       busy_state = Inr (r3, s3)"
    by (simp add: attr_defs const_defs)
  obtain r4 s4 where e4:
    "uu_sched_setscheduler bmq_config root_env 2 ?dl False True busy_state = Inr (r4, s4)"
    using dl(1) by (cases "uu_sched_setscheduler bmq_config root_env 2 ?dl False True busy_state") auto
  obtain r5 s5 where e5:
    "uu_sched_setscheduler bmq_config root_env 2 (fifo50_attr\<lparr>sched_policy := 4\<rparr>) False True
       busy_state = Inr (r5, s5)"
    by (simp add: attr_defs const_defs)
  obtain r6 s6 where e6:
    "uu_sched_setscheduler bmq_config root_env 2 (fifo50_attr\<lparr>sched_policy := SETPARAM_POLICY\<rparr>)
       False True busy_state = Inr (r6, s6)"
    by (simp add: attr_defs example_defs const_defs)
  have sr: "\<not> isl (sys_sched_setscheduler bmq_config root_env 2 SCHED_RR 10 busy_state)"
    "fst (projr (sys_sched_setscheduler bmq_config root_env 2 SCHED_RR 10 busy_state)) = 0"
    "policy (tasks (snd (projr
       (sys_sched_setscheduler bmq_config root_env 2 SCHED_RR 10 busy_state))) 2) = SCHED_RR"
    by (simp_all add: sys_sched_setscheduler_def u_sched_setscheduler_def
        attr_defs pi_defs example_defs queue_defs const_defs)
  obtain r7 s7 where e7:
    "sys_sched_setscheduler bmq_config root_env 2 SCHED_RR 10 busy_state = Inr (r7, s7)"
    using sr(1) by (cases "sys_sched_setscheduler bmq_config root_env 2 SCHED_RR 10 busy_state") auto
  obtain r8 s8 where e8:
    "sys_sched_setscheduler bmq_config root_env 2 (- 1) 50 busy_state = Inr (r8, s8)"
    by (simp add: sys_sched_setscheduler_def)
  obtain r9 s9 where e9:
    "sys_sched_setscheduler bmq_config root_env 2 SCHED_RR (- 3) busy_state = Inr (r9, s9)"
    by (simp add: sys_sched_setscheduler_def u_sched_setscheduler_def attr_defs example_defs
        const_defs)
  obtain ra sa where ea:
    "sys_sched_setscheduler bmq_config root_env 2 7 0 busy_state = Inr (ra, sa)"
    by (simp add: sys_sched_setscheduler_def u_sched_setscheduler_def attr_defs example_defs
        const_defs)
  have v0: "policy (tasks s0 2) = SCHED_FIFO"
    using setscheduler_validates [where cfg = bmq_config and env = root_env and p = 2 and
        user = False and pi = True and s = busy_state and ret = r0 and s' = s0] e0 ok(2)
    by (simp add: fifo50_attr_def const_defs)
  have v1: "r1 = - EINVAL \<and> s1 = busy_state"
    using setscheduler_validates [where cfg = bmq_config and env = root_env and p = 2 and
        user = False and pi = True and s = busy_state and ret = r1 and s' = s1] e1
    by (simp add: fifo50_attr_def const_defs)
  have v2: "r2 = - EINVAL \<and> s2 = busy_state"
    using setscheduler_validates [where cfg = bmq_config and env = root_env and p = 2 and
        user = False and pi = True and s = busy_state and ret = r2 and s' = s2] e2
    by (simp add: fifo50_attr_def const_defs)
  have v3: "r3 = - EINVAL \<and> s3 = busy_state"
    using setscheduler_validates [where cfg = bmq_config and env = root_env and p = 2 and
        user = False and pi = True and s = busy_state and ret = r3 and s' = s3] e3
    by (simp add: fifo50_attr_def const_defs)
  have v4: "uu_sched_setscheduler bmq_config root_env 2 dl_squash_attr False True busy_state =
      Inr (r4, s4)"
    using setscheduler_validates [where cfg = bmq_config and env = root_env and p = 2 and
        user = False and pi = True and s = busy_state and ret = r4 and s' = s4] e4
    by simp
  have v5: "r5 = - EINVAL \<and> s5 = busy_state"
    using setscheduler_validates [where cfg = bmq_config and env = root_env and p = 2 and
        user = False and pi = True and s = busy_state and ret = r5 and s' = s5] e5
    by (simp add: fifo50_attr_def const_defs)
  have v6: "r6 = - EINVAL \<and> s6 = busy_state"
    using setscheduler_validates [where cfg = bmq_config and env = root_env and p = 2 and
        user = False and pi = True and s = busy_state and ret = r6 and s' = s6] e6 np
    by (simp add: fifo50_attr_def rt_policy_def const_defs)
  have v7: "policy (tasks s7 2) = SCHED_RR"
    using e7 sr(3) by simp
  have v8: "r8 = - EINVAL \<and> s8 = busy_state"
    using setscheduler_validates [where cfg = bmq_config and env = root_env and p = 2 and
        s = busy_state and pp = 50 and pol = "- 1" and rv = r8 and sf = s8] e8
    by simp
  have v9: "r9 = - EINVAL \<and> s9 = busy_state"
    using setscheduler_validates [where cfg = bmq_config and env = root_env and p = 2 and
        s = busy_state and pp = "- 3" and pol = SCHED_RR and rv = r9 and sf = s9] e9
    by (simp add: rt_policy_def const_defs unset_bit_eq)
  have va: "ra = - EINVAL \<and> sa = busy_state"
    using setscheduler_validates [where cfg = bmq_config and env = root_env and p = 2 and
        s = busy_state and pp = 0 and pol = 7 and rv = ra and sf = sa] ea
    by (simp add: rt_policy_def const_defs unset_bit_eq)
  show ?thesis
    using ok dl np sr e0 e1 e2 e3 e4 e5 e6 e7 e8 e9 ea v0 v1 v2 v3 v4 v5 v6 v7 v8 v9 va by simp
qed

text \<open>
  The claim as the specification words it fails for a policy outside the policies it
  names. The system call \<^verbatim>\<open>sched_setscheduler\<close> with the policy number 4 and priority 0
  succeeds and makes 4 the policy of the task. With the policy -1, as
  \<^verbatim>\<open>sched_setparam\<close> passes it to \<^verbatim>\<open>_sched_setscheduler\<close>, the call succeeds and
  changes \<^verbatim>\<open>rt_priority\<close> of a \<^verbatim>\<open>SCHED_FIFO\<close> task, whose policy it keeps.
\<close>

theorem setscheduler_counterexample:
  "(4::int) \<notin> {SCHED_NORMAL, SCHED_FIFO, SCHED_RR, SCHED_BATCH, SCHED_IDLE, SCHED_DEADLINE} \<and>
   policy (tasks busy_state 2) = SCHED_NORMAL \<and>
   \<not> isl (sys_sched_setscheduler bmq_config root_env 2 4 0 busy_state) \<and>
   fst (projr (sys_sched_setscheduler bmq_config root_env 2 4 0 busy_state)) = 0 \<and>
   policy (tasks (snd (projr (sys_sched_setscheduler bmq_config root_env 2 4 0 busy_state))) 2) = 4 \<and>
   policy (tasks rt_run_state 2) = SCHED_FIFO \<and> rt_priority (tasks rt_run_state 2) = 49 \<and>
   \<not> isl (u_sched_setscheduler bmq_config root_env 2 (- 1) 60 True rt_run_state) \<and>
   fst (projr (u_sched_setscheduler bmq_config root_env 2 (- 1) 60 True rt_run_state)) = 0 \<and>
   policy (tasks (snd (projr
     (u_sched_setscheduler bmq_config root_env 2 (- 1) 60 True rt_run_state))) 2) = SCHED_FIFO \<and>
   rt_priority (tasks (snd (projr
     (u_sched_setscheduler bmq_config root_env 2 (- 1) 60 True rt_run_state))) 2) = 60"
  by (simp add: sys_sched_setscheduler_def u_sched_setscheduler_def
      attr_defs pi_defs yield_defs example_defs queue_defs const_defs)
subsection \<open>CPU selection\<close>



end
